theory Spec2Isabelle
  imports Complex_Main
begin

section \<open>Data model (lib/types.ts, src/unnamed/part_000)\<close>

datatype DatabaseType = cassandra | mongo | cockroach

datatype OperationType = op_read | op_write | op_update

text \<open>
  A TestRecord, as \<open>generateTestData\<close> builds it. JavaScript numbers that only ever hold
  integers are \<open>int\<close>; \<open>created_at\<close> is the millisecond reading of the clock.
\<close>

record TestRecord =
  rec_id :: string
  user_id :: int
  rec_name :: string
  email :: string
  rec_age :: int
  created_at :: int
  data :: string

text \<open>
  A TestResult. The optional field \<open>error\<close> is \<open>None\<close> when the object literal has no
  \<open>error\<close> key.
\<close>

record TestResult =
  database :: string
  operation :: OperationType
  timeTaken :: int
  recordCount :: int
  dataIntegrity :: bool
  error :: "string option"

section \<open>The outside world\<close>

text \<open>
  Everything the program does not compute itself (the three database servers, the system
  clock, the random source of the uuid library, timers) is a world of type \<open>'w\<close>.
  An awaited call is a function from the world to an outcome and the world after it;
  \<open>Inl msg\<close> is a rejected promise or a thrown \<open>Error\<close> whose \<open>message\<close> is \<open>msg\<close>.
\<close>

type_synonym ('w, 'a) io = "'w \<Rightarrow> (string + 'a) \<times> 'w"

text \<open>
  A value read from a column whose JavaScript type depends on the driver: the pg driver
  hands some integer columns over as strings, a missing field is \<open>undefined\<close>.
\<close>

datatype jsval = JUndefined | JNull | JNum int | JStr string

text \<open>
  A row (or document) of \<open>test_data\<close> as a driver returns it, restricted to the three
  columns the adapters look at. The identifier is the primary key and always a string;
  the text column \<open>name\<close> is a string or absent (\<open>None\<close> for null or undefined).
\<close>

record row =
  row_id :: string
  row_name :: "string option"
  row_age :: jsval

text \<open>
  The statements the adapters send through cassandra-driver's \<open>Client.execute\<close> and through
  pg's \<open>Client.query\<close>, one field per statement text. The identifier parameter of the
  single-row select is \<open>None\<close> when the adapter passes \<open>undefined\<close>.
\<close>

record 'w sql_client =
  sql_insert :: "TestRecord \<Rightarrow> ('w, unit) io"
  sql_select_ids :: "nat \<Rightarrow> ('w, row list) io"
  sql_select_by_id :: "string option \<Rightarrow> ('w, row list) io"
  sql_update :: "string \<Rightarrow> int \<Rightarrow> string \<Rightarrow> ('w, unit) io"

text \<open>
  The calls on the MongoDB collection \<open>test_data\<close>: \<open>insertMany\<close>,
  \<open>find({}).limit(n).toArray()\<close>, \<open>findOne({id})\<close> and
  \<open>updateOne({id}, {$set: {name, age}})\<close>.
\<close>

record 'w mongo_collection =
  insertMany :: "TestRecord list \<Rightarrow> ('w, unit) io"
  find_limit :: "nat \<Rightarrow> ('w, row list) io"
  findOne :: "string option \<Rightarrow> ('w, row option) io"
  updateOne :: "string \<Rightarrow> string \<Rightarrow> int \<Rightarrow> ('w, unit) io"

text \<open>
  The environment: the clock (\<open>Date.now()\<close>, \<open>new Date()\<close>), the uuid library, timers
  (\<open>await new Promise(resolve => setTimeout(resolve, ms))\<close>), the timing of concurrent
  requests (\<open>first_rejected\<close>: when several requests of one \<open>Promise.all\<close> group are
  rejected, the position among them of the one rejected first) and the steps of the three
  connection routines of lib/dbConnectors.ts that talk to a server.
\<close>

record 'w env =
  Date_now :: "'w \<Rightarrow> int"
  uuidv4 :: "'w \<Rightarrow> string \<times> 'w"
  sleep :: "nat \<Rightarrow> 'w \<Rightarrow> 'w"
  first_rejected :: "'w \<Rightarrow> nat"
  cassandra_create_keyspace :: "('w, unit) io"
  cassandra_new_client :: "'w sql_client"
  cassandra_create_table :: "('w, unit) io"
  mongo_connect :: "('w, unit) io"
  mongo_db :: "'w mongo_collection"
  mongo_createIndex :: "('w, unit) io"
  cockroach_temp_connect :: "('w, unit) io"
  cockroach_create_database :: "('w, unit) io"
  cockroach_temp_end :: "('w, unit) io"
  cockroach_new_client :: "'w sql_client"
  cockroach_connect :: "('w, unit) io"
  cockroach_create_table :: "('w, unit) io"

section \<open>Workload generator (lib/runTest.ts, generateTestData)\<close>

text \<open>The source of lib/runTest.ts is the second part of src/lib/dbConnectors.ts.\<close>

text \<open>Decimal rendering of a non-negative integer inside a template string.\<close>

fun num_to_string :: "nat \<Rightarrow> string" where
  "num_to_string n =
     (if n < 10 then [''0123456789'' ! n]
      else num_to_string (n div 10) @ [''0123456789'' ! (n mod 10)])"

declare num_to_string.simps [simp del]

definition RECORD_COUNT :: nat where
  "RECORD_COUNT = 10000"

text \<open>
  The \<open>for (let i = 0; i < count; i++)\<close> loop with its accumulator \<open>records\<close>. Each
  iteration draws one uuid and then reads the clock, in the order of the object literal.
\<close>

function generateTestData_loop ::
  "'w env \<Rightarrow> nat \<Rightarrow> nat \<Rightarrow> TestRecord list \<Rightarrow> 'w \<Rightarrow> TestRecord list \<times> 'w" where
  "generateTestData_loop env count i records w =
     (if i < count then
        (case uuidv4 env w of (u, w1) \<Rightarrow>
           generateTestData_loop env count (i + 1)
             (records @
              [\<lparr> rec_id = u,
                 user_id = int i + 1,
                 rec_name = ''User '' @ num_to_string (i + 1),
                 email = ''user'' @ num_to_string (i + 1) @ ''@example.com'',
                 rec_age = 20 + int i mod 50,
                 created_at = Date_now env w1,
                 data = ''Test data for user '' @ num_to_string (i + 1) \<rparr>])
             w1)
      else (records, w))"
  by pat_completeness auto
termination
  by (relation "measure (\<lambda>(env, count, i, records, w). count - i)") auto

declare generateTestData_loop.simps [simp del]

definition generateTestData :: "'w env \<Rightarrow> nat \<Rightarrow> 'w \<Rightarrow> TestRecord list \<times> 'w" where
  "generateTestData env count w = generateTestData_loop env count 0 [] w"

text \<open>The values that \<open>n\<close> successive calls of \<open>uuidv4\<close> return, starting in world \<open>w\<close>.\<close>

fun uuid_draws :: "'w env \<Rightarrow> nat \<Rightarrow> 'w \<Rightarrow> string list" where
  "uuid_draws env 0 w = []"
| "uuid_draws env (Suc n) w = (case uuidv4 env w of (u, w1) \<Rightarrow> u # uuid_draws env n w1)"

section \<open>Awaited calls, failures and fan-out\<close>

definition io_return :: "'a \<Rightarrow> ('w, 'a) io" where
  "io_return v = (\<lambda>w. (Inr v, w))"

definition io_throw :: "string \<Rightarrow> ('w, 'a) io" where
  "io_throw msg = (\<lambda>w. (Inl msg, w))"

text \<open>\<open>const v = await m; ...\<close>: a failure of \<open>m\<close> skips the rest of the block.\<close>

definition io_bind :: "('w, 'a) io \<Rightarrow> ('a \<Rightarrow> ('w, 'b) io) \<Rightarrow> ('w, 'b) io" where
  "io_bind m f = (\<lambda>w. case m w of (Inl msg, w1) \<Rightarrow> (Inl msg, w1) | (Inr v, w1) \<Rightarrow> f v w1)"

text \<open>
  \<open>try { return body } catch (err) { return handler(err.message) }\<close>: the handler runs in
  the world the failing step left behind.
\<close>

definition try_catch :: "('w, 'a) io \<Rightarrow> (string \<Rightarrow> 'w \<Rightarrow> 'a \<times> 'w) \<Rightarrow> 'w \<Rightarrow> 'a \<times> 'w" where
  "try_catch body handler =
     (\<lambda>w. case body w of (Inr v, w1) \<Rightarrow> (v, w1) | (Inl msg, w1) \<Rightarrow> handler msg w1)"

text \<open>
  \<open>await Promise.all(xs.map(f))\<close>. The \<open>map\<close> creates all promises before anything is
  awaited: every request of the group is issued, whether or not another one fails
  (\<open>run_all\<close>, which runs the requests in the order of the array and keeps every outcome).
  The group resolves to all the values when no request is rejected. Otherwise it rejects
  with the rejection that comes first in time; which one that is depends on the timing of
  the requests and is decided by the world (\<open>pick\<close>, an index into the rejections of the
  group, taken modulo their number). The model awaits the group as a unit: the code after
  it, also a catch block, runs in the world that all requests of the group have left.
\<close>

fun run_all :: "('w, 'a) io list \<Rightarrow> 'w \<Rightarrow> (string + 'a) list \<times> 'w" where
  "run_all [] w = ([], w)"
| "run_all (m # ms) w =
     (case m w of (r, w1) \<Rightarrow> (case run_all ms w1 of (rs, w2) \<Rightarrow> (r # rs, w2)))"

fun rejections :: "(string + 'a) list \<Rightarrow> string list" where
  "rejections [] = []"
| "rejections (Inl msg # rs) = msg # rejections rs"
| "rejections (Inr v # rs) = rejections rs"

fun fulfilled :: "(string + 'a) list \<Rightarrow> 'a list" where
  "fulfilled [] = []"
| "fulfilled (Inl msg # rs) = fulfilled rs"
| "fulfilled (Inr v # rs) = v # fulfilled rs"

definition promise_all :: "('w \<Rightarrow> nat) \<Rightarrow> ('w, 'a) io list \<Rightarrow> ('w, 'a list) io" where
  "promise_all pick ms w =
     (case run_all ms w of
        (rs, w1) \<Rightarrow>
          (case rejections rs of
             [] \<Rightarrow> (Inr (fulfilled rs), w1)
           | f # fs \<Rightarrow> (Inl ((f # fs) ! (pick w1 mod length (f # fs))), w1)))"

text \<open>\<open>xs.slice(a, b)\<close> for \<open>0 \<le> a \<le> b\<close>, and \<open>xs[0]\<close> (\<open>None\<close> is \<open>undefined\<close>).\<close>

definition slice :: "'a list \<Rightarrow> nat \<Rightarrow> nat \<Rightarrow> 'a list" where
  "slice xs a b = take (b - a) (drop a xs)"

definition first_elem :: "'a list \<Rightarrow> 'a option" where
  "first_elem xs = (case xs of [] \<Rightarrow> None | x # _ \<Rightarrow> Some x)"

section \<open>JavaScript coercions used by the verification steps\<close>

text \<open>Truthiness of a string that may be absent: \<open>undefined\<close>, \<open>null\<close> and \<open>""\<close> are falsy.\<close>

definition truthy :: "string option \<Rightarrow> bool" where
  "truthy s = (case s of None \<Rightarrow> False | Some t \<Rightarrow> t \<noteq> [])"

text \<open>\<open>s.includes(p)\<close>.\<close>

fun str_includes :: "string \<Rightarrow> string \<Rightarrow> bool" where
  "str_includes [] p = (p = [])"
| "str_includes (c # cs) p = (take (length p) (c # cs) = p \<or> str_includes cs p)"

fun index_of :: "'a \<Rightarrow> 'a list \<Rightarrow> nat option" where
  "index_of x [] = None"
| "index_of x (y # ys) = (if x = y then Some 0 else map_option Suc (index_of x ys))"

definition digit_of :: "char \<Rightarrow> nat option" where
  "digit_of c = index_of c ''0123456789''"

definition is_space :: "char \<Rightarrow> bool" where
  "is_space c = (c \<in> set [CHR '' '', CHR 0x09, CHR 0x0A, CHR 0x0B, CHR 0x0C, CHR 0x0D])"

text \<open>
  \<open>parseInt(s, 10)\<close>: leading white space is skipped, one sign is read, then the longest
  run of decimal digits; \<open>None\<close> is \<open>NaN\<close> (no digit found). Of the white space that
  ECMAScript strips, \<open>is_space\<close> has the ASCII characters only, and the value is the exact
  integer, where JavaScript rounds to a double beyond \<open>2^53\<close>: neither changes whether the
  value is 99 for the ages an integer column holds.
\<close>

definition parseInt :: "string \<Rightarrow> int option" where
  "parseInt s =
     (let s1 = dropWhile is_space s;
          neg = (case s1 of [] \<Rightarrow> False | c # _ \<Rightarrow> c = CHR ''-'');
          s2 = (case s1 of [] \<Rightarrow> [] | c # cs \<Rightarrow> if c = CHR ''-'' \<or> c = CHR ''+'' then cs else s1);
          ds = takeWhile (\<lambda>c. digit_of c \<noteq> None) s2;
          n = foldl (\<lambda>a c. 10 * a + int (the (digit_of c))) 0 ds
      in if ds = [] then None else Some (if neg then - n else n))"

text \<open>
  \<open>typeof v === 'string' ? parseInt(v, 10) : Number(v)\<close>; \<open>Number(null)\<close> is 0 and
  \<open>Number(undefined)\<close> is \<open>NaN\<close>.
\<close>

definition age_to_number :: "jsval \<Rightarrow> int option" where
  "age_to_number v =
     (case v of JStr s \<Rightarrow> parseInt s | JNum n \<Rightarrow> Some n | JNull \<Rightarrow> Some 0 | JUndefined \<Rightarrow> None)"

section \<open>Backend adapters (lib/runTest.ts)\<close>

definition NO_RECORDS :: string where
  "NO_RECORDS = ''No records found in database. Please run Write test first.''"

text \<open>The message of the TypeError that reading property \<open>p\<close> of \<open>undefined\<close> throws.\<close>

definition undefined_property :: "string \<Rightarrow> string" where
  "undefined_property p = ''Cannot read properties of undefined (reading '' @ [CHR 0x27] @ p @ [CHR 0x27] @ '')''"

text \<open>
  The write loop of the Cassandra and CockroachDB adapters:
  \<open>for (let i = 0; i < queries.length; i += batchSize)\<close> with \<open>batchSize = 100\<close>; each
  round awaits \<open>Promise.all\<close> over \<open>queries.slice(i, i + batchSize)\<close>.
\<close>

function insert_batches ::
  "('w \<Rightarrow> nat) \<Rightarrow> (TestRecord \<Rightarrow> ('w, unit) io) \<Rightarrow> TestRecord list \<Rightarrow> nat \<Rightarrow> ('w, unit) io" where
  "insert_batches pick ins queries i w =
     (if i < length queries then
        (case promise_all pick (map ins (slice queries i (i + 100))) w of
           (Inl msg, w1) \<Rightarrow> (Inl msg, w1)
         | (Inr _, w1) \<Rightarrow> insert_batches pick ins queries (i + 100) w1)
      else (Inr (), w))"
  by pat_completeness auto
termination
  by (relation "measure (\<lambda>(pick, ins, queries, i, w). length queries - i)") auto

declare insert_batches.simps [simp del]

definition failure_result ::
  "'w env \<Rightarrow> string \<Rightarrow> OperationType \<Rightarrow> int \<Rightarrow> nat \<Rightarrow> string \<Rightarrow> 'w \<Rightarrow> TestResult \<times> 'w" where
  \<comment> \<open>the object literal every adapter returns from its catch block\<close>
  "failure_result env db opn startTime requested msg =
     (\<lambda>w. (\<lparr> database = db, operation = opn,
              timeTaken = Date_now env w - startTime,
              recordCount = int requested,
              dataIntegrity = False,
              error = Some msg \<rparr>, w))"

definition no_records_result ::
  "'w env \<Rightarrow> string \<Rightarrow> OperationType \<Rightarrow> int \<Rightarrow> ('w, TestResult) io" where
  \<comment> \<open>the early return of the read and update adapters when discovery finds no row\<close>
  "no_records_result env db opn startTime =
     (\<lambda>w. (Inr \<lparr> database = db, operation = opn,
                  timeTaken = Date_now env w - startTime,
                  recordCount = 0,
                  dataIntegrity = False,
                  error = Some NO_RECORDS \<rparr>, w))"

definition success_result ::
  "'w env \<Rightarrow> string \<Rightarrow> OperationType \<Rightarrow> int \<Rightarrow> nat \<Rightarrow> bool \<Rightarrow> ('w, TestResult) io" where
  \<comment> \<open>the object literal at the end of every try block; it has no \<open>error\<close> key\<close>
  "success_result env db opn startTime processed integrity =
     (\<lambda>w. (Inr \<lparr> database = db, operation = opn,
                  timeTaken = Date_now env w - startTime,
                  recordCount = int processed,
                  dataIntegrity = integrity,
                  error = None \<rparr>, w))"

subsection \<open>Cassandra\<close>

text \<open>
  The verification step of \<open>runCassandraWriteTest\<close>: the statements of its try block after
  the inserts (\<open>records[0]\<close> of an empty array is \<open>undefined\<close>, and reading its
  \<open>id\<close> throws).
\<close>

definition runCassandraWriteTest_verify ::
  "'w env \<Rightarrow> 'w sql_client \<Rightarrow> TestRecord list \<Rightarrow> int \<Rightarrow> ('w, TestResult) io" where
  "runCassandraWriteTest_verify env c records startTime =
   (case first_elem records of
      None \<Rightarrow> io_throw (undefined_property ''id'')
    | Some verifyRecord \<Rightarrow>
        io_bind (sql_select_by_id c (Some (rec_id verifyRecord))) (\<lambda>rows.
        success_result env ''Cassandra'' op_write startTime (length records)
          (\<not> (rows = [] \<or> row_name (hd rows) \<noteq> Some (rec_name verifyRecord)))))"

text \<open>The try block of \<open>runCassandraWriteTest\<close>.\<close>

definition runCassandraWriteTest_try ::
  "'w env \<Rightarrow> 'w sql_client option \<Rightarrow> TestRecord list \<Rightarrow> int \<Rightarrow> ('w, TestResult) io" where
  "runCassandraWriteTest_try env client records startTime =
    (case client of
       None \<Rightarrow> io_throw ''Cassandra client not initialized''
     | Some c \<Rightarrow>
         io_bind (insert_batches (first_rejected env) (sql_insert c) records 0) (\<lambda>_.
         runCassandraWriteTest_verify env c records startTime))"

definition runCassandraWriteTest ::
  "'w env \<Rightarrow> 'w sql_client option \<Rightarrow> TestRecord list \<Rightarrow> 'w \<Rightarrow> TestResult \<times> 'w" where
  "runCassandraWriteTest env client records w =
     (let startTime = Date_now env w in
      try_catch
        (runCassandraWriteTest_try env client records startTime)
        (failure_result env ''Cassandra'' op_write startTime (length records))
        w)"

text \<open>The try block of \<open>runCassandraReadTest\<close>.\<close>

definition runCassandraReadTest_try ::
  "'w env \<Rightarrow> 'w sql_client option \<Rightarrow> string list \<Rightarrow> int \<Rightarrow> ('w, TestResult) io" where
  "runCassandraReadTest_try env client recordIds startTime =
    (case client of
       None \<Rightarrow> io_throw ''Cassandra client not initialized''
     | Some c \<Rightarrow>
         io_bind (sql_select_ids c (min (length recordIds) 1000)) (\<lambda>existingRecords.
         if existingRecords = [] then no_records_result env ''Cassandra'' op_read startTime
         else
           (let idsToRead =
                  map row_id (slice existingRecords 0 (min (length recordIds) 1000))
            in io_bind (promise_all (first_rejected env) (map (\<lambda>i. sql_select_by_id c (Some i)) idsToRead))
                 (\<lambda>results.
              io_bind
                (if list_ex (\<lambda>r. r = []) results then io_return False
                 else
                   (case results of
                      [] \<Rightarrow> io_throw (undefined_property ''rows'')
                    | r0 # _ \<Rightarrow>
                        (case r0 of
                           [] \<Rightarrow> io_return False
                         | firstResult # _ \<Rightarrow>
                             io_return (\<not> (row_id firstResult = []
                                           \<or> \<not> truthy (row_name firstResult))))))
                (\<lambda>dataIntegrity.
              success_result env ''Cassandra'' op_read startTime (length idsToRead)
                dataIntegrity)))))"

definition runCassandraReadTest ::
  "'w env \<Rightarrow> 'w sql_client option \<Rightarrow> string list \<Rightarrow> 'w \<Rightarrow> TestResult \<times> 'w" where
  "runCassandraReadTest env client recordIds w =
     (let startTime = Date_now env w in
      try_catch
        (runCassandraReadTest_try env client recordIds startTime)
        (failure_result env ''Cassandra'' op_read startTime (length recordIds))
        w)"

text \<open>The try block of \<open>runCassandraUpdateTest\<close>.\<close>

definition runCassandraUpdateTest_try ::
  "'w env \<Rightarrow> 'w sql_client option \<Rightarrow> string list \<Rightarrow> int \<Rightarrow> ('w, TestResult) io" where
  "runCassandraUpdateTest_try env client recordIds startTime =
    (case client of
       None \<Rightarrow> io_throw ''Cassandra client not initialized''
     | Some c \<Rightarrow>
         io_bind (sql_select_ids c (min (length recordIds) 1000)) (\<lambda>existingRecords.
         if existingRecords = [] then no_records_result env ''Cassandra'' op_update startTime
         else
           (let idsToUpdate =
                  map row_id (slice existingRecords 0 (min (length recordIds) 1000))
            in io_bind
                 (promise_all (first_rejected env)
                    (map (\<lambda>i. sql_update c (''Updated User '' @ i) 99 i) idsToUpdate))
                 (\<lambda>_.
              io_bind (sql_select_by_id c (first_elem idsToUpdate)) (\<lambda>verifyRows.
              success_result env ''Cassandra'' op_update startTime (length idsToUpdate)
                (\<not> (verifyRows = [] \<or> row_age (hd verifyRows) \<noteq> JNum 99)))))))"

definition runCassandraUpdateTest ::
  "'w env \<Rightarrow> 'w sql_client option \<Rightarrow> string list \<Rightarrow> 'w \<Rightarrow> TestResult \<times> 'w" where
  "runCassandraUpdateTest env client recordIds w =
     (let startTime = Date_now env w in
      try_catch
        (runCassandraUpdateTest_try env client recordIds startTime)
        (failure_result env ''Cassandra'' op_update startTime (length recordIds))
        w)"

subsection \<open>MongoDB\<close>

text \<open>
  The verification step of \<open>runMongoWriteTest\<close>: the statements of its try block after
  the inserts (\<open>records[0]\<close> of an empty array is \<open>undefined\<close>, and reading its
  \<open>id\<close> throws).
\<close>

definition runMongoWriteTest_verify ::
  "'w env \<Rightarrow> 'w mongo_collection \<Rightarrow> TestRecord list \<Rightarrow> int \<Rightarrow> ('w, TestResult) io" where
  "runMongoWriteTest_verify env collection records startTime =
   (case first_elem records of
      None \<Rightarrow> io_throw (undefined_property ''id'')
    | Some r0 \<Rightarrow>
        io_bind (findOne collection (Some (rec_id r0))) (\<lambda>verifyRecord.
        success_result env ''MongoDB'' op_write startTime (length records)
          (\<not> (case verifyRecord of
                 None \<Rightarrow> True
               | Some d \<Rightarrow> row_name d \<noteq> Some (rec_name r0)))))"

text \<open>The try block of \<open>runMongoWriteTest\<close>.\<close>

definition runMongoWriteTest_try ::
  "'w env \<Rightarrow> 'w mongo_collection option \<Rightarrow> TestRecord list \<Rightarrow> int \<Rightarrow> ('w, TestResult) io" where
  "runMongoWriteTest_try env db records startTime =
    (case db of
       None \<Rightarrow> io_throw ''MongoDB client not initialized''
     | Some collection \<Rightarrow>
         io_bind (insertMany collection records) (\<lambda>_.
         runMongoWriteTest_verify env collection records startTime))"

definition runMongoWriteTest ::
  "'w env \<Rightarrow> 'w mongo_collection option \<Rightarrow> TestRecord list \<Rightarrow> 'w \<Rightarrow> TestResult \<times> 'w" where
  "runMongoWriteTest env db records w =
     (let startTime = Date_now env w in
      try_catch
        (runMongoWriteTest_try env db records startTime)
        (failure_result env ''MongoDB'' op_write startTime (length records))
        w)"

text \<open>The try block of \<open>runMongoReadTest\<close>.\<close>

definition runMongoReadTest_try ::
  "'w env \<Rightarrow> 'w mongo_collection option \<Rightarrow> string list \<Rightarrow> int \<Rightarrow> ('w, TestResult) io" where
  "runMongoReadTest_try env db recordIds startTime =
    (case db of
       None \<Rightarrow> io_throw ''MongoDB client not initialized''
     | Some collection \<Rightarrow>
         io_bind (find_limit collection (length recordIds)) (\<lambda>existingRecords.
         if existingRecords = [] then no_records_result env ''MongoDB'' op_read startTime
         else
           (let idsToRead =
                  map row_id (slice existingRecords 0 (min (length recordIds) 1000))
            in io_bind (promise_all (first_rejected env) (map (\<lambda>i. findOne collection (Some i)) idsToRead))
                 (\<lambda>results.
              success_result env ''MongoDB'' op_read startTime (length idsToRead)
                (if list_ex (\<lambda>r. r = None) results then False
                 else
                   (case first_elem results of
                      None \<Rightarrow> False
                    | Some None \<Rightarrow> False
                    | Some (Some firstResult) \<Rightarrow>
                        \<not> (row_id firstResult = [] \<or> \<not> truthy (row_name firstResult))))))))"

definition runMongoReadTest ::
  "'w env \<Rightarrow> 'w mongo_collection option \<Rightarrow> string list \<Rightarrow> 'w \<Rightarrow> TestResult \<times> 'w" where
  "runMongoReadTest env db recordIds w =
     (let startTime = Date_now env w in
      try_catch
        (runMongoReadTest_try env db recordIds startTime)
        (failure_result env ''MongoDB'' op_read startTime (length recordIds))
        w)"

text \<open>The try block of \<open>runMongoUpdateTest\<close>.\<close>

definition runMongoUpdateTest_try ::
  "'w env \<Rightarrow> 'w mongo_collection option \<Rightarrow> string list \<Rightarrow> int \<Rightarrow> ('w, TestResult) io" where
  "runMongoUpdateTest_try env db recordIds startTime =
    (case db of
       None \<Rightarrow> io_throw ''MongoDB client not initialized''
     | Some collection \<Rightarrow>
         io_bind (find_limit collection (length recordIds)) (\<lambda>existingRecords.
         if existingRecords = [] then no_records_result env ''MongoDB'' op_update startTime
         else
           (let idsToUpdate =
                  map row_id (slice existingRecords 0 (min (length recordIds) 1000))
            in io_bind
                 (promise_all (first_rejected env)
                    (map (\<lambda>i. updateOne collection i (''Updated User '' @ i) 99) idsToUpdate))
                 (\<lambda>_.
              io_bind (findOne collection (first_elem idsToUpdate)) (\<lambda>verifyRecord.
              success_result env ''MongoDB'' op_update startTime (length idsToUpdate)
                (\<not> (case verifyRecord of
                       None \<Rightarrow> True
                     | Some d \<Rightarrow> row_age d \<noteq> JNum 99)))))))"

definition runMongoUpdateTest ::
  "'w env \<Rightarrow> 'w mongo_collection option \<Rightarrow> string list \<Rightarrow> 'w \<Rightarrow> TestResult \<times> 'w" where
  "runMongoUpdateTest env db recordIds w =
     (let startTime = Date_now env w in
      try_catch
        (runMongoUpdateTest_try env db recordIds startTime)
        (failure_result env ''MongoDB'' op_update startTime (length recordIds))
        w)"

subsection \<open>CockroachDB\<close>

text \<open>
  The verification step of \<open>runCockroachWriteTest\<close>: the statements of its try block after
  the inserts (\<open>records[0]\<close> of an empty array is \<open>undefined\<close>, and reading its
  \<open>id\<close> throws).
\<close>

definition runCockroachWriteTest_verify ::
  "'w env \<Rightarrow> 'w sql_client \<Rightarrow> TestRecord list \<Rightarrow> int \<Rightarrow> ('w, TestResult) io" where
  "runCockroachWriteTest_verify env c records startTime =
   (case first_elem records of
      None \<Rightarrow> io_throw (undefined_property ''id'')
    | Some r0 \<Rightarrow>
        io_bind (sql_select_by_id c (Some (rec_id r0))) (\<lambda>rows.
        success_result env ''CockroachDB'' op_write startTime (length records)
          (case rows of
             [] \<Rightarrow> False
           | row # _ \<Rightarrow> truthy (row_name row) \<and> row_name row = Some (rec_name r0))))"

text \<open>The try block of \<open>runCockroachWriteTest\<close>.\<close>

definition runCockroachWriteTest_try ::
  "'w env \<Rightarrow> 'w sql_client option \<Rightarrow> TestRecord list \<Rightarrow> int \<Rightarrow> ('w, TestResult) io" where
  "runCockroachWriteTest_try env client records startTime =
    (case client of
       None \<Rightarrow> io_throw ''CockroachDB client not initialized''
     | Some c \<Rightarrow>
         io_bind (insert_batches (first_rejected env) (sql_insert c) records 0) (\<lambda>_.
         runCockroachWriteTest_verify env c records startTime))"

definition runCockroachWriteTest ::
  "'w env \<Rightarrow> 'w sql_client option \<Rightarrow> TestRecord list \<Rightarrow> 'w \<Rightarrow> TestResult \<times> 'w" where
  "runCockroachWriteTest env client records w =
     (let startTime = Date_now env w in
      try_catch
        (runCockroachWriteTest_try env client records startTime)
        (failure_result env ''CockroachDB'' op_write startTime (length records))
        w)"

text \<open>The try block of \<open>runCockroachReadTest\<close>.\<close>

definition runCockroachReadTest_try ::
  "'w env \<Rightarrow> 'w sql_client option \<Rightarrow> string list \<Rightarrow> int \<Rightarrow> ('w, TestResult) io" where
  "runCockroachReadTest_try env client recordIds startTime =
    (case client of
       None \<Rightarrow> io_throw ''CockroachDB client not initialized''
     | Some c \<Rightarrow>
         io_bind (sql_select_ids c (length recordIds)) (\<lambda>existingRecords.
         if existingRecords = [] then no_records_result env ''CockroachDB'' op_read startTime
         else
           (let idsToRead =
                  map row_id (slice existingRecords 0 (min (length recordIds) 1000))
            in io_bind (promise_all (first_rejected env) (map (\<lambda>i. sql_select_by_id c (Some i)) idsToRead))
                 (\<lambda>results.
              io_bind
                (if list_ex (\<lambda>r. r = []) results then io_return False
                 else
                   (case results of
                      [] \<Rightarrow> io_throw (undefined_property ''rows'')
                    | r0 # _ \<Rightarrow>
                        (case r0 of
                           [] \<Rightarrow> io_return False
                         | firstResult # _ \<Rightarrow>
                             if row_id firstResult = [] \<or> \<not> truthy (row_name firstResult)
                             then io_return False
                             else io_return (row_age firstResult \<noteq> JNull
                                             \<and> row_age firstResult \<noteq> JUndefined))))
                (\<lambda>dataIntegrity.
              success_result env ''CockroachDB'' op_read startTime (length idsToRead)
                dataIntegrity)))))"

definition runCockroachReadTest ::
  "'w env \<Rightarrow> 'w sql_client option \<Rightarrow> string list \<Rightarrow> 'w \<Rightarrow> TestResult \<times> 'w" where
  "runCockroachReadTest env client recordIds w =
     (let startTime = Date_now env w in
      try_catch
        (runCockroachReadTest_try env client recordIds startTime)
        (failure_result env ''CockroachDB'' op_read startTime (length recordIds))
        w)"

text \<open>The try block of \<open>runCockroachUpdateTest\<close>.\<close>

definition runCockroachUpdateTest_try ::
  "'w env \<Rightarrow> 'w sql_client option \<Rightarrow> string list \<Rightarrow> int \<Rightarrow> ('w, TestResult) io" where
  "runCockroachUpdateTest_try env client recordIds startTime =
    (case client of
       None \<Rightarrow> io_throw ''CockroachDB client not initialized''
     | Some c \<Rightarrow>
         io_bind (sql_select_ids c (length recordIds)) (\<lambda>existingRecords.
         if existingRecords = [] then no_records_result env ''CockroachDB'' op_update startTime
         else
           (let idsToUpdate =
                  map row_id (slice existingRecords 0 (min (length recordIds) 1000))
            in io_bind
                 (promise_all (first_rejected env)
                    (map (\<lambda>i. sql_update c (''Updated User '' @ i) 99 i) idsToUpdate))
                 (\<lambda>_.
              io_bind (\<lambda>w1. (Inr (), sleep env 100 w1)) (\<lambda>_.
              io_bind (sql_select_by_id c (first_elem idsToUpdate)) (\<lambda>verifyRows.
              success_result env ''CockroachDB'' op_update startTime (length idsToUpdate)
                (case verifyRows of
                   [] \<Rightarrow> False
                 | row # _ \<Rightarrow>
                     (let ageValue = age_to_number (row_age row);
                          nameMatches = (truthy (row_name row)
                                         \<and> str_includes (the (row_name row)) ''Updated User'')
                      in \<not> (ageValue \<noteq> Some 99 \<or> \<not> nameMatches)))))))))"

definition runCockroachUpdateTest ::
  "'w env \<Rightarrow> 'w sql_client option \<Rightarrow> string list \<Rightarrow> 'w \<Rightarrow> TestResult \<times> 'w" where
  "runCockroachUpdateTest env client recordIds w =
     (let startTime = Date_now env w in
      try_catch
        (runCockroachUpdateTest_try env client recordIds startTime)
        (failure_result env ''CockroachDB'' op_update startTime (length recordIds))
        w)"

section \<open>Connection registry (lib/dbConnectors.ts)\<close>

text \<open>
  The module-level variables \<open>cassandraClient\<close>, \<open>mongoClient\<close>, \<open>mongoDb\<close> and
  \<open>cockroachClient\<close> (\<open>None\<close> is \<open>null\<close>; of \<open>mongoClient\<close> only whether it is set matters),
  together with the world.
\<close>

record 'w state =
  cassandraClient :: "'w sql_client option"
  mongoClient :: bool
  mongoDb :: "'w mongo_collection option"
  cockroachClient :: "'w sql_client option"
  world :: 'w

text \<open>
  \<open>connectCassandra\<close>: the cached client is returned if there is one. Otherwise a
  temporary client creates the keyspace and is shut down, then the module variable is
  assigned, and only then the table is created: a failure of that last statement is
  rethrown with the variable already set.
\<close>

definition connectCassandra :: "'w env \<Rightarrow> 'w state \<Rightarrow> (string + unit) \<times> 'w state" where
  "connectCassandra env st =
     (case cassandraClient st of
        Some c \<Rightarrow> (Inr (), st)
      | None \<Rightarrow>
          (case cassandra_create_keyspace env (world st) of
             (Inl msg, w1) \<Rightarrow> (Inl msg, st\<lparr>world := w1\<rparr>)
           | (Inr _, w1) \<Rightarrow>
               (case cassandra_create_table env w1 of
                  (Inl msg, w2) \<Rightarrow>
                    (Inl msg, st\<lparr>cassandraClient := Some (cassandra_new_client env), world := w2\<rparr>)
                | (Inr _, w2) \<Rightarrow>
                    (Inr (), st\<lparr>cassandraClient := Some (cassandra_new_client env), world := w2\<rparr>))))"

text \<open>
  \<open>connectMongoDB\<close>: a failure of \<open>mongoClient.connect()\<close> propagates (this function has
  no try block around it) and leaves \<open>mongoClient\<close> set; every failure of \<open>createIndex\<close>
  is swallowed.
\<close>

definition connectMongoDB :: "'w env \<Rightarrow> 'w state \<Rightarrow> (string + unit) \<times> 'w state" where
  "connectMongoDB env st =
     (case mongoDb st of
        Some d \<Rightarrow> (Inr (), st)
      | None \<Rightarrow>
          (case (if \<not> mongoClient st then mongo_connect env (world st) else (Inr (), world st)) of
             (Inl msg, w1) \<Rightarrow> (Inl msg, st\<lparr>mongoClient := True, world := w1\<rparr>)
           | (Inr _, w1) \<Rightarrow>
               (case mongo_createIndex env w1 of
                  (_, w2) \<Rightarrow>
                    (Inr (), st\<lparr>mongoClient := True, mongoDb := Some (mongo_db env), world := w2\<rparr>))))"

text \<open>
  \<open>connectCockroachDB\<close>: a failure of \<open>CREATE DATABASE\<close> is ignored exactly when its
  message contains \<open>already exists\<close>.
\<close>

definition connectCockroachDB :: "'w env \<Rightarrow> 'w state \<Rightarrow> (string + unit) \<times> 'w state" where
  "connectCockroachDB env st =
     (case cockroachClient st of
        Some c \<Rightarrow> (Inr (), st)
      | None \<Rightarrow>
          (case io_bind (cockroach_temp_connect env) (\<lambda>_.
                io_bind (\<lambda>w. case cockroach_create_database env w of
                                (Inl msg, w1) \<Rightarrow>
                                  if \<not> str_includes msg ''already exists'' then (Inl msg, w1)
                                  else (Inr (), w1)
                              | (Inr u, w1) \<Rightarrow> (Inr u, w1)) (\<lambda>_.
                cockroach_temp_end env)) (world st) of
             (Inl msg, w1) \<Rightarrow> (Inl msg, st\<lparr>world := w1\<rparr>)
           | (Inr _, w1) \<Rightarrow>
               (case io_bind (cockroach_connect env) (\<lambda>_. cockroach_create_table env) w1 of
                  (Inl msg, w2) \<Rightarrow>
                    (Inl msg, st\<lparr>cockroachClient := Some (cockroach_new_client env), world := w2\<rparr>)
                | (Inr _, w2) \<Rightarrow>
                    (Inr (), st\<lparr>cockroachClient := Some (cockroach_new_client env), world := w2\<rparr>))))"

section \<open>Test orchestrator (lib/runTest.ts, runTest)\<close>

definition dbType_string :: "DatabaseType \<Rightarrow> string" where
  "dbType_string d = (case d of cassandra \<Rightarrow> ''cassandra'' | mongo \<Rightarrow> ''mongo'' | cockroach \<Rightarrow> ''cockroach'')"

definition connect :: "'w env \<Rightarrow> DatabaseType \<Rightarrow> 'w state \<Rightarrow> (string + unit) \<times> 'w state" where
  "connect env dbType st =
     (case dbType of
        cassandra \<Rightarrow> connectCassandra env st
      | mongo \<Rightarrow> connectMongoDB env st
      | cockroach \<Rightarrow> connectCockroachDB env st)"

text \<open>
  The second \<open>switch\<close> of \<open>runTest\<close>: the adapter of the cell, on the client the registry
  holds. The type of the two arguments leaves no other case, so the final
  \<open>throw new Error('Unsupported database type')\<close> is not reached.
\<close>

definition run_adapter ::
  "'w env \<Rightarrow> 'w state \<Rightarrow> DatabaseType \<Rightarrow> OperationType \<Rightarrow> TestRecord list \<Rightarrow> 'w \<Rightarrow> TestResult \<times> 'w" where
  "run_adapter env st dbType opn testRecords =
     (let recordIds = map rec_id testRecords in
      case dbType of
        cassandra \<Rightarrow>
          (case opn of
             op_write \<Rightarrow> runCassandraWriteTest env (cassandraClient st) testRecords
           | op_read \<Rightarrow> runCassandraReadTest env (cassandraClient st) (slice recordIds 0 1000)
           | op_update \<Rightarrow> runCassandraUpdateTest env (cassandraClient st) (slice recordIds 0 1000))
      | mongo \<Rightarrow>
          (case opn of
             op_write \<Rightarrow> runMongoWriteTest env (mongoDb st) testRecords
           | op_read \<Rightarrow> runMongoReadTest env (mongoDb st) (slice recordIds 0 1000)
           | op_update \<Rightarrow> runMongoUpdateTest env (mongoDb st) (slice recordIds 0 1000))
      | cockroach \<Rightarrow>
          (case opn of
             op_write \<Rightarrow> runCockroachWriteTest env (cockroachClient st) testRecords
           | op_read \<Rightarrow> runCockroachReadTest env (cockroachClient st) (slice recordIds 0 1000)
           | op_update \<Rightarrow> runCockroachUpdateTest env (cockroachClient st) (slice recordIds 0 1000)))"

definition runTest :: "'w env \<Rightarrow> DatabaseType \<Rightarrow> OperationType \<Rightarrow> 'w state \<Rightarrow> TestResult \<times> 'w state" where
  "runTest env dbType opn st =
     (case connect env dbType st of
        (Inl msg, st1) \<Rightarrow>
          (\<lparr> database = dbType_string dbType, operation = opn, timeTaken = 0,
             recordCount = 0, dataIntegrity = False, error = Some msg \<rparr>, st1)
      | (Inr _, st1) \<Rightarrow>
          (case generateTestData env RECORD_COUNT (world st1) of
             (testRecords, w2) \<Rightarrow>
               (case run_adapter env st1 dbType opn testRecords w2 of
                  (result, w3) \<Rightarrow> (result, st1\<lparr>world := w3\<rparr>))))"

section \<open>Request handlers\<close>

text \<open>
  The three handlers call \<open>runTest\<close> inside a try block of their own. To keep that block
  in the model, each handler is first written over any cell runner \<open>run\<close> that may fail
  (\<open>Inl msg\<close> is a rejection with message \<open>msg\<close>) and any timer \<open>pause\<close>, on any state
  \<open>'s\<close>; the handler of the program is the instance at \<open>runTest\<close>, which never rejects.
  Outside that block no step of a handler can fail, so the outer catch (status 500, or a
  final error event) has no counterpart. The human-readable \<open>message\<close> of a status
  event is display text and is left out.
\<close>

definition runTest_io ::
  "'w env \<Rightarrow> DatabaseType \<Rightarrow> OperationType \<Rightarrow> 'w state \<Rightarrow> (string + TestResult) \<times> 'w state" where
  "runTest_io env dbType opn st = (case runTest env dbType opn st of (r, st1) \<Rightarrow> (Inr r, st1))"

definition pause_world :: "'w env \<Rightarrow> nat \<Rightarrow> 'w state \<Rightarrow> 'w state" where
  "pause_world env ms st = st\<lparr>world := sleep env ms (world st)\<rparr>"

definition databases :: "DatabaseType list" where
  "databases = [cassandra, mongo, cockroach]"

definition operations :: "OperationType list" where
  "operations = [op_write, op_read, op_update]"

definition dbLabels :: "DatabaseType \<Rightarrow> string" where
  "dbLabels d = (case d of cassandra \<Rightarrow> ''Cassandra'' | mongo \<Rightarrow> ''MongoDB'' | cockroach \<Rightarrow> ''CockroachDB'')"

definition errorResult :: "DatabaseType \<Rightarrow> OperationType \<Rightarrow> string \<Rightarrow> TestResult" where
  \<comment> \<open>the result the buffered and the streamed handler push from their catch block\<close>
  "errorResult db opn msg =
     \<lparr> database = dbType_string db, operation = opn, timeTaken = 0, recordCount = 0,
       dataIntegrity = False, error = Some msg \<rparr>"

text \<open>\<open>Math.round\<close>: the nearest integer, a tie going up.\<close>

definition Math_round :: "real \<Rightarrow> int" where
  "Math_round x = \<lfloor>x + 1 / 2\<rfloor>"

subsection \<open>Buffered full matrix (pages/api/test/all.ts)\<close>

record summary =
  totalTests :: nat
  successfulTests :: nat
  failedTests :: nat
  totalTime :: int

datatype all_response = MethodNotAllowed | Ok "TestResult list" summary

fun all_operations_loop ::
  "(DatabaseType \<Rightarrow> OperationType \<Rightarrow> 's \<Rightarrow> (string + TestResult) \<times> 's) \<Rightarrow> (nat \<Rightarrow> 's \<Rightarrow> 's) \<Rightarrow>
   DatabaseType \<Rightarrow> OperationType list \<Rightarrow> TestResult list \<Rightarrow> 's \<Rightarrow> TestResult list \<times> 's" where
  "all_operations_loop run pause db [] allResults st = (allResults, st)"
| "all_operations_loop run pause db (opn # ops) allResults st =
     (case run db opn st of
        (Inr result, st1) \<Rightarrow>
          all_operations_loop run pause db ops (allResults @ [result]) (pause 500 st1)
      | (Inl msg, st1) \<Rightarrow>
          all_operations_loop run pause db ops (allResults @ [errorResult db opn msg]) st1)"

fun all_databases_loop ::
  "(DatabaseType \<Rightarrow> OperationType \<Rightarrow> 's \<Rightarrow> (string + TestResult) \<times> 's) \<Rightarrow> (nat \<Rightarrow> 's \<Rightarrow> 's) \<Rightarrow>
   DatabaseType list \<Rightarrow> OperationType list \<Rightarrow> TestResult list \<Rightarrow> 's \<Rightarrow> TestResult list \<times> 's" where
  "all_databases_loop run pause [] ops allResults st = (allResults, st)"
| "all_databases_loop run pause (db # dbs) ops allResults st =
     (case all_operations_loop run pause db ops allResults st of
        (allResults1, st1) \<Rightarrow> all_databases_loop run pause dbs ops allResults1 st1)"

definition make_summary :: "TestResult list \<Rightarrow> summary" where
  "make_summary allResults =
     \<lparr> totalTests = length allResults,
       successfulTests = length (filter (\<lambda>r. \<not> truthy (error r) \<and> dataIntegrity r) allResults),
       failedTests = length (filter (\<lambda>r. truthy (error r) \<or> \<not> dataIntegrity r) allResults),
       totalTime = foldl (\<lambda>sum r. sum + timeTaken r) 0 allResults \<rparr>"

definition handler_all_with ::
  "(DatabaseType \<Rightarrow> OperationType \<Rightarrow> 's \<Rightarrow> (string + TestResult) \<times> 's) \<Rightarrow> (nat \<Rightarrow> 's \<Rightarrow> 's) \<Rightarrow>
   string \<Rightarrow> 's \<Rightarrow> all_response \<times> 's" where
  "handler_all_with run pause method st =
     (if method \<noteq> ''POST'' then (MethodNotAllowed, st)
      else
        (case all_databases_loop run pause databases operations [] st of
           (allResults, st1) \<Rightarrow> (Ok allResults (make_summary allResults), st1)))"

definition handler_all :: "'w env \<Rightarrow> string \<Rightarrow> 'w state \<Rightarrow> all_response \<times> 'w state" where
  "handler_all env = handler_all_with (runTest_io env) (pause_world env)"

subsection \<open>Streamed full matrix (the streaming handler, src/unnamed/part_002)\<close>

datatype status_kind = starting | running | verifying | completed | failed

record TestStatus =
  currentDatabase :: string
  currentOperation :: OperationType
  status :: status_kind
  progress :: int
  status_recordCount :: "int option"

datatype stream_event =
  StatusEvent TestStatus
| CompleteEvent "TestResult list"

datatype stream_response = StreamNotAllowed | Stream "stream_event list"

definition status_event ::
  "DatabaseType \<Rightarrow> OperationType \<Rightarrow> status_kind \<Rightarrow> int \<Rightarrow> int option \<Rightarrow> stream_event" where
  "status_event db opn k p n =
     StatusEvent \<lparr> currentDatabase = dbLabels db, currentOperation = opn, status = k,
                   progress = p, status_recordCount = n \<rparr>"

text \<open>
  The loop variables are \<open>currentTest\<close>, \<open>allResults\<close> and the events written to the
  response so far (\<open>out\<close>).
\<close>

fun stream_operations_loop ::
  "(DatabaseType \<Rightarrow> OperationType \<Rightarrow> 's \<Rightarrow> (string + TestResult) \<times> 's) \<Rightarrow> (nat \<Rightarrow> 's \<Rightarrow> 's) \<Rightarrow>
   nat \<Rightarrow> DatabaseType \<Rightarrow> OperationType list \<Rightarrow> nat \<Rightarrow> TestResult list \<Rightarrow> stream_event list \<Rightarrow> 's \<Rightarrow>
   (nat \<times> TestResult list \<times> stream_event list) \<times> 's" where
  "stream_operations_loop run pause nTests db [] currentTest allResults out st =
     ((currentTest, allResults, out), st)"
| "stream_operations_loop run pause nTests db (opn # ops) currentTest allResults out st =
     (let currentTest1 = currentTest + 1;
          p = Math_round (real currentTest1 / real nTests * 100);
          out1 = out @ [status_event db opn starting p None,
                        status_event db opn running p
                          (Some (if opn = op_write then 10000 else 1000))]
      in case run db opn st of
           (Inr result, st1) \<Rightarrow>
             stream_operations_loop run pause nTests db ops currentTest1 (allResults @ [result])
               (out1 @ [status_event db opn verifying p None,
                        status_event db opn completed p None])
               (pause 300 st1)
         | (Inl msg, st1) \<Rightarrow>
             stream_operations_loop run pause nTests db ops currentTest1
               (allResults @ [errorResult db opn msg])
               (out1 @ [status_event db opn failed p None])
               st1)"

fun stream_databases_loop ::
  "(DatabaseType \<Rightarrow> OperationType \<Rightarrow> 's \<Rightarrow> (string + TestResult) \<times> 's) \<Rightarrow> (nat \<Rightarrow> 's \<Rightarrow> 's) \<Rightarrow>
   nat \<Rightarrow> DatabaseType list \<Rightarrow> OperationType list \<Rightarrow> nat \<Rightarrow> TestResult list \<Rightarrow> stream_event list \<Rightarrow> 's \<Rightarrow>
   (nat \<times> TestResult list \<times> stream_event list) \<times> 's" where
  "stream_databases_loop run pause nTests [] ops currentTest allResults out st =
     ((currentTest, allResults, out), st)"
| "stream_databases_loop run pause nTests (db # dbs) ops currentTest allResults out st =
     (case stream_operations_loop run pause nTests db ops currentTest allResults out st of
        ((currentTest1, allResults1, out1), st1) \<Rightarrow>
          stream_databases_loop run pause nTests dbs ops currentTest1 allResults1 out1 st1)"

definition handler_stream_with ::
  "(DatabaseType \<Rightarrow> OperationType \<Rightarrow> 's \<Rightarrow> (string + TestResult) \<times> 's) \<Rightarrow> (nat \<Rightarrow> 's \<Rightarrow> 's) \<Rightarrow>
   string \<Rightarrow> 's \<Rightarrow> stream_response \<times> 's" where
  "handler_stream_with run pause method st =
     (if method \<noteq> ''POST'' then (StreamNotAllowed, st)
      else
        (case stream_databases_loop run pause (length databases * length operations)
                databases operations 0 [] [] st of
           ((currentTest, allResults, out), st1) \<Rightarrow>
             (Stream (out @ [CompleteEvent allResults]), st1)))"

definition handler_stream :: "'w env \<Rightarrow> string \<Rightarrow> 'w state \<Rightarrow> stream_response \<times> 'w state" where
  "handler_stream env = handler_stream_with (runTest_io env) (pause_world env)"

subsection \<open>Repeated matrix (the repeated-run handler, src/unnamed/part_003)\<close>

record RepeatTestResult =
  rep_database :: string
  rep_operation :: OperationType
  times :: "int list"
  average :: real
  min_time :: int
  max_time :: int

definition validTimes :: "int list \<Rightarrow> int list" where
  "validTimes ts = filter (\<lambda>t. t > 0) ts"

text \<open>
  The statistics of one cell. \<open>reduce\<close> is the left fold from 0; \<open>Math.min(...xs)\<close> and
  \<open>Math.max(...xs)\<close> are only evaluated on a non-empty \<open>validTimes\<close>.
\<close>

definition calc_average :: "int list \<Rightarrow> real" where
  "calc_average ts =
     (let v = validTimes ts
      in if length v > 0 then real_of_int (foldl (\<lambda>sum t. sum + t) 0 v) / real (length v) else 0)"

definition calc_min :: "int list \<Rightarrow> int" where
  "calc_min ts = (case validTimes ts of [] \<Rightarrow> 0 | t # v \<Rightarrow> foldl min t v)"

definition calc_max :: "int list \<Rightarrow> int" where
  "calc_max ts = (case validTimes ts of [] \<Rightarrow> 0 | t # v \<Rightarrow> foldl max t v)"

definition repeatResult :: "DatabaseType \<Rightarrow> OperationType \<Rightarrow> int list \<Rightarrow> RepeatTestResult" where
  "repeatResult db opn ts =
     \<lparr> rep_database = dbLabels db, rep_operation = opn, times = ts,
       average = calc_average ts, min_time = calc_min ts, max_time = calc_max ts \<rparr>"

datatype repeat_event =
  RepStart string OperationType
| RepRunning string OperationType nat nat int
| RepCompleted string OperationType RepeatTestResult
| RepComplete "RepeatTestResult list"

datatype repeat_response = RepeatNotAllowed | RepeatStream "repeat_event list"

text \<open>
  The innermost loop \<open>for (let i = 0; i < repeatCount; i++)\<close>; its variables are
  \<open>totalTests\<close> (here \<open>testsRun\<close>), \<open>times\<close> and the events written so far.
\<close>

function repeat_iterations ::
  "(DatabaseType \<Rightarrow> OperationType \<Rightarrow> 's \<Rightarrow> (string + TestResult) \<times> 's) \<Rightarrow> (nat \<Rightarrow> 's \<Rightarrow> 's) \<Rightarrow>
   nat \<Rightarrow> nat \<Rightarrow> DatabaseType \<Rightarrow> OperationType \<Rightarrow> nat \<Rightarrow> nat \<Rightarrow> int list \<Rightarrow> repeat_event list \<Rightarrow> 's \<Rightarrow>
   (nat \<times> int list \<times> repeat_event list) \<times> 's" where
  "repeat_iterations run pause repeats totalOperations db opn i testsRun ts out st =
     (if i < repeats then
        (let testsRun1 = testsRun + 1;
             p = Math_round (real testsRun1 / real totalOperations * 100);
             out1 = out @ [RepRunning (dbLabels db) opn (i + 1) repeats p]
         in case run db opn st of
              (Inr result, st1) \<Rightarrow>
                repeat_iterations run pause repeats totalOperations db opn (i + 1) testsRun1
                  (ts @ [timeTaken result]) out1 (pause 200 st1)
            | (Inl msg, st1) \<Rightarrow>
                repeat_iterations run pause repeats totalOperations db opn (i + 1) testsRun1
                  (ts @ [0]) out1 st1)
      else ((testsRun, ts, out), st))"
  by pat_completeness auto
termination
  by (relation "measure (\<lambda>(run, pause, repeats, totalOperations, db, opn, i, testsRun, ts, out, st).
                  repeats - i)") auto

declare repeat_iterations.simps [simp del]

fun repeat_operations_loop ::
  "(DatabaseType \<Rightarrow> OperationType \<Rightarrow> 's \<Rightarrow> (string + TestResult) \<times> 's) \<Rightarrow> (nat \<Rightarrow> 's \<Rightarrow> 's) \<Rightarrow>
   nat \<Rightarrow> nat \<Rightarrow> DatabaseType \<Rightarrow> OperationType list \<Rightarrow> nat \<Rightarrow> RepeatTestResult list \<Rightarrow>
   repeat_event list \<Rightarrow> 's \<Rightarrow> (nat \<times> RepeatTestResult list \<times> repeat_event list) \<times> 's" where
  "repeat_operations_loop run pause repeats totalOperations db [] testsRun allResults out st =
     ((testsRun, allResults, out), st)"
| "repeat_operations_loop run pause repeats totalOperations db (opn # ops) testsRun allResults out st =
     (case repeat_iterations run pause repeats totalOperations db opn 0 testsRun []
             (out @ [RepStart (dbLabels db) opn]) st of
        ((testsRun1, ts, out1), st1) \<Rightarrow>
          repeat_operations_loop run pause repeats totalOperations db ops testsRun1
            (allResults @ [repeatResult db opn ts])
            (out1 @ [RepCompleted (dbLabels db) opn (repeatResult db opn ts)])
            (pause 300 st1))"

fun repeat_databases_loop ::
  "(DatabaseType \<Rightarrow> OperationType \<Rightarrow> 's \<Rightarrow> (string + TestResult) \<times> 's) \<Rightarrow> (nat \<Rightarrow> 's \<Rightarrow> 's) \<Rightarrow>
   nat \<Rightarrow> nat \<Rightarrow> DatabaseType list \<Rightarrow> OperationType list \<Rightarrow> nat \<Rightarrow> RepeatTestResult list \<Rightarrow>
   repeat_event list \<Rightarrow> 's \<Rightarrow> (nat \<times> RepeatTestResult list \<times> repeat_event list) \<times> 's" where
  "repeat_databases_loop run pause repeats totalOperations [] ops testsRun allResults out st =
     ((testsRun, allResults, out), st)"
| "repeat_databases_loop run pause repeats totalOperations (db # dbs) ops testsRun allResults out st =
     (case repeat_operations_loop run pause repeats totalOperations db ops testsRun allResults out st of
        ((testsRun1, allResults1, out1), st1) \<Rightarrow>
          repeat_databases_loop run pause repeats totalOperations dbs ops testsRun1 allResults1 out1 st1)"

definition repeatCount :: nat where
  "repeatCount = 10"

definition handler_repeat_with ::
  "(DatabaseType \<Rightarrow> OperationType \<Rightarrow> 's \<Rightarrow> (string + TestResult) \<times> 's) \<Rightarrow> (nat \<Rightarrow> 's \<Rightarrow> 's) \<Rightarrow>
   string \<Rightarrow> 's \<Rightarrow> repeat_response \<times> 's" where
  "handler_repeat_with run pause method st =
     (if method \<noteq> ''POST'' then (RepeatNotAllowed, st)
      else
        (case repeat_databases_loop run pause repeatCount
                (length databases * length operations * repeatCount)
                databases operations 0 [] [] st of
           ((testsRun, allResults, out), st1) \<Rightarrow>
             (RepeatStream (out @ [RepComplete allResults]), st1)))"

definition handler_repeat :: "'w env \<Rightarrow> string \<Rightarrow> 'w state \<Rightarrow> repeat_response \<times> 'w state" where
  "handler_repeat env = handler_repeat_with (runTest_io env) (pause_world env)"

section \<open>Notions used in the statements\<close>

text \<open>The invariant of a TestResult.\<close>

definition result_ok :: "TestResult \<Rightarrow> bool" where
  "result_ok r = (0 \<le> timeTaken r \<and> 0 \<le> recordCount r \<and> (error r \<noteq> None \<longrightarrow> \<not> dataIntegrity r))"

text \<open>
  A clock that does not run backwards: no call that the adapters await, and no timer,
  takes the reading of \<open>Date.now()\<close> down.
\<close>

definition io_mono :: "('w \<Rightarrow> int) \<Rightarrow> ('w, 'a) io \<Rightarrow> bool" where
  "io_mono now m = (\<forall>w. now w \<le> now (snd (m w)))"

definition sql_client_mono :: "('w \<Rightarrow> int) \<Rightarrow> 'w sql_client \<Rightarrow> bool" where
  "sql_client_mono now c =
     ((\<forall>r. io_mono now (sql_insert c r)) \<and> (\<forall>n. io_mono now (sql_select_ids c n)) \<and>
      (\<forall>i. io_mono now (sql_select_by_id c i)) \<and> (\<forall>nm a i. io_mono now (sql_update c nm a i)))"

definition mongo_mono :: "('w \<Rightarrow> int) \<Rightarrow> 'w mongo_collection \<Rightarrow> bool" where
  "mongo_mono now d =
     ((\<forall>rs. io_mono now (insertMany d rs)) \<and> (\<forall>n. io_mono now (find_limit d n)) \<and>
      (\<forall>i. io_mono now (findOne d i)) \<and> (\<forall>i nm a. io_mono now (updateOne d i nm a)))"

definition clock_monotone :: "'w env \<Rightarrow> 'w state \<Rightarrow> bool" where
  "clock_monotone env st =
     ((\<forall>ms w. Date_now env w \<le> Date_now env (sleep env ms w)) \<and>
      sql_client_mono (Date_now env) (cassandra_new_client env) \<and>
      mongo_mono (Date_now env) (mongo_db env) \<and>
      sql_client_mono (Date_now env) (cockroach_new_client env) \<and>
      (\<forall>c. cassandraClient st = Some c \<longrightarrow> sql_client_mono (Date_now env) c) \<and>
      (\<forall>d. mongoDb st = Some d \<longrightarrow> mongo_mono (Date_now env) d) \<and>
      (\<forall>c. cockroachClient st = Some c \<longrightarrow> sql_client_mono (Date_now env) c))"




text \<open>The status events of a response, in the order written.\<close>

fun statuses :: "stream_event list \<Rightarrow> TestStatus list" where
  "statuses [] = []"
| "statuses (StatusEvent s # es) = s # statuses es"
| "statuses (CompleteEvent rs # es) = statuses es"

definition stream_statuses :: "stream_response \<Rightarrow> TestStatus list" where
  "stream_statuses r = (case r of StreamNotAllowed \<Rightarrow> [] | Stream es \<Rightarrow> statuses es)"

text \<open>
  Two readings of the progress value of a status stream over \<open>n\<close> cells, each checked
  event by event with a running count \<open>c\<close>.
  \<open>progress_by_started\<close>: the count is the number of cells started so far, the cell of
  the event included (a \<open>starting\<close> event opens a cell).
  \<open>progress_by_completed\<close>: the count is the number of cells completed so far, where a
  cell counts as completed from its \<open>completed\<close> or \<open>error\<close> event on.
\<close>

fun progress_by_started :: "nat \<Rightarrow> nat \<Rightarrow> TestStatus list \<Rightarrow> bool" where
  "progress_by_started n c [] = True"
| "progress_by_started n c (s # ss) =
     (let c1 = (if status s = starting then c + 1 else c)
      in progress s = Math_round (real c1 / real n * 100) \<and> progress_by_started n c1 ss)"

fun progress_by_completed :: "nat \<Rightarrow> nat \<Rightarrow> TestStatus list \<Rightarrow> bool" where
  "progress_by_completed n c [] = True"
| "progress_by_completed n c (s # ss) =
     (let c1 = (if status s = completed \<or> status s = failed then c + 1 else c)
      in progress s = Math_round (100 * real c1 / real n) \<and> progress_by_completed n c1 ss)"

text \<open>The result of one cell of the matrix, as far as it does not depend on the clock.\<close>

definition cell_result :: "DatabaseType \<Rightarrow> OperationType \<Rightarrow> TestResult \<Rightarrow> bool" where
  "cell_result db opn r =
     (operation r = opn \<and> (database r = dbLabels db \<or> database r = dbType_string db) \<and>
      (error r \<noteq> None \<longrightarrow> \<not> dataIntegrity r))"

text \<open>
  The full matrix as the specification words it: the cells are run one after the other,
  each by \<open>runTest\<close> in the state the cell before has left, with the pause of the
  buffered handler after each cell; the result of every cell is kept, in order.
\<close>

fun run_cells ::
  "'w env \<Rightarrow> (DatabaseType \<times> OperationType) list \<Rightarrow> 'w state \<Rightarrow> TestResult list \<times> 'w state" where
  "run_cells env [] st = ([], st)"
| "run_cells env (c # cs) st =
     (case runTest env (fst c) (snd c) st of
        (r, st1) \<Rightarrow>
          (case run_cells env cs (pause_world env 500 st1) of
             (rs, st2) \<Rightarrow> (r # rs, st2)))"

section \<open>A simulated world\<close>

text \<open>
  A small concrete world for closed instances: a clock, the counter of the uuid source,
  one table that the three simulated servers share, and the sizes of the insert requests
  received so far.
\<close>

record sim =
  clock :: int
  seed :: nat
  tbl :: "row list"
  calls :: "nat list"

definition tick :: "int \<Rightarrow> sim \<Rightarrow> sim" where
  "tick d w = w\<lparr>clock := clock w + d\<rparr>"

definition to_row :: "TestRecord \<Rightarrow> row" where
  "to_row r = \<lparr> row_id = rec_id r, row_name = Some (rec_name r), row_age = JNum (rec_age r) \<rparr>"

text \<open>
  A server that stores what it is sent. With \<open>names = False\<close> its update statement sets
  the age column and drops the new name: a write that is only partly applied.
\<close>

definition store_sql :: "bool \<Rightarrow> sim sql_client" where
  "store_sql names =
     \<lparr> sql_insert = (\<lambda>r w. (Inr (), tick 1 (w\<lparr>tbl := tbl w @ [to_row r], calls := calls w @ [1]\<rparr>))),
       sql_select_ids = (\<lambda>n w. (Inr (take n (tbl w)), tick 1 w)),
       sql_select_by_id = (\<lambda>i w. (Inr (filter (\<lambda>r. Some (row_id r) = i) (tbl w)), tick 1 w)),
       sql_update = (\<lambda>nm a i w.
          (Inr (), tick 1 (w\<lparr>tbl := map (\<lambda>r. if row_id r = i
                                              then r\<lparr>row_name := (if names then Some nm else row_name r),
                                                     row_age := JNum a\<rparr>
                                              else r) (tbl w)\<rparr>))) \<rparr>"

definition store_mongo :: "bool \<Rightarrow> sim mongo_collection" where
  "store_mongo names =
     \<lparr> insertMany = (\<lambda>rs w.
          (Inr (), tick 1 (w\<lparr>tbl := tbl w @ map to_row rs, calls := calls w @ [length rs]\<rparr>))),
       find_limit = (\<lambda>n w. (Inr (if n = 0 then tbl w else take n (tbl w)), tick 1 w)),
       findOne = (\<lambda>i w. (Inr (find (\<lambda>r. Some (row_id r) = i) (tbl w)), tick 1 w)),
       updateOne = (\<lambda>i nm a w.
          (Inr (), tick 1 (w\<lparr>tbl := map (\<lambda>r. if row_id r = i
                                              then r\<lparr>row_name := (if names then Some nm else row_name r),
                                                     row_age := JNum a\<rparr>
                                              else r) (tbl w)\<rparr>))) \<rparr>"

text \<open>
  A server that answers while the system clock is set back: its discovery query returns
  with the clock 6 ms behind.
\<close>

definition skewed_sql :: "sim sql_client" where
  "skewed_sql =
     \<lparr> sql_insert = (\<lambda>r w. (Inr (), w)),
       sql_select_ids = (\<lambda>n w. (Inr (take n (tbl w)), tick (- 6) w)),
       sql_select_by_id = (\<lambda>i w. (Inr (filter (\<lambda>r. Some (row_id r) = i) (tbl w)), w)),
       sql_update = (\<lambda>nm a i w. (Inr (), w)) \<rparr>"

text \<open>A server on which every statement is rejected with \<open>timeout\<close> after 5 ms.\<close>

definition failing_sql :: "sim sql_client" where
  "failing_sql =
     \<lparr> sql_insert = (\<lambda>r w. (Inl ''timeout'', tick 5 w)),
       sql_select_ids = (\<lambda>n w. (Inl ''timeout'', tick 5 w)),
       sql_select_by_id = (\<lambda>i w. (Inl ''timeout'', tick 5 w)),
       sql_update = (\<lambda>nm a i w. (Inl ''timeout'', tick 5 w)) \<rparr>"

definition sim_env :: "sim env" where
  "sim_env =
     \<lparr> Date_now = clock,
       uuidv4 = (\<lambda>w. (CHR ''u'' # replicate (seed w) (CHR ''x''), w\<lparr>seed := seed w + 1\<rparr>)),
       sleep = (\<lambda>ms w. tick (int ms) w),
       first_rejected = (\<lambda>w. 0),
       cassandra_create_keyspace = (\<lambda>w. (Inr (), tick 1 w)),
       cassandra_new_client = store_sql True,
       cassandra_create_table = (\<lambda>w. (Inr (), tick 1 w)),
       mongo_connect = (\<lambda>w. (Inr (), tick 1 w)),
       mongo_db = store_mongo True,
       mongo_createIndex = (\<lambda>w. (Inr (), tick 1 w)),
       cockroach_temp_connect = (\<lambda>w. (Inr (), tick 1 w)),
       cockroach_create_database = (\<lambda>w. (Inr (), tick 1 w)),
       cockroach_temp_end = (\<lambda>w. (Inr (), tick 1 w)),
       cockroach_new_client = store_sql True,
       cockroach_connect = (\<lambda>w. (Inr (), tick 1 w)),
       cockroach_create_table = (\<lambda>w. (Inr (), tick 1 w)) \<rparr>"

text \<open>The same environment with a uuid source that returns one value over and over.\<close>

definition stuck_uuid_env :: "sim env" where
  "stuck_uuid_env = sim_env\<lparr>uuidv4 := (\<lambda>w. (''u'', w))\<rparr>"

definition sim_world :: "row list \<Rightarrow> sim" where
  "sim_world rows = \<lparr> clock = 0, seed = 0, tbl = rows, calls = [] \<rparr>"

text \<open>The state of a fresh process (nothing connected yet) in front of an empty table.\<close>

definition fresh_state :: "sim state" where
  "fresh_state =
     \<lparr> cassandraClient = None, mongoClient = False, mongoDb = None, cockroachClient = None,
       world = sim_world [] \<rparr>"

text \<open>A process whose Cassandra connection is established, to a server that has begun to time out.\<close>

definition timeout_state :: "sim state" where
  "timeout_state = fresh_state\<lparr>cassandraClient := Some failing_sql\<rparr>"

definition sample_record :: TestRecord where
  "sample_record =
     \<lparr> rec_id = ''a'', user_id = 1, rec_name = ''User 1'', email = ''user1@example.com'',
       rec_age = 20, created_at = 0, data = ''Test data for user 1'' \<rparr>"

definition sample_row :: row where
  "sample_row = \<lparr> row_id = ''a'', row_name = Some ''User 1'', row_age = JNum 20 \<rparr>"

section \<open>The workload generator is correct\<close>

lemma generateTestData_loop_length:
  "length (fst (generateTestData_loop env count i records w)) = length records + (count - i)"
proof (induction env count i records w rule: generateTestData_loop.induct)
  case (1 env count i records w)
  show ?case
  proof (cases "i < count")
    case True
    obtain u w1 where d: "uuidv4 env w = (u, w1)" by (cases "uuidv4 env w")
    from True d "1.IH" [OF True d [symmetric]] show ?thesis
      by (subst generateTestData_loop.simps) simp
  next
    case False
    then show ?thesis
      by (subst generateTestData_loop.simps) simp
  qed
qed

lemma generateTestData_loop_user_id:
  "map user_id (fst (generateTestData_loop env count i records w)) =
   map user_id records @ map (\<lambda>k. int k + 1) [i..<count]"
proof (induction env count i records w rule: generateTestData_loop.induct)
  case (1 env count i records w)
  show ?case
  proof (cases "i < count")
    case True
    obtain u w1 where d: "uuidv4 env w = (u, w1)" by (cases "uuidv4 env w")
    from True d "1.IH" [OF True d [symmetric]] show ?thesis
      by (subst generateTestData_loop.simps) (simp add: upt_conv_Cons)
  next
    case False
    then show ?thesis
      by (subst generateTestData_loop.simps) simp
  qed
qed

lemma generateTestData_loop_age:
  "map rec_age (fst (generateTestData_loop env count i records w)) =
   map rec_age records @ map (\<lambda>k. 20 + int k mod 50) [i..<count]"
proof (induction env count i records w rule: generateTestData_loop.induct)
  case (1 env count i records w)
  show ?case
  proof (cases "i < count")
    case True
    obtain u w1 where d: "uuidv4 env w = (u, w1)" by (cases "uuidv4 env w")
    from True d "1.IH" [OF True d [symmetric]] show ?thesis
      by (subst generateTestData_loop.simps) (simp add: upt_conv_Cons)
  next
    case False
    then show ?thesis
      by (subst generateTestData_loop.simps) simp
  qed
qed

lemma generateTestData_loop_id:
  "map rec_id (fst (generateTestData_loop env count i records w)) =
   map rec_id records @ uuid_draws env (count - i) w"
proof (induction env count i records w rule: generateTestData_loop.induct)
  case (1 env count i records w)
  show ?case
  proof (cases "i < count")
    case True
    obtain u w1 where d: "uuidv4 env w = (u, w1)" by (cases "uuidv4 env w")
    from True have s: "count - i = Suc (count - (i + 1))" by simp
    from True d "1.IH" [OF True d [symmetric]] show ?thesis
      by (subst generateTestData_loop.simps) (simp add: s del: One_nat_def)
  next
    case False
    then show ?thesis
      by (subst generateTestData_loop.simps) simp
  qed
qed

text \<open>
  C6, as amended. For every \<open>n\<close>, \<open>generateTestData\<close> returns exactly \<open>n\<close> records, their
  \<open>user_id\<close> values are 1, ..., \<open>n\<close> in this order, and the age of the record at index
  \<open>i\<close> is \<open>20 + (i mod 50)\<close>, which lies between 20 and 69. The identifiers are the
  values that \<open>n\<close> successive calls of \<open>uuidv4\<close> return, one call per record, in order;
  the code compares no identifier with another.
\<close>

theorem generate_correct:
  "length (fst (generateTestData env n w)) = n \<and>
   map user_id (fst (generateTestData env n w)) = map int [1..<n + 1] \<and>
   (\<forall>i<n. rec_age (fst (generateTestData env n w) ! i) = 20 + int i mod 50 \<and>
          20 \<le> rec_age (fst (generateTestData env n w) ! i) \<and>
          rec_age (fst (generateTestData env n w) ! i) \<le> 69) \<and>
   map rec_id (fst (generateTestData env n w)) = uuid_draws env n w"
proof -
  let ?rs = "fst (generateTestData env n w)"
  have len: "length ?rs = n"
    by (simp add: generateTestData_def generateTestData_loop_length)
  have uid: "map user_id ?rs = map int [1..<n + 1]"
  proof -
    have "map user_id ?rs = map (\<lambda>k. int k + 1) [0..<n]"
      by (simp add: generateTestData_def generateTestData_loop_user_id)
    also have "\<dots> = map int (map Suc [0..<n])" by simp
    also have "map Suc [0..<n] = [1..<n + 1]" by (simp add: map_Suc_upt)
    finally show ?thesis .
  qed
  have age: "map rec_age ?rs = map (\<lambda>k. 20 + int k mod 50) [0..<n]"
    by (simp add: generateTestData_def generateTestData_loop_age)
  have ids: "map rec_id ?rs = uuid_draws env n w"
    by (simp add: generateTestData_def generateTestData_loop_id)
  have ages: "\<forall>i<n. rec_age (?rs ! i) = 20 + int i mod 50 \<and> 20 \<le> rec_age (?rs ! i) \<and> rec_age (?rs ! i) \<le> 69"
  proof (intro allI impI)
    fix i assume i: "i < n"
    have "rec_age (?rs ! i) = map rec_age ?rs ! i" using i len by simp
    also have "\<dots> = 20 + int i mod 50" using i by (simp add: age)
    finally have a: "rec_age (?rs ! i) = 20 + int i mod 50" .
    have "0 \<le> int i mod 50" "int i mod 50 < 50" by simp_all
    with a show "rec_age (?rs ! i) = 20 + int i mod 50 \<and> 20 \<le> rec_age (?rs ! i) \<and> rec_age (?rs ! i) \<le> 69"
      by linarith
  qed
  show ?thesis using len uid ages ids by blast
qed

lemma sim_draws3: "uuid_draws sim_env 3 (sim_world []) = [''u'', ''ux'', ''uxx'']"
  by (simp add: sim_env_def sim_world_def numeral_3_eq_3)

theorem generate_correct_witness:
  "length (fst (generateTestData sim_env 3 (sim_world []))) = 3 \<and>
   map user_id (fst (generateTestData sim_env 3 (sim_world []))) = [1, 2, 3] \<and>
   rec_age (fst (generateTestData sim_env 3 (sim_world [])) ! 2) = 22 \<and>
   map rec_id (fst (generateTestData sim_env 3 (sim_world []))) = [''u'', ''ux'', ''uxx'']"
proof -
  have u: "map int [1..<3 + 1] = [1, 2, 3]"
    by (simp add: upt_rec)
  show ?thesis
    using generate_correct [of sim_env 3 "sim_world []"] u by (simp add: sim_draws3)
qed

text \<open>
  C6 as stated fails in its first part: nothing in \<open>generateTestData\<close> makes the
  identifiers pairwise distinct. With a uuid source that returns the same value twice
  during the call, two records carry the same identifier.
\<close>

lemma stuck_draws2: "uuid_draws stuck_uuid_env 2 (sim_world []) = [''u'', ''u'']"
  by (simp add: stuck_uuid_env_def sim_env_def sim_world_def numeral_2_eq_2)

theorem repeated_uuid_counterexample:
  "length (fst (generateTestData stuck_uuid_env 2 (sim_world []))) = 2 \<and>
   map rec_id (fst (generateTestData stuck_uuid_env 2 (sim_world []))) = [''u'', ''u''] \<and>
   \<not> distinct (map rec_id (fst (generateTestData stuck_uuid_env 2 (sim_world []))))"
  by (simp add: generateTestData_def generateTestData_loop_length generateTestData_loop_id
        stuck_draws2)

section \<open>Statistics of a repeated cell\<close>

lemma foldl_add_sum_list: "foldl (\<lambda>sum t. sum + t) a v = a + sum_list (v :: int list)"
  by (induction v arbitrary: a) simp_all

lemma foldl_min_Min: "foldl min a xs = Min (set (a # xs))" for a :: int
proof (induction xs arbitrary: a)
  case Nil
  then show ?case by simp
next
  case (Cons x xs)
  have "foldl min a (x # xs) = Min (set (min a x # xs))"
    using Cons.IH [of "min a x"] by simp
  also have "\<dots> = Min (set (a # x # xs))"
    by (cases xs) (simp_all add: min.assoc)
  finally show ?case .
qed

lemma foldl_max_Max: "foldl max a xs = Max (set (a # xs))" for a :: int
proof (induction xs arbitrary: a)
  case Nil
  then show ?case by simp
next
  case (Cons x xs)
  have "foldl max a (x # xs) = Max (set (max a x # xs))"
    using Cons.IH [of "max a x"] by simp
  also have "\<dots> = Max (set (a # x # xs))"
    by (cases xs) (simp_all add: max.assoc)
  finally show ?case .
qed

lemma sum_list_lower: "\<forall>x\<in>set v. m \<le> x \<Longrightarrow> int (length v) * m \<le> sum_list v" for m :: int
  by (induction v) (auto simp: algebra_simps)

lemma sum_list_upper: "\<forall>x\<in>set v. x \<le> m \<Longrightarrow> sum_list v \<le> int (length v) * m" for m :: int
  by (induction v) (auto simp: algebra_simps)

lemma calc_min_Min: "calc_min ts = (if validTimes ts = [] then 0 else Min (set (validTimes ts)))"
  by (simp add: calc_min_def foldl_min_Min split: list.splits)

lemma calc_max_Max: "calc_max ts = (if validTimes ts = [] then 0 else Max (set (validTimes ts)))"
  by (simp add: calc_max_def foldl_max_Max split: list.splits)

lemma calc_average_mean:
  "calc_average ts =
     (if validTimes ts = [] then 0
      else real_of_int (sum_list (validTimes ts)) / real (length (validTimes ts)))"
  by (simp add: calc_average_def Let_def foldl_add_sum_list)

lemma mean_between:
  assumes "v \<noteq> []"
  shows "real_of_int (Min (set v)) \<le> real_of_int (sum_list v) / real (length v)"
    and "real_of_int (sum_list v) / real (length v) \<le> real_of_int (Max (set v))"
proof -
  have n: "0 < real (length v)" using assms by simp
  have "int (length v) * Min (set v) \<le> sum_list v"
    by (rule sum_list_lower) simp
  then have "real_of_int (int (length v) * Min (set v)) \<le> real_of_int (sum_list v)"
    by (rule of_int_le_iff [THEN iffD2])
  then have "real_of_int (Min (set v)) * real (length v) \<le> real_of_int (sum_list v)"
    by (simp add: mult.commute)
  then show "real_of_int (Min (set v)) \<le> real_of_int (sum_list v) / real (length v)"
    using n by (simp add: pos_le_divide_eq)
  have "sum_list v \<le> int (length v) * Max (set v)"
    by (rule sum_list_upper) simp
  then have "real_of_int (sum_list v) \<le> real_of_int (int (length v) * Max (set v))"
    by (rule of_int_le_iff [THEN iffD2])
  then have "real_of_int (sum_list v) \<le> real_of_int (Max (set v)) * real (length v)"
    by (simp add: mult.commute)
  then show "real_of_int (sum_list v) / real (length v) \<le> real_of_int (Max (set v))"
    using n by (simp add: pos_divide_le_eq)
qed

lemma validTimes_nonzero:
  "\<forall>t\<in>set ts. 0 \<le> t \<Longrightarrow> validTimes ts = filter (\<lambda>t. t \<noteq> 0) ts"
  unfolding validTimes_def by (rule filter_cong) auto

text \<open>
  C7. For every sequence of durations (none of them negative), the average, the minimum
  and the maximum of a cell are the mean, the least and the greatest of the non-zero
  entries; all three are 0 when there is no non-zero entry; and when there is one, the
  minimum is at most the average and the average at most the maximum. The average is
  the exact quotient (the program's is the nearest double of it).
\<close>

theorem stats_over_nonzero:
  assumes "\<forall>t\<in>set ts. 0 \<le> t"
  shows "calc_average ts =
           (if filter (\<lambda>t. t \<noteq> 0) ts = [] then 0
            else real_of_int (sum_list (filter (\<lambda>t. t \<noteq> 0) ts))
                   / real (length (filter (\<lambda>t. t \<noteq> 0) ts))) \<and>
         calc_min ts =
           (if filter (\<lambda>t. t \<noteq> 0) ts = [] then 0 else Min (set (filter (\<lambda>t. t \<noteq> 0) ts))) \<and>
         calc_max ts =
           (if filter (\<lambda>t. t \<noteq> 0) ts = [] then 0 else Max (set (filter (\<lambda>t. t \<noteq> 0) ts))) \<and>
         (filter (\<lambda>t. t \<noteq> 0) ts \<noteq> [] \<longrightarrow>
            real_of_int (calc_min ts) \<le> calc_average ts \<and>
            calc_average ts \<le> real_of_int (calc_max ts))"
proof -
  have v: "validTimes ts = filter (\<lambda>t. t \<noteq> 0) ts"
    using assms by (rule validTimes_nonzero)
  have a: "calc_average ts =
           (if filter (\<lambda>t. t \<noteq> 0) ts = [] then 0
            else real_of_int (sum_list (filter (\<lambda>t. t \<noteq> 0) ts))
                   / real (length (filter (\<lambda>t. t \<noteq> 0) ts)))"
    using calc_average_mean [of ts] by (simp only: v)
  have mn: "calc_min ts =
           (if filter (\<lambda>t. t \<noteq> 0) ts = [] then 0 else Min (set (filter (\<lambda>t. t \<noteq> 0) ts)))"
    using calc_min_Min [of ts] by (simp only: v)
  have mx: "calc_max ts =
           (if filter (\<lambda>t. t \<noteq> 0) ts = [] then 0 else Max (set (filter (\<lambda>t. t \<noteq> 0) ts)))"
    using calc_max_Max [of ts] by (simp only: v)
  have b: "filter (\<lambda>t. t \<noteq> 0) ts \<noteq> [] \<longrightarrow>
            real_of_int (calc_min ts) \<le> calc_average ts \<and>
            calc_average ts \<le> real_of_int (calc_max ts)"
  proof
    assume ne: "filter (\<lambda>t. t \<noteq> 0) ts \<noteq> []"
    from mean_between [OF ne] show
      "real_of_int (calc_min ts) \<le> calc_average ts \<and> calc_average ts \<le> real_of_int (calc_max ts)"
      by (simp only: a mn mx ne if_False simp_thms)
  qed
  from a mn mx b show ?thesis by (intro conjI)
qed

theorem stats_over_nonzero_witness:
  "(0::int) \<le> 0 \<and> (0::int) \<le> 4 \<and> (0::int) \<le> 8 \<and>
   calc_average [0, 4, 8] = 6 \<and> calc_min [0, 4, 8] = 4 \<and> calc_max [0, 4, 8] = 8 \<and>
   (4::real) \<le> 6 \<and> (6::real) \<le> 8 \<and>
   calc_average [0, 0] = 0 \<and> calc_min [0, 0] = 0 \<and> calc_max [0, 0] = 0"
  using stats_over_nonzero [of "[0, 4, 8]"] stats_over_nonzero [of "[0, 0]"]
  by simp

section \<open>Every return path yields a well-formed result\<close>

text \<open>What the try block of an adapter returns when it does not fail.\<close>

lemma post_CassandraWrite:
  "runCassandraWriteTest_try env client records t0 w = (Inr r, w1) \<Longrightarrow>
   database r = ''Cassandra'' \<and> operation r = op_write \<and> timeTaken r = Date_now env w1 - t0 \<and>
   0 \<le> recordCount r \<and> (error r \<noteq> None \<longrightarrow> \<not> dataIntegrity r)"
  unfolding runCassandraWriteTest_try_def runCassandraWriteTest_verify_def
  by (auto simp: io_bind_def io_throw_def io_return_def success_result_def no_records_result_def
        Let_def split: option.splits prod.splits sum.splits if_splits list.splits)

lemma post_CassandraRead:
  "runCassandraReadTest_try env client recordIds t0 w = (Inr r, w1) \<Longrightarrow>
   database r = ''Cassandra'' \<and> operation r = op_read \<and> timeTaken r = Date_now env w1 - t0 \<and>
   0 \<le> recordCount r \<and> (error r \<noteq> None \<longrightarrow> \<not> dataIntegrity r)"
  unfolding runCassandraReadTest_try_def
  by (auto simp: io_bind_def io_throw_def io_return_def success_result_def no_records_result_def
        Let_def split: option.splits prod.splits sum.splits if_splits list.splits)

lemma post_CassandraUpdate:
  "runCassandraUpdateTest_try env client recordIds t0 w = (Inr r, w1) \<Longrightarrow>
   database r = ''Cassandra'' \<and> operation r = op_update \<and> timeTaken r = Date_now env w1 - t0 \<and>
   0 \<le> recordCount r \<and> (error r \<noteq> None \<longrightarrow> \<not> dataIntegrity r)"
  unfolding runCassandraUpdateTest_try_def
  by (auto simp: io_bind_def io_throw_def io_return_def success_result_def no_records_result_def
        Let_def split: option.splits prod.splits sum.splits if_splits list.splits)

lemma post_MongoWrite:
  "runMongoWriteTest_try env client records t0 w = (Inr r, w1) \<Longrightarrow>
   database r = ''MongoDB'' \<and> operation r = op_write \<and> timeTaken r = Date_now env w1 - t0 \<and>
   0 \<le> recordCount r \<and> (error r \<noteq> None \<longrightarrow> \<not> dataIntegrity r)"
  unfolding runMongoWriteTest_try_def runMongoWriteTest_verify_def
  by (auto simp: io_bind_def io_throw_def io_return_def success_result_def no_records_result_def
        Let_def split: option.splits prod.splits sum.splits if_splits list.splits)

lemma post_MongoRead:
  "runMongoReadTest_try env client recordIds t0 w = (Inr r, w1) \<Longrightarrow>
   database r = ''MongoDB'' \<and> operation r = op_read \<and> timeTaken r = Date_now env w1 - t0 \<and>
   0 \<le> recordCount r \<and> (error r \<noteq> None \<longrightarrow> \<not> dataIntegrity r)"
  unfolding runMongoReadTest_try_def
  by (auto simp: io_bind_def io_throw_def io_return_def success_result_def no_records_result_def
        Let_def split: option.splits prod.splits sum.splits if_splits list.splits)

lemma post_MongoUpdate:
  "runMongoUpdateTest_try env client recordIds t0 w = (Inr r, w1) \<Longrightarrow>
   database r = ''MongoDB'' \<and> operation r = op_update \<and> timeTaken r = Date_now env w1 - t0 \<and>
   0 \<le> recordCount r \<and> (error r \<noteq> None \<longrightarrow> \<not> dataIntegrity r)"
  unfolding runMongoUpdateTest_try_def
  by (auto simp: io_bind_def io_throw_def io_return_def success_result_def no_records_result_def
        Let_def split: option.splits prod.splits sum.splits if_splits list.splits)

lemma post_CockroachWrite:
  "runCockroachWriteTest_try env client records t0 w = (Inr r, w1) \<Longrightarrow>
   database r = ''CockroachDB'' \<and> operation r = op_write \<and> timeTaken r = Date_now env w1 - t0 \<and>
   0 \<le> recordCount r \<and> (error r \<noteq> None \<longrightarrow> \<not> dataIntegrity r)"
  unfolding runCockroachWriteTest_try_def runCockroachWriteTest_verify_def
  by (auto simp: io_bind_def io_throw_def io_return_def success_result_def no_records_result_def
        Let_def split: option.splits prod.splits sum.splits if_splits list.splits)

lemma post_CockroachRead:
  "runCockroachReadTest_try env client recordIds t0 w = (Inr r, w1) \<Longrightarrow>
   database r = ''CockroachDB'' \<and> operation r = op_read \<and> timeTaken r = Date_now env w1 - t0 \<and>
   0 \<le> recordCount r \<and> (error r \<noteq> None \<longrightarrow> \<not> dataIntegrity r)"
  unfolding runCockroachReadTest_try_def
  by (auto simp: io_bind_def io_throw_def io_return_def success_result_def no_records_result_def
        Let_def split: option.splits prod.splits sum.splits if_splits list.splits)

lemma post_CockroachUpdate:
  "runCockroachUpdateTest_try env client recordIds t0 w = (Inr r, w1) \<Longrightarrow>
   database r = ''CockroachDB'' \<and> operation r = op_update \<and> timeTaken r = Date_now env w1 - t0 \<and>
   0 \<le> recordCount r \<and> (error r \<noteq> None \<longrightarrow> \<not> dataIntegrity r)"
  unfolding runCockroachUpdateTest_try_def
  by (auto simp: io_bind_def io_throw_def io_return_def success_result_def no_records_result_def
        Let_def split: option.splits prod.splits sum.splits if_splits list.splits)

text \<open>The same of the adapter itself, whose catch block adds the failure result.\<close>

lemma try_catch_shape:
  assumes post: "\<And>r w1. body w = (Inr r, w1) \<Longrightarrow>
                 database r = db \<and> operation r = opn \<and>
                 timeTaken r = Date_now env w1 - Date_now env w \<and>
                 0 \<le> recordCount r \<and> (error r \<noteq> None \<longrightarrow> \<not> dataIntegrity r)"
  shows "database (fst (try_catch body (failure_result env db opn (Date_now env w) n) w)) = db \<and>
         operation (fst (try_catch body (failure_result env db opn (Date_now env w) n) w)) = opn \<and>
         timeTaken (fst (try_catch body (failure_result env db opn (Date_now env w) n) w))
           = Date_now env (snd (try_catch body (failure_result env db opn (Date_now env w) n) w))
               - Date_now env w \<and>
         0 \<le> recordCount (fst (try_catch body (failure_result env db opn (Date_now env w) n) w)) \<and>
         (error (fst (try_catch body (failure_result env db opn (Date_now env w) n) w)) \<noteq> None \<longrightarrow>
            \<not> dataIntegrity (fst (try_catch body (failure_result env db opn (Date_now env w) n) w)))"
proof -
  obtain x w1 where b: "body w = (x, w1)" by (cases "body w")
  show ?thesis
  proof (cases x)
    case (Inl msg)
    with b show ?thesis by (simp add: try_catch_def failure_result_def)
  next
    case (Inr r)
    with b post [of r w1] show ?thesis by (simp add: try_catch_def)
  qed
qed

lemma shape_CassandraWrite:
  "database (fst (runCassandraWriteTest env client records w)) = ''Cassandra'' \<and>
   operation (fst (runCassandraWriteTest env client records w)) = op_write \<and>
   timeTaken (fst (runCassandraWriteTest env client records w))
     = Date_now env (snd (runCassandraWriteTest env client records w)) - Date_now env w \<and>
   0 \<le> recordCount (fst (runCassandraWriteTest env client records w)) \<and>
   (error (fst (runCassandraWriteTest env client records w)) \<noteq> None \<longrightarrow>
      \<not> dataIntegrity (fst (runCassandraWriteTest env client records w)))"
  unfolding runCassandraWriteTest_def Let_def
  by (rule try_catch_shape [OF post_CassandraWrite])

lemma shape_CassandraRead:
  "database (fst (runCassandraReadTest env client recordIds w)) = ''Cassandra'' \<and>
   operation (fst (runCassandraReadTest env client recordIds w)) = op_read \<and>
   timeTaken (fst (runCassandraReadTest env client recordIds w))
     = Date_now env (snd (runCassandraReadTest env client recordIds w)) - Date_now env w \<and>
   0 \<le> recordCount (fst (runCassandraReadTest env client recordIds w)) \<and>
   (error (fst (runCassandraReadTest env client recordIds w)) \<noteq> None \<longrightarrow>
      \<not> dataIntegrity (fst (runCassandraReadTest env client recordIds w)))"
  unfolding runCassandraReadTest_def Let_def
  by (rule try_catch_shape [OF post_CassandraRead])

lemma shape_CassandraUpdate:
  "database (fst (runCassandraUpdateTest env client recordIds w)) = ''Cassandra'' \<and>
   operation (fst (runCassandraUpdateTest env client recordIds w)) = op_update \<and>
   timeTaken (fst (runCassandraUpdateTest env client recordIds w))
     = Date_now env (snd (runCassandraUpdateTest env client recordIds w)) - Date_now env w \<and>
   0 \<le> recordCount (fst (runCassandraUpdateTest env client recordIds w)) \<and>
   (error (fst (runCassandraUpdateTest env client recordIds w)) \<noteq> None \<longrightarrow>
      \<not> dataIntegrity (fst (runCassandraUpdateTest env client recordIds w)))"
  unfolding runCassandraUpdateTest_def Let_def
  by (rule try_catch_shape [OF post_CassandraUpdate])

lemma shape_MongoWrite:
  "database (fst (runMongoWriteTest env client records w)) = ''MongoDB'' \<and>
   operation (fst (runMongoWriteTest env client records w)) = op_write \<and>
   timeTaken (fst (runMongoWriteTest env client records w))
     = Date_now env (snd (runMongoWriteTest env client records w)) - Date_now env w \<and>
   0 \<le> recordCount (fst (runMongoWriteTest env client records w)) \<and>
   (error (fst (runMongoWriteTest env client records w)) \<noteq> None \<longrightarrow>
      \<not> dataIntegrity (fst (runMongoWriteTest env client records w)))"
  unfolding runMongoWriteTest_def Let_def
  by (rule try_catch_shape [OF post_MongoWrite])

lemma shape_MongoRead:
  "database (fst (runMongoReadTest env client recordIds w)) = ''MongoDB'' \<and>
   operation (fst (runMongoReadTest env client recordIds w)) = op_read \<and>
   timeTaken (fst (runMongoReadTest env client recordIds w))
     = Date_now env (snd (runMongoReadTest env client recordIds w)) - Date_now env w \<and>
   0 \<le> recordCount (fst (runMongoReadTest env client recordIds w)) \<and>
   (error (fst (runMongoReadTest env client recordIds w)) \<noteq> None \<longrightarrow>
      \<not> dataIntegrity (fst (runMongoReadTest env client recordIds w)))"
  unfolding runMongoReadTest_def Let_def
  by (rule try_catch_shape [OF post_MongoRead])

lemma shape_MongoUpdate:
  "database (fst (runMongoUpdateTest env client recordIds w)) = ''MongoDB'' \<and>
   operation (fst (runMongoUpdateTest env client recordIds w)) = op_update \<and>
   timeTaken (fst (runMongoUpdateTest env client recordIds w))
     = Date_now env (snd (runMongoUpdateTest env client recordIds w)) - Date_now env w \<and>
   0 \<le> recordCount (fst (runMongoUpdateTest env client recordIds w)) \<and>
   (error (fst (runMongoUpdateTest env client recordIds w)) \<noteq> None \<longrightarrow>
      \<not> dataIntegrity (fst (runMongoUpdateTest env client recordIds w)))"
  unfolding runMongoUpdateTest_def Let_def
  by (rule try_catch_shape [OF post_MongoUpdate])

lemma shape_CockroachWrite:
  "database (fst (runCockroachWriteTest env client records w)) = ''CockroachDB'' \<and>
   operation (fst (runCockroachWriteTest env client records w)) = op_write \<and>
   timeTaken (fst (runCockroachWriteTest env client records w))
     = Date_now env (snd (runCockroachWriteTest env client records w)) - Date_now env w \<and>
   0 \<le> recordCount (fst (runCockroachWriteTest env client records w)) \<and>
   (error (fst (runCockroachWriteTest env client records w)) \<noteq> None \<longrightarrow>
      \<not> dataIntegrity (fst (runCockroachWriteTest env client records w)))"
  unfolding runCockroachWriteTest_def Let_def
  by (rule try_catch_shape [OF post_CockroachWrite])

lemma shape_CockroachRead:
  "database (fst (runCockroachReadTest env client recordIds w)) = ''CockroachDB'' \<and>
   operation (fst (runCockroachReadTest env client recordIds w)) = op_read \<and>
   timeTaken (fst (runCockroachReadTest env client recordIds w))
     = Date_now env (snd (runCockroachReadTest env client recordIds w)) - Date_now env w \<and>
   0 \<le> recordCount (fst (runCockroachReadTest env client recordIds w)) \<and>
   (error (fst (runCockroachReadTest env client recordIds w)) \<noteq> None \<longrightarrow>
      \<not> dataIntegrity (fst (runCockroachReadTest env client recordIds w)))"
  unfolding runCockroachReadTest_def Let_def
  by (rule try_catch_shape [OF post_CockroachRead])

lemma shape_CockroachUpdate:
  "database (fst (runCockroachUpdateTest env client recordIds w)) = ''CockroachDB'' \<and>
   operation (fst (runCockroachUpdateTest env client recordIds w)) = op_update \<and>
   timeTaken (fst (runCockroachUpdateTest env client recordIds w))
     = Date_now env (snd (runCockroachUpdateTest env client recordIds w)) - Date_now env w \<and>
   0 \<le> recordCount (fst (runCockroachUpdateTest env client recordIds w)) \<and>
   (error (fst (runCockroachUpdateTest env client recordIds w)) \<noteq> None \<longrightarrow>
      \<not> dataIntegrity (fst (runCockroachUpdateTest env client recordIds w)))"
  unfolding runCockroachUpdateTest_def Let_def
  by (rule try_catch_shape [OF post_CockroachUpdate])

lemma shape_run_adapter:
  "database (fst (run_adapter env st db opn testRecords w)) = dbLabels db \<and>
   operation (fst (run_adapter env st db opn testRecords w)) = opn \<and>
   timeTaken (fst (run_adapter env st db opn testRecords w))
     = Date_now env (snd (run_adapter env st db opn testRecords w)) - Date_now env w \<and>
   0 \<le> recordCount (fst (run_adapter env st db opn testRecords w)) \<and>
   (error (fst (run_adapter env st db opn testRecords w)) \<noteq> None \<longrightarrow>
      \<not> dataIntegrity (fst (run_adapter env st db opn testRecords w)))"
proof (cases db)
  case cassandra
  then show ?thesis
    using shape_CassandraWrite shape_CassandraRead shape_CassandraUpdate
    by (cases opn) (simp_all add: run_adapter_def dbLabels_def)
next
  case mongo
  then show ?thesis
    using shape_MongoWrite shape_MongoRead shape_MongoUpdate
    by (cases opn) (simp_all add: run_adapter_def dbLabels_def)
next
  case cockroach
  then show ?thesis
    using shape_CockroachWrite shape_CockroachRead shape_CockroachUpdate
    by (cases opn) (simp_all add: run_adapter_def dbLabels_def)
qed

lemma shape_runTest:
  "operation (fst (runTest env db opn st)) = opn \<and>
   (database (fst (runTest env db opn st)) = dbLabels db \<or>
    database (fst (runTest env db opn st)) = dbType_string db) \<and>
   0 \<le> recordCount (fst (runTest env db opn st)) \<and>
   (error (fst (runTest env db opn st)) \<noteq> None \<longrightarrow> \<not> dataIntegrity (fst (runTest env db opn st)))"
proof -
  obtain x st1 where c: "connect env db st = (x, st1)" by (cases "connect env db st")
  show ?thesis
  proof (cases x)
    case (Inl msg)
    with c show ?thesis by (simp add: runTest_def)
  next
    case (Inr u)
    obtain recs w2 where g: "generateTestData env RECORD_COUNT (world st1) = (recs, w2)"
      by (cases "generateTestData env RECORD_COUNT (world st1)")
    obtain r w3 where a: "run_adapter env st1 db opn recs w2 = (r, w3)"
      by (cases "run_adapter env st1 db opn recs w2")
    from shape_run_adapter [of env st1 db opn recs w2] a c Inr g show ?thesis
      by (simp add: runTest_def)
  qed
qed

text \<open>The clock along an adapter.\<close>

lemma io_monoD: "io_mono now m \<Longrightarrow> m w = (r, w1) \<Longrightarrow> now w \<le> now w1"
  unfolding io_mono_def by (metis snd_conv)

lemma io_mono_return: "io_mono now (io_return v)"
  by (simp add: io_mono_def io_return_def)

lemma io_mono_throw: "io_mono now (io_throw msg)"
  by (simp add: io_mono_def io_throw_def)

lemma io_mono_bind:
  assumes "io_mono now m" and "\<And>v. io_mono now (f v)"
  shows "io_mono now (io_bind m f)"
  unfolding io_mono_def
proof
  fix w
  obtain r w1 where m: "m w = (r, w1)" by (cases "m w")
  have a: "now w \<le> now w1" using assms(1) m by (rule io_monoD)
  show "now w \<le> now (snd (io_bind m f w))"
  proof (cases r)
    case (Inl msg)
    with m a show ?thesis by (simp add: io_bind_def)
  next
    case (Inr v)
    obtain r2 w2 where f: "f v w1 = (r2, w2)" by (cases "f v w1")
    have "now w1 \<le> now w2" using assms(2) f by (rule io_monoD)
    with Inr m a f show ?thesis by (simp add: io_bind_def)
  qed
qed

lemma run_all_clock:
  "(\<And>m. m \<in> set ms \<Longrightarrow> io_mono now m) \<Longrightarrow> now w \<le> now (snd (run_all ms w))"
proof (induction ms arbitrary: w)
  case Nil
  show ?case by simp
next
  case (Cons m ms)
  obtain r w1 where m: "m w = (r, w1)" by (cases "m w")
  have "io_mono now m" by (rule Cons.prems) simp
  then have a: "now w \<le> now w1" using m by (rule io_monoD)
  obtain rs w2 where t: "run_all ms w1 = (rs, w2)" by (cases "run_all ms w1")
  have "now w1 \<le> now (snd (run_all ms w1))"
    by (rule Cons.IH) (simp add: Cons.prems)
  with a m t show ?case by simp
qed

lemma snd_promise_all: "snd (promise_all pick ms w) = snd (run_all ms w)"
  by (simp add: promise_all_def split: prod.splits list.splits)

lemma io_mono_promise_all:
  "(\<And>m. m \<in> set ms \<Longrightarrow> io_mono now m) \<Longrightarrow> io_mono now (promise_all pick ms)"
  unfolding io_mono_def [of now "promise_all pick ms"]
  by (simp add: snd_promise_all run_all_clock)

lemma insert_batches_clock:
  "\<forall>r. io_mono now (ins r) \<Longrightarrow> now w \<le> now (snd (insert_batches pick ins queries i w))"
proof (induction pick ins queries i w rule: insert_batches.induct)
  case (1 pick ins queries i w)
  show ?case
  proof (cases "i < length queries")
    case False
    then show ?thesis by (subst insert_batches.simps) simp
  next
    case True
    obtain r w1 where p: "promise_all pick (map ins (slice queries i (i + 100))) w = (r, w1)"
      by (cases "promise_all pick (map ins (slice queries i (i + 100))) w")
    have "io_mono now (promise_all pick (map ins (slice queries i (i + 100))))"
      using "1.prems" by (intro io_mono_promise_all) auto
    then have a: "now w \<le> now w1" using p by (rule io_monoD)
    show ?thesis
    proof (cases r)
      case (Inl msg)
      with True p a show ?thesis by (subst insert_batches.simps) simp
    next
      case (Inr u)
      have "now w1 \<le> now (snd (insert_batches pick ins queries (i + 100) w1))"
        using "1.IH" [OF True p [symmetric] Inr "1.prems"] .
      with True p a Inr show ?thesis by (subst insert_batches.simps) simp
    qed
  qed
qed

lemma io_mono_insert_batches:
  "(\<And>r. io_mono now (ins r)) \<Longrightarrow> io_mono now (insert_batches pick ins queries i)"
  unfolding io_mono_def [of now "insert_batches pick ins queries i"]
  by (intro allI insert_batches_clock) simp

lemma io_mono_success: "io_mono (Date_now env) (success_result env db opn t0 n b)"
  by (simp add: io_mono_def success_result_def)

lemma io_mono_no_records: "io_mono (Date_now env) (no_records_result env db opn t0)"
  by (simp add: io_mono_def no_records_result_def)

lemma io_mono_sleep:
  "\<forall>ms w. now w \<le> now (slp ms w) \<Longrightarrow> io_mono now (\<lambda>w. (Inr (), slp ms w))"
  by (simp add: io_mono_def)

lemmas io_mono_intros =
  io_mono_bind io_mono_return io_mono_throw io_mono_promise_all io_mono_insert_batches
  io_mono_success io_mono_no_records io_mono_sleep

lemma try_catch_clock:
  assumes "io_mono (Date_now env) body"
  shows "Date_now env w
           \<le> Date_now env (snd (try_catch body (failure_result env db opn t0 n) w))"
proof -
  obtain x w1 where b: "body w = (x, w1)" by (cases "body w")
  have "Date_now env w \<le> Date_now env w1" using assms b by (rule io_monoD)
  with b show ?thesis
    by (cases x) (simp_all add: try_catch_def failure_result_def)
qed

lemma mono_CassandraWrite:
  assumes "case client of None \<Rightarrow> True | Some c \<Rightarrow> sql_client_mono (Date_now env) c"
  shows "io_mono (Date_now env) (runCassandraWriteTest_try env client records t0)"
  using assms unfolding runCassandraWriteTest_try_def runCassandraWriteTest_verify_def sql_client_mono_def Let_def
  by (auto intro!: io_mono_intros split: option.splits list.splits)

lemma clock_CassandraWrite:
  assumes "case client of None \<Rightarrow> True | Some c \<Rightarrow> sql_client_mono (Date_now env) c"
  shows "Date_now env w \<le> Date_now env (snd (runCassandraWriteTest env client records w))"
  unfolding runCassandraWriteTest_def Let_def
  by (rule try_catch_clock [OF mono_CassandraWrite [OF assms]])

lemma mono_CassandraRead:
  assumes "case client of None \<Rightarrow> True | Some c \<Rightarrow> sql_client_mono (Date_now env) c"
  shows "io_mono (Date_now env) (runCassandraReadTest_try env client recordIds t0)"
  using assms unfolding runCassandraReadTest_try_def sql_client_mono_def Let_def
  by (auto intro!: io_mono_intros split: option.splits list.splits)

lemma clock_CassandraRead:
  assumes "case client of None \<Rightarrow> True | Some c \<Rightarrow> sql_client_mono (Date_now env) c"
  shows "Date_now env w \<le> Date_now env (snd (runCassandraReadTest env client recordIds w))"
  unfolding runCassandraReadTest_def Let_def
  by (rule try_catch_clock [OF mono_CassandraRead [OF assms]])

lemma mono_CassandraUpdate:
  assumes "case client of None \<Rightarrow> True | Some c \<Rightarrow> sql_client_mono (Date_now env) c"
  shows "io_mono (Date_now env) (runCassandraUpdateTest_try env client recordIds t0)"
  using assms unfolding runCassandraUpdateTest_try_def sql_client_mono_def Let_def
  by (auto intro!: io_mono_intros split: option.splits list.splits)

lemma clock_CassandraUpdate:
  assumes "case client of None \<Rightarrow> True | Some c \<Rightarrow> sql_client_mono (Date_now env) c"
  shows "Date_now env w \<le> Date_now env (snd (runCassandraUpdateTest env client recordIds w))"
  unfolding runCassandraUpdateTest_def Let_def
  by (rule try_catch_clock [OF mono_CassandraUpdate [OF assms]])

lemma mono_MongoWrite:
  assumes "case client of None \<Rightarrow> True | Some d \<Rightarrow> mongo_mono (Date_now env) d"
  shows "io_mono (Date_now env) (runMongoWriteTest_try env client records t0)"
  using assms unfolding runMongoWriteTest_try_def runMongoWriteTest_verify_def mongo_mono_def Let_def
  by (auto intro!: io_mono_intros split: option.splits list.splits)

lemma clock_MongoWrite:
  assumes "case client of None \<Rightarrow> True | Some d \<Rightarrow> mongo_mono (Date_now env) d"
  shows "Date_now env w \<le> Date_now env (snd (runMongoWriteTest env client records w))"
  unfolding runMongoWriteTest_def Let_def
  by (rule try_catch_clock [OF mono_MongoWrite [OF assms]])

lemma mono_MongoRead:
  assumes "case client of None \<Rightarrow> True | Some d \<Rightarrow> mongo_mono (Date_now env) d"
  shows "io_mono (Date_now env) (runMongoReadTest_try env client recordIds t0)"
  using assms unfolding runMongoReadTest_try_def mongo_mono_def Let_def
  by (auto intro!: io_mono_intros split: option.splits list.splits)

lemma clock_MongoRead:
  assumes "case client of None \<Rightarrow> True | Some d \<Rightarrow> mongo_mono (Date_now env) d"
  shows "Date_now env w \<le> Date_now env (snd (runMongoReadTest env client recordIds w))"
  unfolding runMongoReadTest_def Let_def
  by (rule try_catch_clock [OF mono_MongoRead [OF assms]])

lemma mono_MongoUpdate:
  assumes "case client of None \<Rightarrow> True | Some d \<Rightarrow> mongo_mono (Date_now env) d"
  shows "io_mono (Date_now env) (runMongoUpdateTest_try env client recordIds t0)"
  using assms unfolding runMongoUpdateTest_try_def mongo_mono_def Let_def
  by (auto intro!: io_mono_intros split: option.splits list.splits)

lemma clock_MongoUpdate:
  assumes "case client of None \<Rightarrow> True | Some d \<Rightarrow> mongo_mono (Date_now env) d"
  shows "Date_now env w \<le> Date_now env (snd (runMongoUpdateTest env client recordIds w))"
  unfolding runMongoUpdateTest_def Let_def
  by (rule try_catch_clock [OF mono_MongoUpdate [OF assms]])

lemma mono_CockroachWrite:
  assumes "case client of None \<Rightarrow> True | Some c \<Rightarrow> sql_client_mono (Date_now env) c"
  shows "io_mono (Date_now env) (runCockroachWriteTest_try env client records t0)"
  using assms unfolding runCockroachWriteTest_try_def runCockroachWriteTest_verify_def sql_client_mono_def Let_def
  by (auto intro!: io_mono_intros split: option.splits list.splits)

lemma clock_CockroachWrite:
  assumes "case client of None \<Rightarrow> True | Some c \<Rightarrow> sql_client_mono (Date_now env) c"
  shows "Date_now env w \<le> Date_now env (snd (runCockroachWriteTest env client records w))"
  unfolding runCockroachWriteTest_def Let_def
  by (rule try_catch_clock [OF mono_CockroachWrite [OF assms]])

lemma mono_CockroachRead:
  assumes "case client of None \<Rightarrow> True | Some c \<Rightarrow> sql_client_mono (Date_now env) c"
  shows "io_mono (Date_now env) (runCockroachReadTest_try env client recordIds t0)"
  using assms unfolding runCockroachReadTest_try_def sql_client_mono_def Let_def
  by (auto intro!: io_mono_intros split: option.splits list.splits)

lemma clock_CockroachRead:
  assumes "case client of None \<Rightarrow> True | Some c \<Rightarrow> sql_client_mono (Date_now env) c"
  shows "Date_now env w \<le> Date_now env (snd (runCockroachReadTest env client recordIds w))"
  unfolding runCockroachReadTest_def Let_def
  by (rule try_catch_clock [OF mono_CockroachRead [OF assms]])

lemma mono_CockroachUpdate:
  assumes "case client of None \<Rightarrow> True | Some c \<Rightarrow> sql_client_mono (Date_now env) c"
    and "\<forall>ms w. Date_now env w \<le> Date_now env (sleep env ms w)"
  shows "io_mono (Date_now env) (runCockroachUpdateTest_try env client recordIds t0)"
  using assms unfolding runCockroachUpdateTest_try_def sql_client_mono_def Let_def
  by (auto intro!: io_mono_intros split: option.splits list.splits)

lemma clock_CockroachUpdate:
  assumes "case client of None \<Rightarrow> True | Some c \<Rightarrow> sql_client_mono (Date_now env) c"
    and "\<forall>ms w. Date_now env w \<le> Date_now env (sleep env ms w)"
  shows "Date_now env w \<le> Date_now env (snd (runCockroachUpdateTest env client recordIds w))"
  unfolding runCockroachUpdateTest_def Let_def
  by (rule try_catch_clock [OF mono_CockroachUpdate [OF assms]])

lemma clock_run_adapter:
  assumes "clock_monotone env st"
  shows "Date_now env w \<le> Date_now env (snd (run_adapter env st db opn testRecords w))"
proof -
  have slp: "\<forall>ms w. Date_now env w \<le> Date_now env (sleep env ms w)"
    using assms by (simp add: clock_monotone_def)
  have ca: "case cassandraClient st of None \<Rightarrow> True | Some c \<Rightarrow> sql_client_mono (Date_now env) c"
    using assms by (simp add: clock_monotone_def split: option.splits)
  have mo: "case mongoDb st of None \<Rightarrow> True | Some d \<Rightarrow> mongo_mono (Date_now env) d"
    using assms by (simp add: clock_monotone_def split: option.splits)
  have co: "case cockroachClient st of None \<Rightarrow> True | Some c \<Rightarrow> sql_client_mono (Date_now env) c"
    using assms by (simp add: clock_monotone_def split: option.splits)
  show ?thesis
  proof (cases db)
    case cassandra
    then show ?thesis
      using clock_CassandraWrite [OF ca] clock_CassandraRead [OF ca] clock_CassandraUpdate [OF ca]
      by (cases opn) (simp_all add: run_adapter_def)
  next
    case mongo
    then show ?thesis
      using clock_MongoWrite [OF mo] clock_MongoRead [OF mo] clock_MongoUpdate [OF mo]
      by (cases opn) (simp_all add: run_adapter_def)
  next
    case cockroach
    then show ?thesis
      using clock_CockroachWrite [OF co] clock_CockroachRead [OF co]
        clock_CockroachUpdate [OF co slp]
      by (cases opn) (simp_all add: run_adapter_def)
  qed
qed

lemma connect_keeps_clock_monotone:
  assumes "clock_monotone env st" and "connect env db st = (x, st1)"
  shows "clock_monotone env st1"
  using assms
  by (cases db)
     (auto simp: connect_def connectCassandra_def connectMongoDB_def connectCockroachDB_def
        clock_monotone_def split: option.splits prod.splits sum.splits if_splits)

lemma clock_runTest:
  assumes "clock_monotone env st"
  shows "0 \<le> timeTaken (fst (runTest env db opn st))"
proof -
  obtain x st1 where c: "connect env db st = (x, st1)" by (cases "connect env db st")
  show ?thesis
  proof (cases x)
    case (Inl msg)
    with c show ?thesis by (simp add: runTest_def)
  next
    case (Inr u)
    obtain recs w2 where g: "generateTestData env RECORD_COUNT (world st1) = (recs, w2)"
      by (cases "generateTestData env RECORD_COUNT (world st1)")
    obtain r w3 where a: "run_adapter env st1 db opn recs w2 = (r, w3)"
      by (cases "run_adapter env st1 db opn recs w2")
    have "clock_monotone env st1" using assms c by (rule connect_keeps_clock_monotone)
    from clock_run_adapter [OF this, of w2 db opn recs] shape_run_adapter [of env st1 db opn recs w2]
      a c Inr g
    show ?thesis by (simp add: runTest_def)
  qed
qed

lemma error_result_ok: "result_ok (errorResult db opn msg)"
  by (simp add: result_ok_def errorResult_def)

text \<open>
  C1, as amended. For every backend and every operation, on every return path (the catch
  block of every adapter, the early return on an empty table, the catch block of
  \<open>runTest\<close>, the result the handlers build in their own catch block) the returned
  TestResult has \<open>recordCount \<ge> 0\<close>, and whenever \<open>error\<close> is set \<open>dataIntegrity\<close> is false.
  The \<open>timeTaken\<close> of an adapter is the reading of \<open>Date.now()\<close> at its return minus the
  reading at its invocation; it is \<open>\<ge> 0\<close>, for the adapters and for \<open>runTest\<close>, whenever
  the clock does not run backwards across the awaited calls and timers
  (\<open>clock_monotone\<close>).
\<close>

theorem results_well_formed:
  "0 \<le> recordCount (fst (run_adapter env st db opn testRecords w)) \<and>
   (error (fst (run_adapter env st db opn testRecords w)) \<noteq> None \<longrightarrow>
      \<not> dataIntegrity (fst (run_adapter env st db opn testRecords w))) \<and>
   timeTaken (fst (run_adapter env st db opn testRecords w))
     = Date_now env (snd (run_adapter env st db opn testRecords w)) - Date_now env w \<and>
   (clock_monotone env st \<longrightarrow> 0 \<le> timeTaken (fst (run_adapter env st db opn testRecords w))) \<and>
   0 \<le> recordCount (fst (runTest env db opn st)) \<and>
   (error (fst (runTest env db opn st)) \<noteq> None \<longrightarrow> \<not> dataIntegrity (fst (runTest env db opn st))) \<and>
   (clock_monotone env st \<longrightarrow> 0 \<le> timeTaken (fst (runTest env db opn st))) \<and>
   result_ok (errorResult db opn msg)"
proof -
  have "clock_monotone env st \<longrightarrow> 0 \<le> timeTaken (fst (run_adapter env st db opn testRecords w))"
    using clock_run_adapter [of env st w db opn testRecords]
      shape_run_adapter [of env st db opn testRecords w]
    by simp
  then show ?thesis
    using shape_run_adapter [of env st db opn testRecords w] shape_runTest [of env db opn st]
      clock_runTest [of env st db opn] error_result_ok [of db opn msg]
    by blast
qed

lemma store_sql_mono: "sql_client_mono clock (store_sql b)"
  by (simp add: sql_client_mono_def io_mono_def store_sql_def tick_def)

lemma store_mongo_mono: "mongo_mono clock (store_mongo b)"
  by (simp add: mongo_mono_def io_mono_def store_mongo_def tick_def)

lemma failing_sql_mono: "sql_client_mono clock failing_sql"
  by (simp add: sql_client_mono_def io_mono_def failing_sql_def tick_def)

lemma sim_clock_monotone_timeout: "clock_monotone sim_env timeout_state"
  by (simp add: clock_monotone_def sim_env_def fresh_state_def timeout_state_def store_sql_mono
        store_mongo_mono failing_sql_mono tick_def)

theorem results_well_formed_witness:
  "clock_monotone sim_env timeout_state \<and>
   0 \<le> recordCount (fst (run_adapter sim_env timeout_state cassandra op_read [] (sim_world []))) \<and>
   error (fst (runTest sim_env cassandra op_read timeout_state)) \<noteq> None \<and>
   \<not> dataIntegrity (fst (runTest sim_env cassandra op_read timeout_state)) \<and>
   0 \<le> timeTaken (fst (run_adapter sim_env timeout_state cassandra op_read [] (sim_world []))) \<and>
   0 \<le> timeTaken (fst (runTest sim_env cassandra op_read timeout_state)) \<and>
   result_ok (errorResult cassandra op_read ''connection refused'')"
proof -
  have e: "error (fst (runTest sim_env cassandra op_read timeout_state)) \<noteq> None"
    by (simp add: runTest_def connect_def connectCassandra_def run_adapter_def timeout_state_def
          fresh_state_def runCassandraReadTest_def runCassandraReadTest_try_def io_bind_def
          try_catch_def failure_result_def failing_sql_def split: prod.splits)
  show ?thesis
    using results_well_formed [of sim_env timeout_state cassandra op_read "[]" "sim_world []"
        "''connection refused''"]
      sim_clock_monotone_timeout e
    by simp
qed

text \<open>
  C1 as stated fails: when the system clock is set back while the adapter waits (here by
  6 ms during the discovery query of a successful read), \<open>timeTaken\<close> is negative.
\<close>

theorem clock_set_back_counterexample:
  "runCassandraReadTest sim_env (Some skewed_sql) [''a''] (sim_world [sample_row]) =
     (\<lparr> database = ''Cassandra'', operation = op_read, timeTaken = - 6, recordCount = 1,
        dataIntegrity = True, error = None \<rparr>,
      \<lparr> clock = - 6, seed = 0, tbl = [sample_row], calls = [] \<rparr>)"
  by (simp add: runCassandraReadTest_def runCassandraReadTest_try_def io_bind_def io_return_def
        try_catch_def success_result_def no_records_result_def failure_result_def
        promise_all_def skewed_sql_def sim_env_def sim_world_def tick_def sample_row_def
        slice_def truthy_def)

section \<open>The buffered full-matrix run\<close>

lemma cell_runTest: "cell_result db opn (fst (runTest env db opn st))"
  using shape_runTest [of env db opn st] by (simp add: cell_result_def)

lemma run_cells_results:
  "list_all2 (\<lambda>r c. cell_result (fst c) (snd c) r) (fst (run_cells env cs st)) cs"
proof (induction cs arbitrary: st)
  case Nil
  show ?case by simp
next
  case (Cons c cs)
  obtain r st1 where r: "runTest env (fst c) (snd c) st = (r, st1)"
    by (cases "runTest env (fst c) (snd c) st")
  obtain rs st2 where t: "run_cells env cs (pause_world env 500 st1) = (rs, st2)"
    by (cases "run_cells env cs (pause_world env 500 st1)")
  from cell_runTest [of "fst c" "snd c" env st] r have "cell_result (fst c) (snd c) r" by simp
  with Cons.IH [of "pause_world env 500 st1"] r t show ?case by simp
qed

lemma run_cells_append:
  "run_cells env (xs @ ys) st =
     (case run_cells env xs st of
        (rs1, st1) \<Rightarrow> (case run_cells env ys st1 of (rs2, st2) \<Rightarrow> (rs1 @ rs2, st2)))"
  by (induction xs arbitrary: st) (simp_all split: prod.splits)

text \<open>The loops of the handler run the cells by \<open>runTest\<close>, in order; nothing else is pushed.\<close>

lemma all_operations_loop_runs:
  "all_operations_loop (runTest_io env) (pause_world env) db ops allResults st =
     (case run_cells env (map (Pair db) ops) st of (rs, st1) \<Rightarrow> (allResults @ rs, st1))"
proof (induction ops arbitrary: allResults st)
  case Nil
  show ?case by simp
next
  case (Cons opn ops)
  obtain r st1 where r: "runTest env db opn st = (r, st1)" by (cases "runTest env db opn st")
  then have "runTest_io env db opn st = (Inr r, st1)" by (simp add: runTest_io_def)
  with r Cons.IH [of "allResults @ [r]" "pause_world env 500 st1"] show ?case
    by (simp split: prod.splits)
qed

lemma all_databases_loop_runs:
  "all_databases_loop (runTest_io env) (pause_world env) dbs ops allResults st =
     (case run_cells env (List.product dbs ops) st of (rs, st1) \<Rightarrow> (allResults @ rs, st1))"
proof (induction dbs arbitrary: allResults st)
  case Nil
  show ?case by simp
next
  case (Cons db dbs)
  show ?case
    by (simp add: all_operations_loop_runs Cons.IH run_cells_append split: prod.splits)
qed

lemma successful_count:
  assumes "\<forall>r\<in>set rs. error r \<noteq> None \<longrightarrow> \<not> dataIntegrity r"
  shows "filter (\<lambda>r. \<not> truthy (error r) \<and> dataIntegrity r) rs =
         filter (\<lambda>r. error r = None \<and> dataIntegrity r) rs"
  using assms by (intro filter_cong) (auto simp: truthy_def split: option.splits)

lemma successful_plus_failed:
  "successfulTests (make_summary rs) + failedTests (make_summary rs) = totalTests (make_summary rs)"
proof -
  have e: "filter (\<lambda>r. truthy (error r) \<or> \<not> dataIntegrity r) rs =
           filter (\<lambda>r. \<not> (\<not> truthy (error r) \<and> dataIntegrity r)) rs"
    by (rule filter_cong) auto
  show ?thesis
    unfolding make_summary_def
    by (simp only: summary.select_convs e sum_length_filter_compl)
qed

lemma cells_invariant:
  assumes "list_all2 (\<lambda>r c. cell_result (fst c) (snd c) r) rs cs"
  shows "\<forall>r\<in>set rs. error r \<noteq> None \<longrightarrow> \<not> dataIntegrity r"
proof
  fix r assume "r \<in> set rs"
  then obtain i where i: "i < length rs" "rs ! i = r" by (auto simp: in_set_conv_nth)
  from list_all2_nthD [OF assms i(1)] i(2)
  show "error r \<noteq> None \<longrightarrow> \<not> dataIntegrity r" by (simp add: cell_result_def)
qed

lemma cells_positions:
  assumes "list_all2 (\<lambda>r c. cell_result (fst c) (snd c) r) rs cs"
  shows "list_all2 (\<lambda>r c. operation r = snd c \<and>
                        (database r = dbLabels (fst c) \<or> database r = dbType_string (fst c))) rs cs"
  using assms by (rule list_all2_mono) (simp add: cell_result_def)

text \<open>
  C10. The buffered full-matrix run answers a POST with the results of running the nine
  cells of the backend \<times> operation matrix by \<open>runTest\<close>, one after the other and in the
  order of the matrix (\<open>run_cells\<close>): exactly 9 TestResults, the first being that of
  \<open>runTest\<close> on (cassandra, write) in the state of the request, none dropped whether the
  cell failed or not; together with a summary where \<open>totalTests = 9\<close>, a result counts as
  successful exactly when it has no error and \<open>dataIntegrity\<close> is true, and
  \<open>successfulTests + failedTests = totalTests\<close>.
\<close>

theorem buffered_matrix:
  "handler_all env ''POST'' st =
     (Ok (fst (run_cells env (List.product databases operations) st))
         (make_summary (fst (run_cells env (List.product databases operations) st))),
      snd (run_cells env (List.product databases operations) st)) \<and>
   length (fst (run_cells env (List.product databases operations) st)) = 9 \<and>
   hd (fst (run_cells env (List.product databases operations) st))
     = fst (runTest env cassandra op_write st) \<and>
   list_all2 (\<lambda>r c. operation r = snd c \<and>
                    (database r = dbLabels (fst c) \<or> database r = dbType_string (fst c)))
     (fst (run_cells env (List.product databases operations) st))
     (List.product databases operations) \<and>
   totalTests (make_summary (fst (run_cells env (List.product databases operations) st))) = 9 \<and>
   successfulTests (make_summary (fst (run_cells env (List.product databases operations) st)))
     = length (filter (\<lambda>r. error r = None \<and> dataIntegrity r)
                 (fst (run_cells env (List.product databases operations) st))) \<and>
   successfulTests (make_summary (fst (run_cells env (List.product databases operations) st)))
     + failedTests (make_summary (fst (run_cells env (List.product databases operations) st)))
     = totalTests (make_summary (fst (run_cells env (List.product databases operations) st)))"
proof -
  let ?cells = "List.product databases operations"
  let ?rs = "fst (run_cells env ?cells st)"
  have h: "handler_all env ''POST'' st =
             (Ok ?rs (make_summary ?rs), snd (run_cells env ?cells st))"
    by (simp add: handler_all_def handler_all_with_def all_databases_loop_runs
          split: prod.splits)
  have c: "list_all2 (\<lambda>r c. cell_result (fst c) (snd c) r) ?rs ?cells"
    by (rule run_cells_results)
  have len: "length ?rs = 9"
    using list_all2_lengthD [OF c] by (simp add: databases_def operations_def)
  have cs: "?cells = (cassandra, op_write) # tl ?cells"
    by (simp add: databases_def operations_def)
  have first: "hd ?rs = fst (runTest env cassandra op_write st)"
    by (subst cs) (simp split: prod.splits)
  have succ: "successfulTests (make_summary ?rs) =
              length (filter (\<lambda>r. error r = None \<and> dataIntegrity r) ?rs)"
    using successful_count [OF cells_invariant [OF c]] by (simp add: make_summary_def)
  have tot: "totalTests (make_summary ?rs) = 9"
    using len by (simp add: make_summary_def)
  from h len first cells_positions [OF c] tot succ successful_plus_failed [of ?rs]
  show ?thesis by (intro conjI)
qed

theorem buffered_matrix_witness:
  "handler_all sim_env ''POST'' fresh_state =
     (Ok (fst (run_cells sim_env (List.product databases operations) fresh_state))
         (make_summary (fst (run_cells sim_env (List.product databases operations) fresh_state))),
      snd (run_cells sim_env (List.product databases operations) fresh_state)) \<and>
   length (fst (run_cells sim_env (List.product databases operations) fresh_state)) = 9 \<and>
   hd (fst (run_cells sim_env (List.product databases operations) fresh_state))
     = fst (runTest sim_env cassandra op_write fresh_state) \<and>
   totalTests (make_summary (fst (run_cells sim_env (List.product databases operations) fresh_state)))
     = 9"
  using buffered_matrix [of sim_env fresh_state] by simp

section \<open>Reading or updating an empty table\<close>

lemmas adapter_steps =
  io_bind_def io_throw_def io_return_def try_catch_def success_result_def no_records_result_def
  failure_result_def

text \<open>
  C3. For every backend, when the discovery query of the read or of the update adapter
  answers with zero rows (the backend holds no persisted row), the adapter returns at
  once, in the world the discovery query left, with \<open>recordCount = 0\<close>,
  \<open>dataIntegrity = false\<close> and the error text
  \<open>No records found in database. Please run Write test first.\<close>
\<close>

theorem empty_backend:
  "(sql_select_ids c (min (length recordIds) 1000) w = (Inr [], w1) \<longrightarrow>
      runCassandraReadTest env (Some c) recordIds w =
        (\<lparr> database = ''Cassandra'', operation = op_read,
            timeTaken = Date_now env w1 - Date_now env w, recordCount = 0, dataIntegrity = False,
            error = Some ''No records found in database. Please run Write test first.'' \<rparr>, w1) \<and>
      runCassandraUpdateTest env (Some c) recordIds w =
        (\<lparr> database = ''Cassandra'', operation = op_update,
            timeTaken = Date_now env w1 - Date_now env w, recordCount = 0, dataIntegrity = False,
            error = Some ''No records found in database. Please run Write test first.'' \<rparr>, w1)) \<and>
   (find_limit d (length recordIds) w = (Inr [], w1) \<longrightarrow>
      runMongoReadTest env (Some d) recordIds w =
        (\<lparr> database = ''MongoDB'', operation = op_read,
            timeTaken = Date_now env w1 - Date_now env w, recordCount = 0, dataIntegrity = False,
            error = Some ''No records found in database. Please run Write test first.'' \<rparr>, w1) \<and>
      runMongoUpdateTest env (Some d) recordIds w =
        (\<lparr> database = ''MongoDB'', operation = op_update,
            timeTaken = Date_now env w1 - Date_now env w, recordCount = 0, dataIntegrity = False,
            error = Some ''No records found in database. Please run Write test first.'' \<rparr>, w1)) \<and>
   (sql_select_ids c (length recordIds) w = (Inr [], w1) \<longrightarrow>
      runCockroachReadTest env (Some c) recordIds w =
        (\<lparr> database = ''CockroachDB'', operation = op_read,
            timeTaken = Date_now env w1 - Date_now env w, recordCount = 0, dataIntegrity = False,
            error = Some ''No records found in database. Please run Write test first.'' \<rparr>, w1) \<and>
      runCockroachUpdateTest env (Some c) recordIds w =
        (\<lparr> database = ''CockroachDB'', operation = op_update,
            timeTaken = Date_now env w1 - Date_now env w, recordCount = 0, dataIntegrity = False,
            error = Some ''No records found in database. Please run Write test first.'' \<rparr>, w1))"
proof (intro conjI impI)
  assume "sql_select_ids c (min (length recordIds) 1000) w = (Inr [], w1)"
  then show "runCassandraReadTest env (Some c) recordIds w =
        (\<lparr> database = ''Cassandra'', operation = op_read,
            timeTaken = Date_now env w1 - Date_now env w, recordCount = 0, dataIntegrity = False,
            error = Some ''No records found in database. Please run Write test first.'' \<rparr>, w1)"
    by (simp add: runCassandraReadTest_def runCassandraReadTest_try_def adapter_steps NO_RECORDS_def)
next
  assume "sql_select_ids c (min (length recordIds) 1000) w = (Inr [], w1)"
  then show "runCassandraUpdateTest env (Some c) recordIds w =
        (\<lparr> database = ''Cassandra'', operation = op_update,
            timeTaken = Date_now env w1 - Date_now env w, recordCount = 0, dataIntegrity = False,
            error = Some ''No records found in database. Please run Write test first.'' \<rparr>, w1)"
    by (simp add: runCassandraUpdateTest_def runCassandraUpdateTest_try_def adapter_steps NO_RECORDS_def)
next
  assume "find_limit d (length recordIds) w = (Inr [], w1)"
  then show "runMongoReadTest env (Some d) recordIds w =
        (\<lparr> database = ''MongoDB'', operation = op_read,
            timeTaken = Date_now env w1 - Date_now env w, recordCount = 0, dataIntegrity = False,
            error = Some ''No records found in database. Please run Write test first.'' \<rparr>, w1)"
    by (simp add: runMongoReadTest_def runMongoReadTest_try_def adapter_steps NO_RECORDS_def)
next
  assume "find_limit d (length recordIds) w = (Inr [], w1)"
  then show "runMongoUpdateTest env (Some d) recordIds w =
        (\<lparr> database = ''MongoDB'', operation = op_update,
            timeTaken = Date_now env w1 - Date_now env w, recordCount = 0, dataIntegrity = False,
            error = Some ''No records found in database. Please run Write test first.'' \<rparr>, w1)"
    by (simp add: runMongoUpdateTest_def runMongoUpdateTest_try_def adapter_steps NO_RECORDS_def)
next
  assume "sql_select_ids c (length recordIds) w = (Inr [], w1)"
  then show "runCockroachReadTest env (Some c) recordIds w =
        (\<lparr> database = ''CockroachDB'', operation = op_read,
            timeTaken = Date_now env w1 - Date_now env w, recordCount = 0, dataIntegrity = False,
            error = Some ''No records found in database. Please run Write test first.'' \<rparr>, w1)"
    by (simp add: runCockroachReadTest_def runCockroachReadTest_try_def adapter_steps NO_RECORDS_def)
next
  assume "sql_select_ids c (length recordIds) w = (Inr [], w1)"
  then show "runCockroachUpdateTest env (Some c) recordIds w =
        (\<lparr> database = ''CockroachDB'', operation = op_update,
            timeTaken = Date_now env w1 - Date_now env w, recordCount = 0, dataIntegrity = False,
            error = Some ''No records found in database. Please run Write test first.'' \<rparr>, w1)"
    by (simp add: runCockroachUpdateTest_def runCockroachUpdateTest_try_def adapter_steps NO_RECORDS_def)
qed

lemma sim_discovery_empty:
  "sql_select_ids (store_sql True) n (sim_world []) = (Inr [], tick 1 (sim_world []))"
  "find_limit (store_mongo True) n (sim_world []) = (Inr [], tick 1 (sim_world []))"
  by (simp_all add: store_sql_def store_mongo_def sim_world_def)

theorem empty_backend_witness:
  "sql_select_ids (store_sql True) (min (length [''a'', ''b'']) 1000) (sim_world [])
     = (Inr [], tick 1 (sim_world [])) \<and>
   find_limit (store_mongo True) (length [''a'', ''b'']) (sim_world [])
     = (Inr [], tick 1 (sim_world [])) \<and>
   sql_select_ids (store_sql True) (length [''a'', ''b'']) (sim_world [])
     = (Inr [], tick 1 (sim_world [])) \<and>
   fst (runCassandraReadTest sim_env (Some (store_sql True)) [''a'', ''b''] (sim_world [])) =
     \<lparr> database = ''Cassandra'', operation = op_read, timeTaken = 1, recordCount = 0,
       dataIntegrity = False,
       error = Some ''No records found in database. Please run Write test first.'' \<rparr> \<and>
   fst (runMongoUpdateTest sim_env (Some (store_mongo True)) [''a'', ''b''] (sim_world [])) =
     \<lparr> database = ''MongoDB'', operation = op_update, timeTaken = 1, recordCount = 0,
       dataIntegrity = False,
       error = Some ''No records found in database. Please run Write test first.'' \<rparr> \<and>
   fst (runCockroachReadTest sim_env (Some (store_sql True)) [''a'', ''b''] (sim_world [])) =
     \<lparr> database = ''CockroachDB'', operation = op_read, timeTaken = 1, recordCount = 0,
       dataIntegrity = False,
       error = Some ''No records found in database. Please run Write test first.'' \<rparr>"
proof -
  have h1: "sql_select_ids (store_sql True) (min (length [''a'', ''b'']) 1000) (sim_world [])
              = (Inr [], tick 1 (sim_world []))"
    by (rule sim_discovery_empty)
  have h2: "find_limit (store_mongo True) (length [''a'', ''b'']) (sim_world [])
              = (Inr [], tick 1 (sim_world []))"
    by (rule sim_discovery_empty)
  have h3: "sql_select_ids (store_sql True) (length [''a'', ''b'']) (sim_world [])
              = (Inr [], tick 1 (sim_world []))"
    by (rule sim_discovery_empty)
  have t: "Date_now sim_env (tick 1 (sim_world [])) - Date_now sim_env (sim_world []) = 1"
    by (simp add: sim_env_def tick_def sim_world_def)
  note e = empty_backend [of "store_sql True" "[''a'', ''b'']" "sim_world []" "tick 1 (sim_world [])"
      sim_env "store_mongo True"]
  from e h1 have r1:
    "runCassandraReadTest sim_env (Some (store_sql True)) [''a'', ''b''] (sim_world []) =
        (\<lparr> database = ''Cassandra'', operation = op_read,
            timeTaken = Date_now sim_env (tick 1 (sim_world [])) - Date_now sim_env (sim_world []),
            recordCount = 0, dataIntegrity = False,
            error = Some ''No records found in database. Please run Write test first.'' \<rparr>,
         tick 1 (sim_world []))"
    by blast
  from e h2 have r2:
    "runMongoUpdateTest sim_env (Some (store_mongo True)) [''a'', ''b''] (sim_world []) =
        (\<lparr> database = ''MongoDB'', operation = op_update,
            timeTaken = Date_now sim_env (tick 1 (sim_world [])) - Date_now sim_env (sim_world []),
            recordCount = 0, dataIntegrity = False,
            error = Some ''No records found in database. Please run Write test first.'' \<rparr>,
         tick 1 (sim_world []))"
    by blast
  from e h3 have r3:
    "runCockroachReadTest sim_env (Some (store_sql True)) [''a'', ''b''] (sim_world []) =
        (\<lparr> database = ''CockroachDB'', operation = op_read,
            timeTaken = Date_now sim_env (tick 1 (sim_world [])) - Date_now sim_env (sim_world []),
            recordCount = 0, dataIntegrity = False,
            error = Some ''No records found in database. Please run Write test first.'' \<rparr>,
         tick 1 (sim_world []))"
    by blast
  show ?thesis
    by (simp only: h1 h2 h3 r1 r2 r3 t fst_conv simp_thms)
qed

section \<open>Failures inside an adapter\<close>

lemma rejections_set: "set (rejections rs) = {msg. Inl msg \<in> set rs}"
  by (induction rs rule: rejections.induct) auto

lemma promise_all_rejects:
  "promise_all pick ms w = (Inl msg, w1) \<Longrightarrow>
     Inl msg \<in> set (fst (run_all ms w)) \<and> w1 = snd (run_all ms w)"
proof -
  assume a: "promise_all pick ms w = (Inl msg, w1)"
  obtain rs w2 where r: "run_all ms w = (rs, w2)" by (cases "run_all ms w")
  show ?thesis
  proof (cases "rejections rs")
    case Nil
    with a r show ?thesis by (simp add: promise_all_def)
  next
    case (Cons f fs)
    have "(f # fs) ! (pick w2 mod length (f # fs)) \<in> set (f # fs)"
      by (rule nth_mem) simp
    with a r Cons have "msg \<in> set (rejections rs)" "w1 = w2"
      by (auto simp: promise_all_def)
    then show ?thesis using r by (simp add: rejections_set)
  qed
qed

lemma promise_all_one_rejected:
  "Inl m \<in> set (fst (run_all ms w)) \<Longrightarrow> \<exists>msg. fst (promise_all pick ms w) = Inl msg"
proof -
  assume "Inl m \<in> set (fst (run_all ms w))"
  then have "rejections (fst (run_all ms w)) \<noteq> []"
    using rejections_set [of "fst (run_all ms w)"] by auto
  then show ?thesis
    by (auto simp: promise_all_def split: prod.splits list.splits)
qed

lemma first_chunk_rejected:
  "records \<noteq> [] \<Longrightarrow>
   promise_all pick (map ins (slice records 0 100)) w = (Inl msg, w1) \<Longrightarrow>
   insert_batches pick ins records 0 w = (Inl msg, w1)"
  by (subst insert_batches.simps) simp

lemmas try_blocks =
  runCassandraWriteTest_def runCassandraWriteTest_try_def runCassandraWriteTest_verify_def
  runMongoWriteTest_def runMongoWriteTest_try_def runMongoWriteTest_verify_def
  runCockroachWriteTest_def runCockroachWriteTest_try_def runCockroachWriteTest_verify_def
  runCassandraReadTest_def runCassandraReadTest_try_def
  runMongoReadTest_def runMongoReadTest_try_def
  runCockroachReadTest_def runCockroachReadTest_try_def
  runCassandraUpdateTest_def runCassandraUpdateTest_try_def
  runMongoUpdateTest_def runMongoUpdateTest_try_def
  runCockroachUpdateTest_def runCockroachUpdateTest_try_def
  first_elem_def Let_def io_bind_def io_throw_def try_catch_def

text \<open>
  C2, as amended. For every backend and operation, a failure at any step of the adapter's
  try block is caught, and the adapter returns the result of its catch block
  (\<open>failure_result\<close>) in the world the failing step left: \<open>error\<close> is the failure's
  message, \<open>dataIntegrity\<close> is false, and \<open>recordCount\<close> is the number of records
  (write) or of candidate identifiers (read, update) the adapter was called with,
  wherever the failure occurred. The steps are, one statement each: the client is
  missing; the insert loop (or \<open>insertMany\<close>) rejects; \<open>records[0]\<close> is undefined;
  the verification read of a write rejects; the discovery query rejects; the fan-out of
  reads or updates rejects; \<open>results[0]\<close> is undefined; the verification read of an update
  rejects. A rejected fan-out reports the message of one of its rejected requests, and
  rejects as soon as one of its requests does; the insert loop rejects when the fan-out
  of its first chunk does.
\<close>

theorem failure_is_caught:
  "failure_result env label opn startTime n m wz =
     (\<lparr> database = label, operation = opn, timeTaken = Date_now env wz - startTime,
         recordCount = int n, dataIntegrity = False, error = Some m \<rparr>, wz) \<and>
   (promise_all pick ms wa = (Inl m, wb) \<longrightarrow>
      Inl m \<in> set (fst (run_all ms wa)) \<and> wb = snd (run_all ms wa)) \<and>
   (Inl m \<in> set (fst (run_all ms wa)) \<longrightarrow> (\<exists>m'. fst (promise_all pick ms wa) = Inl m')) \<and>
   (records \<noteq> [] \<longrightarrow>
    promise_all (first_rejected env) (map (sql_insert c) (slice records 0 100)) w = (Inl msg, w1) \<longrightarrow>
    insert_batches (first_rejected env) (sql_insert c) records 0 w = (Inl msg, w1)) \<and>
   runCassandraWriteTest env None records w =
      failure_result env ''Cassandra'' op_write (Date_now env w) (length records) ''Cassandra client not initialized'' w \<and>
   (insert_batches (first_rejected env) (sql_insert c) records 0 w = (Inl msg, w1) \<longrightarrow>
    runCassandraWriteTest env (Some c) records w =
      failure_result env ''Cassandra'' op_write (Date_now env w) (length records) msg w1) \<and>
   (insert_batches (first_rejected env) (sql_insert c) [] 0 w = (Inr u, w1) \<longrightarrow>
    runCassandraWriteTest env (Some c) [] w =
      failure_result env ''Cassandra'' op_write (Date_now env w) (length ([] :: TestRecord list)) (undefined_property ''id'') w1) \<and>
   (insert_batches (first_rejected env) (sql_insert c) (r0 # rest) 0 w = (Inr u, w1) \<longrightarrow>
    sql_select_by_id c (Some (rec_id r0)) w1 = (Inl msg, w2) \<longrightarrow>
    runCassandraWriteTest env (Some c) (r0 # rest) w =
      failure_result env ''Cassandra'' op_write (Date_now env w) (length (r0 # rest)) msg w2) \<and>
   runCassandraReadTest env None recordIds w =
      failure_result env ''Cassandra'' op_read (Date_now env w) (length recordIds) ''Cassandra client not initialized'' w \<and>
   (sql_select_ids c (min (length recordIds) 1000) w = (Inl msg, w1) \<longrightarrow>
    runCassandraReadTest env (Some c) recordIds w =
      failure_result env ''Cassandra'' op_read (Date_now env w) (length recordIds) msg w1) \<and>
   (sql_select_ids c (min (length recordIds) 1000) w = (Inr existing, w1) \<longrightarrow>
    existing \<noteq> [] \<longrightarrow>
    promise_all (first_rejected env)
       (map (\<lambda>i. sql_select_by_id c (Some i)) (map row_id (slice existing 0 (min (length recordIds) 1000)))) w1 = (Inl msg, w2) \<longrightarrow>
    runCassandraReadTest env (Some c) recordIds w =
      failure_result env ''Cassandra'' op_read (Date_now env w) (length recordIds) msg w2) \<and>
   (sql_select_ids c (min (length recordIds) 1000) w = (Inr existing, w1) \<longrightarrow>
    existing \<noteq> [] \<longrightarrow>
    promise_all (first_rejected env)
       (map (\<lambda>i. sql_select_by_id c (Some i)) (map row_id (slice existing 0 (min (length recordIds) 1000)))) w1 = (Inr [], w2) \<longrightarrow>
    runCassandraReadTest env (Some c) recordIds w =
      failure_result env ''Cassandra'' op_read (Date_now env w) (length recordIds) (undefined_property ''rows'') w2) \<and>
   runCassandraUpdateTest env None recordIds w =
      failure_result env ''Cassandra'' op_update (Date_now env w) (length recordIds) ''Cassandra client not initialized'' w \<and>
   (sql_select_ids c (min (length recordIds) 1000) w = (Inl msg, w1) \<longrightarrow>
    runCassandraUpdateTest env (Some c) recordIds w =
      failure_result env ''Cassandra'' op_update (Date_now env w) (length recordIds) msg w1) \<and>
   (sql_select_ids c (min (length recordIds) 1000) w = (Inr existing, w1) \<longrightarrow>
    existing \<noteq> [] \<longrightarrow>
    promise_all (first_rejected env)
       (map (\<lambda>i. sql_update c (''Updated User '' @ i) 99 i) (map row_id (slice existing 0 (min (length recordIds) 1000)))) w1 = (Inl msg, w2) \<longrightarrow>
    runCassandraUpdateTest env (Some c) recordIds w =
      failure_result env ''Cassandra'' op_update (Date_now env w) (length recordIds) msg w2) \<and>
   (sql_select_ids c (min (length recordIds) 1000) w = (Inr existing, w1) \<longrightarrow>
    existing \<noteq> [] \<longrightarrow>
    promise_all (first_rejected env)
       (map (\<lambda>i. sql_update c (''Updated User '' @ i) 99 i) (map row_id (slice existing 0 (min (length recordIds) 1000)))) w1 = (Inr us, w2) \<longrightarrow>
    sql_select_by_id c (first_elem (map row_id (slice existing 0 (min (length recordIds) 1000)))) w2 = (Inl msg, w3) \<longrightarrow>
    runCassandraUpdateTest env (Some c) recordIds w =
      failure_result env ''Cassandra'' op_update (Date_now env w) (length recordIds) msg w3) \<and>
   runMongoWriteTest env None records w =
      failure_result env ''MongoDB'' op_write (Date_now env w) (length records) ''MongoDB client not initialized'' w \<and>
   (insertMany d records w = (Inl msg, w1) \<longrightarrow>
    runMongoWriteTest env (Some d) records w =
      failure_result env ''MongoDB'' op_write (Date_now env w) (length records) msg w1) \<and>
   (insertMany d [] w = (Inr u, w1) \<longrightarrow>
    runMongoWriteTest env (Some d) [] w =
      failure_result env ''MongoDB'' op_write (Date_now env w) (length ([] :: TestRecord list)) (undefined_property ''id'') w1) \<and>
   (insertMany d (r0 # rest) w = (Inr u, w1) \<longrightarrow>
    findOne d (Some (rec_id r0)) w1 = (Inl msg, w2) \<longrightarrow>
    runMongoWriteTest env (Some d) (r0 # rest) w =
      failure_result env ''MongoDB'' op_write (Date_now env w) (length (r0 # rest)) msg w2) \<and>
   runMongoReadTest env None recordIds w =
      failure_result env ''MongoDB'' op_read (Date_now env w) (length recordIds) ''MongoDB client not initialized'' w \<and>
   (find_limit d (length recordIds) w = (Inl msg, w1) \<longrightarrow>
    runMongoReadTest env (Some d) recordIds w =
      failure_result env ''MongoDB'' op_read (Date_now env w) (length recordIds) msg w1) \<and>
   (find_limit d (length recordIds) w = (Inr existing, w1) \<longrightarrow>
    existing \<noteq> [] \<longrightarrow>
    promise_all (first_rejected env)
       (map (\<lambda>i. findOne d (Some i)) (map row_id (slice existing 0 (min (length recordIds) 1000)))) w1 = (Inl msg, w2) \<longrightarrow>
    runMongoReadTest env (Some d) recordIds w =
      failure_result env ''MongoDB'' op_read (Date_now env w) (length recordIds) msg w2) \<and>
   runMongoUpdateTest env None recordIds w =
      failure_result env ''MongoDB'' op_update (Date_now env w) (length recordIds) ''MongoDB client not initialized'' w \<and>
   (find_limit d (length recordIds) w = (Inl msg, w1) \<longrightarrow>
    runMongoUpdateTest env (Some d) recordIds w =
      failure_result env ''MongoDB'' op_update (Date_now env w) (length recordIds) msg w1) \<and>
   (find_limit d (length recordIds) w = (Inr existing, w1) \<longrightarrow>
    existing \<noteq> [] \<longrightarrow>
    promise_all (first_rejected env)
       (map (\<lambda>i. updateOne d i (''Updated User '' @ i) 99) (map row_id (slice existing 0 (min (length recordIds) 1000)))) w1 = (Inl msg, w2) \<longrightarrow>
    runMongoUpdateTest env (Some d) recordIds w =
      failure_result env ''MongoDB'' op_update (Date_now env w) (length recordIds) msg w2) \<and>
   (find_limit d (length recordIds) w = (Inr existing, w1) \<longrightarrow>
    existing \<noteq> [] \<longrightarrow>
    promise_all (first_rejected env)
       (map (\<lambda>i. updateOne d i (''Updated User '' @ i) 99) (map row_id (slice existing 0 (min (length recordIds) 1000)))) w1 = (Inr us, w2) \<longrightarrow>
    findOne d (first_elem (map row_id (slice existing 0 (min (length recordIds) 1000)))) w2 = (Inl msg, w3) \<longrightarrow>
    runMongoUpdateTest env (Some d) recordIds w =
      failure_result env ''MongoDB'' op_update (Date_now env w) (length recordIds) msg w3) \<and>
   runCockroachWriteTest env None records w =
      failure_result env ''CockroachDB'' op_write (Date_now env w) (length records) ''CockroachDB client not initialized'' w \<and>
   (insert_batches (first_rejected env) (sql_insert c) records 0 w = (Inl msg, w1) \<longrightarrow>
    runCockroachWriteTest env (Some c) records w =
      failure_result env ''CockroachDB'' op_write (Date_now env w) (length records) msg w1) \<and>
   (insert_batches (first_rejected env) (sql_insert c) [] 0 w = (Inr u, w1) \<longrightarrow>
    runCockroachWriteTest env (Some c) [] w =
      failure_result env ''CockroachDB'' op_write (Date_now env w) (length ([] :: TestRecord list)) (undefined_property ''id'') w1) \<and>
   (insert_batches (first_rejected env) (sql_insert c) (r0 # rest) 0 w = (Inr u, w1) \<longrightarrow>
    sql_select_by_id c (Some (rec_id r0)) w1 = (Inl msg, w2) \<longrightarrow>
    runCockroachWriteTest env (Some c) (r0 # rest) w =
      failure_result env ''CockroachDB'' op_write (Date_now env w) (length (r0 # rest)) msg w2) \<and>
   runCockroachReadTest env None recordIds w =
      failure_result env ''CockroachDB'' op_read (Date_now env w) (length recordIds) ''CockroachDB client not initialized'' w \<and>
   (sql_select_ids c (length recordIds) w = (Inl msg, w1) \<longrightarrow>
    runCockroachReadTest env (Some c) recordIds w =
      failure_result env ''CockroachDB'' op_read (Date_now env w) (length recordIds) msg w1) \<and>
   (sql_select_ids c (length recordIds) w = (Inr existing, w1) \<longrightarrow>
    existing \<noteq> [] \<longrightarrow>
    promise_all (first_rejected env)
       (map (\<lambda>i. sql_select_by_id c (Some i)) (map row_id (slice existing 0 (min (length recordIds) 1000)))) w1 = (Inl msg, w2) \<longrightarrow>
    runCockroachReadTest env (Some c) recordIds w =
      failure_result env ''CockroachDB'' op_read (Date_now env w) (length recordIds) msg w2) \<and>
   (sql_select_ids c (length recordIds) w = (Inr existing, w1) \<longrightarrow>
    existing \<noteq> [] \<longrightarrow>
    promise_all (first_rejected env)
       (map (\<lambda>i. sql_select_by_id c (Some i)) (map row_id (slice existing 0 (min (length recordIds) 1000)))) w1 = (Inr [], w2) \<longrightarrow>
    runCockroachReadTest env (Some c) recordIds w =
      failure_result env ''CockroachDB'' op_read (Date_now env w) (length recordIds) (undefined_property ''rows'') w2) \<and>
   runCockroachUpdateTest env None recordIds w =
      failure_result env ''CockroachDB'' op_update (Date_now env w) (length recordIds) ''CockroachDB client not initialized'' w \<and>
   (sql_select_ids c (length recordIds) w = (Inl msg, w1) \<longrightarrow>
    runCockroachUpdateTest env (Some c) recordIds w =
      failure_result env ''CockroachDB'' op_update (Date_now env w) (length recordIds) msg w1) \<and>
   (sql_select_ids c (length recordIds) w = (Inr existing, w1) \<longrightarrow>
    existing \<noteq> [] \<longrightarrow>
    promise_all (first_rejected env)
       (map (\<lambda>i. sql_update c (''Updated User '' @ i) 99 i) (map row_id (slice existing 0 (min (length recordIds) 1000)))) w1 = (Inl msg, w2) \<longrightarrow>
    runCockroachUpdateTest env (Some c) recordIds w =
      failure_result env ''CockroachDB'' op_update (Date_now env w) (length recordIds) msg w2) \<and>
   (sql_select_ids c (length recordIds) w = (Inr existing, w1) \<longrightarrow>
    existing \<noteq> [] \<longrightarrow>
    promise_all (first_rejected env)
       (map (\<lambda>i. sql_update c (''Updated User '' @ i) 99 i) (map row_id (slice existing 0 (min (length recordIds) 1000)))) w1 = (Inr us, w2) \<longrightarrow>
    sql_select_by_id c (first_elem (map row_id (slice existing 0 (min (length recordIds) 1000)))) (sleep env 100 w2) = (Inl msg, w3) \<longrightarrow>
    runCockroachUpdateTest env (Some c) recordIds w =
      failure_result env ''CockroachDB'' op_update (Date_now env w) (length recordIds) msg w3)"
proof -
  have fr: "failure_result env label opn startTime n m wz =
     (\<lparr> database = label, operation = opn, timeTaken = Date_now env wz - startTime,
         recordCount = int n, dataIntegrity = False, error = Some m \<rparr>, wz)"
    by (simp add: failure_result_def)
  have p1: "promise_all pick ms wa = (Inl m, wb) \<longrightarrow>
      Inl m \<in> set (fst (run_all ms wa)) \<and> wb = snd (run_all ms wa)"
    using promise_all_rejects [of pick ms wa m wb] by blast
  have p2: "Inl m \<in> set (fst (run_all ms wa)) \<longrightarrow> (\<exists>m'. fst (promise_all pick ms wa) = Inl m')"
    using promise_all_one_rejected [of m ms wa pick] by blast
  have fc: "records \<noteq> [] \<longrightarrow>
    promise_all (first_rejected env) (map (sql_insert c) (slice records 0 100)) w = (Inl msg, w1) \<longrightarrow>
    insert_batches (first_rejected env) (sql_insert c) records 0 w = (Inl msg, w1)"
    using first_chunk_rejected [of records "first_rejected env" "sql_insert c" w msg w1] by blast
  have steps: "runCassandraWriteTest env None records w =
      failure_result env ''Cassandra'' op_write (Date_now env w) (length records) ''Cassandra client not initialized'' w \<and>
   (insert_batches (first_rejected env) (sql_insert c) records 0 w = (Inl msg, w1) \<longrightarrow>
    runCassandraWriteTest env (Some c) records w =
      failure_result env ''Cassandra'' op_write (Date_now env w) (length records) msg w1) \<and>
   (insert_batches (first_rejected env) (sql_insert c) [] 0 w = (Inr u, w1) \<longrightarrow>
    runCassandraWriteTest env (Some c) [] w =
      failure_result env ''Cassandra'' op_write (Date_now env w) (length ([] :: TestRecord list)) (undefined_property ''id'') w1) \<and>
   (insert_batches (first_rejected env) (sql_insert c) (r0 # rest) 0 w = (Inr u, w1) \<longrightarrow>
    sql_select_by_id c (Some (rec_id r0)) w1 = (Inl msg, w2) \<longrightarrow>
    runCassandraWriteTest env (Some c) (r0 # rest) w =
      failure_result env ''Cassandra'' op_write (Date_now env w) (length (r0 # rest)) msg w2) \<and>
   runCassandraReadTest env None recordIds w =
      failure_result env ''Cassandra'' op_read (Date_now env w) (length recordIds) ''Cassandra client not initialized'' w \<and>
   (sql_select_ids c (min (length recordIds) 1000) w = (Inl msg, w1) \<longrightarrow>
    runCassandraReadTest env (Some c) recordIds w =
      failure_result env ''Cassandra'' op_read (Date_now env w) (length recordIds) msg w1) \<and>
   (sql_select_ids c (min (length recordIds) 1000) w = (Inr existing, w1) \<longrightarrow>
    existing \<noteq> [] \<longrightarrow>
    promise_all (first_rejected env)
       (map (\<lambda>i. sql_select_by_id c (Some i)) (map row_id (slice existing 0 (min (length recordIds) 1000)))) w1 = (Inl msg, w2) \<longrightarrow>
    runCassandraReadTest env (Some c) recordIds w =
      failure_result env ''Cassandra'' op_read (Date_now env w) (length recordIds) msg w2) \<and>
   (sql_select_ids c (min (length recordIds) 1000) w = (Inr existing, w1) \<longrightarrow>
    existing \<noteq> [] \<longrightarrow>
    promise_all (first_rejected env)
       (map (\<lambda>i. sql_select_by_id c (Some i)) (map row_id (slice existing 0 (min (length recordIds) 1000)))) w1 = (Inr [], w2) \<longrightarrow>
    runCassandraReadTest env (Some c) recordIds w =
      failure_result env ''Cassandra'' op_read (Date_now env w) (length recordIds) (undefined_property ''rows'') w2) \<and>
   runCassandraUpdateTest env None recordIds w =
      failure_result env ''Cassandra'' op_update (Date_now env w) (length recordIds) ''Cassandra client not initialized'' w \<and>
   (sql_select_ids c (min (length recordIds) 1000) w = (Inl msg, w1) \<longrightarrow>
    runCassandraUpdateTest env (Some c) recordIds w =
      failure_result env ''Cassandra'' op_update (Date_now env w) (length recordIds) msg w1) \<and>
   (sql_select_ids c (min (length recordIds) 1000) w = (Inr existing, w1) \<longrightarrow>
    existing \<noteq> [] \<longrightarrow>
    promise_all (first_rejected env)
       (map (\<lambda>i. sql_update c (''Updated User '' @ i) 99 i) (map row_id (slice existing 0 (min (length recordIds) 1000)))) w1 = (Inl msg, w2) \<longrightarrow>
    runCassandraUpdateTest env (Some c) recordIds w =
      failure_result env ''Cassandra'' op_update (Date_now env w) (length recordIds) msg w2) \<and>
   (sql_select_ids c (min (length recordIds) 1000) w = (Inr existing, w1) \<longrightarrow>
    existing \<noteq> [] \<longrightarrow>
    promise_all (first_rejected env)
       (map (\<lambda>i. sql_update c (''Updated User '' @ i) 99 i) (map row_id (slice existing 0 (min (length recordIds) 1000)))) w1 = (Inr us, w2) \<longrightarrow>
    sql_select_by_id c (first_elem (map row_id (slice existing 0 (min (length recordIds) 1000)))) w2 = (Inl msg, w3) \<longrightarrow>
    runCassandraUpdateTest env (Some c) recordIds w =
      failure_result env ''Cassandra'' op_update (Date_now env w) (length recordIds) msg w3) \<and>
   runMongoWriteTest env None records w =
      failure_result env ''MongoDB'' op_write (Date_now env w) (length records) ''MongoDB client not initialized'' w \<and>
   (insertMany d records w = (Inl msg, w1) \<longrightarrow>
    runMongoWriteTest env (Some d) records w =
      failure_result env ''MongoDB'' op_write (Date_now env w) (length records) msg w1) \<and>
   (insertMany d [] w = (Inr u, w1) \<longrightarrow>
    runMongoWriteTest env (Some d) [] w =
      failure_result env ''MongoDB'' op_write (Date_now env w) (length ([] :: TestRecord list)) (undefined_property ''id'') w1) \<and>
   (insertMany d (r0 # rest) w = (Inr u, w1) \<longrightarrow>
    findOne d (Some (rec_id r0)) w1 = (Inl msg, w2) \<longrightarrow>
    runMongoWriteTest env (Some d) (r0 # rest) w =
      failure_result env ''MongoDB'' op_write (Date_now env w) (length (r0 # rest)) msg w2) \<and>
   runMongoReadTest env None recordIds w =
      failure_result env ''MongoDB'' op_read (Date_now env w) (length recordIds) ''MongoDB client not initialized'' w \<and>
   (find_limit d (length recordIds) w = (Inl msg, w1) \<longrightarrow>
    runMongoReadTest env (Some d) recordIds w =
      failure_result env ''MongoDB'' op_read (Date_now env w) (length recordIds) msg w1) \<and>
   (find_limit d (length recordIds) w = (Inr existing, w1) \<longrightarrow>
    existing \<noteq> [] \<longrightarrow>
    promise_all (first_rejected env)
       (map (\<lambda>i. findOne d (Some i)) (map row_id (slice existing 0 (min (length recordIds) 1000)))) w1 = (Inl msg, w2) \<longrightarrow>
    runMongoReadTest env (Some d) recordIds w =
      failure_result env ''MongoDB'' op_read (Date_now env w) (length recordIds) msg w2) \<and>
   runMongoUpdateTest env None recordIds w =
      failure_result env ''MongoDB'' op_update (Date_now env w) (length recordIds) ''MongoDB client not initialized'' w \<and>
   (find_limit d (length recordIds) w = (Inl msg, w1) \<longrightarrow>
    runMongoUpdateTest env (Some d) recordIds w =
      failure_result env ''MongoDB'' op_update (Date_now env w) (length recordIds) msg w1) \<and>
   (find_limit d (length recordIds) w = (Inr existing, w1) \<longrightarrow>
    existing \<noteq> [] \<longrightarrow>
    promise_all (first_rejected env)
       (map (\<lambda>i. updateOne d i (''Updated User '' @ i) 99) (map row_id (slice existing 0 (min (length recordIds) 1000)))) w1 = (Inl msg, w2) \<longrightarrow>
    runMongoUpdateTest env (Some d) recordIds w =
      failure_result env ''MongoDB'' op_update (Date_now env w) (length recordIds) msg w2) \<and>
   (find_limit d (length recordIds) w = (Inr existing, w1) \<longrightarrow>
    existing \<noteq> [] \<longrightarrow>
    promise_all (first_rejected env)
       (map (\<lambda>i. updateOne d i (''Updated User '' @ i) 99) (map row_id (slice existing 0 (min (length recordIds) 1000)))) w1 = (Inr us, w2) \<longrightarrow>
    findOne d (first_elem (map row_id (slice existing 0 (min (length recordIds) 1000)))) w2 = (Inl msg, w3) \<longrightarrow>
    runMongoUpdateTest env (Some d) recordIds w =
      failure_result env ''MongoDB'' op_update (Date_now env w) (length recordIds) msg w3) \<and>
   runCockroachWriteTest env None records w =
      failure_result env ''CockroachDB'' op_write (Date_now env w) (length records) ''CockroachDB client not initialized'' w \<and>
   (insert_batches (first_rejected env) (sql_insert c) records 0 w = (Inl msg, w1) \<longrightarrow>
    runCockroachWriteTest env (Some c) records w =
      failure_result env ''CockroachDB'' op_write (Date_now env w) (length records) msg w1) \<and>
   (insert_batches (first_rejected env) (sql_insert c) [] 0 w = (Inr u, w1) \<longrightarrow>
    runCockroachWriteTest env (Some c) [] w =
      failure_result env ''CockroachDB'' op_write (Date_now env w) (length ([] :: TestRecord list)) (undefined_property ''id'') w1) \<and>
   (insert_batches (first_rejected env) (sql_insert c) (r0 # rest) 0 w = (Inr u, w1) \<longrightarrow>
    sql_select_by_id c (Some (rec_id r0)) w1 = (Inl msg, w2) \<longrightarrow>
    runCockroachWriteTest env (Some c) (r0 # rest) w =
      failure_result env ''CockroachDB'' op_write (Date_now env w) (length (r0 # rest)) msg w2) \<and>
   runCockroachReadTest env None recordIds w =
      failure_result env ''CockroachDB'' op_read (Date_now env w) (length recordIds) ''CockroachDB client not initialized'' w \<and>
   (sql_select_ids c (length recordIds) w = (Inl msg, w1) \<longrightarrow>
    runCockroachReadTest env (Some c) recordIds w =
      failure_result env ''CockroachDB'' op_read (Date_now env w) (length recordIds) msg w1) \<and>
   (sql_select_ids c (length recordIds) w = (Inr existing, w1) \<longrightarrow>
    existing \<noteq> [] \<longrightarrow>
    promise_all (first_rejected env)
       (map (\<lambda>i. sql_select_by_id c (Some i)) (map row_id (slice existing 0 (min (length recordIds) 1000)))) w1 = (Inl msg, w2) \<longrightarrow>
    runCockroachReadTest env (Some c) recordIds w =
      failure_result env ''CockroachDB'' op_read (Date_now env w) (length recordIds) msg w2) \<and>
   (sql_select_ids c (length recordIds) w = (Inr existing, w1) \<longrightarrow>
    existing \<noteq> [] \<longrightarrow>
    promise_all (first_rejected env)
       (map (\<lambda>i. sql_select_by_id c (Some i)) (map row_id (slice existing 0 (min (length recordIds) 1000)))) w1 = (Inr [], w2) \<longrightarrow>
    runCockroachReadTest env (Some c) recordIds w =
      failure_result env ''CockroachDB'' op_read (Date_now env w) (length recordIds) (undefined_property ''rows'') w2) \<and>
   runCockroachUpdateTest env None recordIds w =
      failure_result env ''CockroachDB'' op_update (Date_now env w) (length recordIds) ''CockroachDB client not initialized'' w \<and>
   (sql_select_ids c (length recordIds) w = (Inl msg, w1) \<longrightarrow>
    runCockroachUpdateTest env (Some c) recordIds w =
      failure_result env ''CockroachDB'' op_update (Date_now env w) (length recordIds) msg w1) \<and>
   (sql_select_ids c (length recordIds) w = (Inr existing, w1) \<longrightarrow>
    existing \<noteq> [] \<longrightarrow>
    promise_all (first_rejected env)
       (map (\<lambda>i. sql_update c (''Updated User '' @ i) 99 i) (map row_id (slice existing 0 (min (length recordIds) 1000)))) w1 = (Inl msg, w2) \<longrightarrow>
    runCockroachUpdateTest env (Some c) recordIds w =
      failure_result env ''CockroachDB'' op_update (Date_now env w) (length recordIds) msg w2) \<and>
   (sql_select_ids c (length recordIds) w = (Inr existing, w1) \<longrightarrow>
    existing \<noteq> [] \<longrightarrow>
    promise_all (first_rejected env)
       (map (\<lambda>i. sql_update c (''Updated User '' @ i) 99 i) (map row_id (slice existing 0 (min (length recordIds) 1000)))) w1 = (Inr us, w2) \<longrightarrow>
    sql_select_by_id c (first_elem (map row_id (slice existing 0 (min (length recordIds) 1000)))) (sleep env 100 w2) = (Inl msg, w3) \<longrightarrow>
    runCockroachUpdateTest env (Some c) recordIds w =
      failure_result env ''CockroachDB'' op_update (Date_now env w) (length recordIds) msg w3)"
    by (simp add: try_blocks)
  show ?thesis
    apply (rule conjI [OF fr])
    apply (rule conjI [OF p1])
    apply (rule conjI [OF p2])
    apply (rule conjI [OF fc])
    apply (rule steps)
    done
qed

lemma sim_timeouts:
  "sql_select_ids failing_sql n (sim_world []) = (Inl ''timeout'', tick 5 (sim_world []))"
  "insert_batches (first_rejected sim_env) (sql_insert failing_sql) [sample_record] 0 (sim_world [])
     = (Inl ''timeout'', tick 5 (sim_world []))"
  by (simp add: failing_sql_def)
     (subst insert_batches.simps, simp add: failing_sql_def slice_def promise_all_def)

theorem failure_is_caught_witness:
  "sql_select_ids failing_sql (min (length [''a'', ''b'']) 1000) (sim_world [])
     = (Inl ''timeout'', tick 5 (sim_world [])) \<and>
   runCassandraReadTest sim_env (Some failing_sql) [''a'', ''b''] (sim_world []) =
     (\<lparr> database = ''Cassandra'', operation = op_read, timeTaken = 5, recordCount = 2,
        dataIntegrity = False, error = Some ''timeout'' \<rparr>, tick 5 (sim_world [])) \<and>
   insert_batches (first_rejected sim_env) (sql_insert failing_sql) [sample_record] 0 (sim_world [])
     = (Inl ''timeout'', tick 5 (sim_world [])) \<and>
   runCockroachWriteTest sim_env (Some failing_sql) [sample_record] (sim_world []) =
     (\<lparr> database = ''CockroachDB'', operation = op_write, timeTaken = 5, recordCount = 1,
        dataIntegrity = False, error = Some ''timeout'' \<rparr>, tick 5 (sim_world [])) \<and>
   sql_select_ids failing_sql (length [''a'', ''b'']) (sim_world [])
     = (Inl ''timeout'', tick 5 (sim_world [])) \<and>
   runCockroachUpdateTest sim_env (Some failing_sql) [''a'', ''b''] (sim_world []) =
     (\<lparr> database = ''CockroachDB'', operation = op_update, timeTaken = 5, recordCount = 2,
        dataIntegrity = False, error = Some ''timeout'' \<rparr>, tick 5 (sim_world []))"
proof -
  have h1: "sql_select_ids failing_sql (min (length [''a'', ''b'']) 1000) (sim_world [])
              = (Inl ''timeout'', tick 5 (sim_world []))"
    by (rule sim_timeouts)
  have h2: "insert_batches (first_rejected sim_env) (sql_insert failing_sql) [sample_record] 0
              (sim_world []) = (Inl ''timeout'', tick 5 (sim_world []))"
    by (rule sim_timeouts)
  have h3: "sql_select_ids failing_sql (length [''a'', ''b'']) (sim_world [])
              = (Inl ''timeout'', tick 5 (sim_world []))"
    by (rule sim_timeouts)
  note e = failure_is_caught [where env = sim_env and c = failing_sql and records = "[sample_record]"
      and recordIds = "[''a'', ''b'']" and w = "sim_world []" and msg = "''timeout''"
      and ?w1.0 = "tick 5 (sim_world [])"]
  note e1 = e [
      THEN conjunct2, THEN conjunct2, THEN conjunct2, THEN conjunct2, THEN conjunct2,
      THEN conjunct2, THEN conjunct2, THEN conjunct2, THEN conjunct2, THEN conjunct1]
  from e1 h1 have r1:
    "runCassandraReadTest sim_env (Some failing_sql) [''a'', ''b''] (sim_world []) =
       failure_result sim_env ''Cassandra'' op_read (Date_now sim_env (sim_world []))
         (length [''a'', ''b'']) ''timeout'' (tick 5 (sim_world []))"
    by (rule mp)
  note e2 = e [
      THEN conjunct2, THEN conjunct2, THEN conjunct2, THEN conjunct2, THEN conjunct2,
      THEN conjunct2, THEN conjunct2, THEN conjunct2, THEN conjunct2, THEN conjunct2,
      THEN conjunct2, THEN conjunct2, THEN conjunct2, THEN conjunct2, THEN conjunct2,
      THEN conjunct2, THEN conjunct2, THEN conjunct2, THEN conjunct2, THEN conjunct2,
      THEN conjunct2, THEN conjunct2, THEN conjunct2, THEN conjunct2, THEN conjunct2,
      THEN conjunct2, THEN conjunct2, THEN conjunct2, THEN conjunct1]
  from e2 h2 have r2:
    "runCockroachWriteTest sim_env (Some failing_sql) [sample_record] (sim_world []) =
       failure_result sim_env ''CockroachDB'' op_write (Date_now sim_env (sim_world []))
         (length [sample_record]) ''timeout'' (tick 5 (sim_world []))"
    by (rule mp)
  note e3 = e [
      THEN conjunct2, THEN conjunct2, THEN conjunct2, THEN conjunct2, THEN conjunct2,
      THEN conjunct2, THEN conjunct2, THEN conjunct2, THEN conjunct2, THEN conjunct2,
      THEN conjunct2, THEN conjunct2, THEN conjunct2, THEN conjunct2, THEN conjunct2,
      THEN conjunct2, THEN conjunct2, THEN conjunct2, THEN conjunct2, THEN conjunct2,
      THEN conjunct2, THEN conjunct2, THEN conjunct2, THEN conjunct2, THEN conjunct2,
      THEN conjunct2, THEN conjunct2, THEN conjunct2, THEN conjunct2, THEN conjunct2,
      THEN conjunct2, THEN conjunct2, THEN conjunct2, THEN conjunct2, THEN conjunct2,
      THEN conjunct2, THEN conjunct1]
  from e3 h3 have r3:
    "runCockroachUpdateTest sim_env (Some failing_sql) [''a'', ''b''] (sim_world []) =
       failure_result sim_env ''CockroachDB'' op_update (Date_now sim_env (sim_world []))
         (length [''a'', ''b'']) ''timeout'' (tick 5 (sim_world []))"
    by (rule mp)
  have f: "\<And>l opn n. failure_result sim_env l opn (Date_now sim_env (sim_world [])) n ''timeout''
             (tick 5 (sim_world [])) =
           (\<lparr> database = l, operation = opn, timeTaken = 5, recordCount = int n,
              dataIntegrity = False, error = Some ''timeout'' \<rparr>, tick 5 (sim_world []))"
    by (simp add: failure_result_def sim_env_def tick_def sim_world_def)
  from h1 h2 h3 r1 r2 r3 show ?thesis
    by (simp only: f) simp
qed

text \<open>
  C2 as stated fails: a failure before identifier discovery (no client, or a
  rejected discovery query) is reported with the number of candidate identifiers, not 0.
\<close>

theorem failure_before_discovery_counterexample:
  "error (fst (runCassandraReadTest sim_env None [''a'', ''b''] (sim_world [])))
     = Some ''Cassandra client not initialized'' \<and>
   recordCount (fst (runCassandraReadTest sim_env None [''a'', ''b''] (sim_world []))) = 2 \<and>
   error (fst (runCockroachUpdateTest sim_env (Some failing_sql) [''a'', ''b''] (sim_world [])))
     = Some ''timeout'' \<and>
   recordCount (fst (runCockroachUpdateTest sim_env (Some failing_sql) [''a'', ''b''] (sim_world []))) = 2"
  by (simp add: runCassandraReadTest_def runCassandraReadTest_try_def
        runCockroachUpdateTest_def runCockroachUpdateTest_try_def
        io_bind_def io_throw_def try_catch_def failure_result_def failing_sql_def)

section \<open>Verification after an update\<close>

lemma cassandra_update_verified:
  "dataIntegrity (fst (runCassandraUpdateTest env (Some c) recordIds w)) \<Longrightarrow>
   (\<exists>existing w0 us w1 w2 r rs.
         sql_select_ids c (min (length recordIds) 1000) w = (Inr existing, w0) \<and>
         promise_all (first_rejected env)
           (map (\<lambda>i. sql_update c (''Updated User '' @ i) 99 i)
              (map row_id (slice existing 0 (min (length recordIds) 1000)))) w0
           = (Inr us, w1) \<and>
         sql_select_by_id c
           (first_elem (map row_id (slice existing 0 (min (length recordIds) 1000)))) w1
           = (Inr (r # rs), w2) \<and>
         snd (runCassandraUpdateTest env (Some c) recordIds w) = w2 \<and>
         age_to_number (row_age r) = Some 99)"
  apply (auto simp: runCassandraUpdateTest_def runCassandraUpdateTest_try_def adapter_steps Let_def
          neq_Nil_conv
          split: prod.splits sum.splits if_splits)
  apply (simp add: age_to_number_def)
  done

lemma mongo_update_verified:
  "dataIntegrity (fst (runMongoUpdateTest env (Some d) recordIds w)) \<Longrightarrow>
   (\<exists>existing w0 us w1 w2 r.
         find_limit d (length recordIds) w = (Inr existing, w0) \<and>
         promise_all (first_rejected env)
           (map (\<lambda>i. updateOne d i (''Updated User '' @ i) 99)
              (map row_id (slice existing 0 (min (length recordIds) 1000)))) w0
           = (Inr us, w1) \<and>
         findOne d (first_elem (map row_id (slice existing 0 (min (length recordIds) 1000)))) w1
           = (Inr (Some r), w2) \<and>
         snd (runMongoUpdateTest env (Some d) recordIds w) = w2 \<and>
         age_to_number (row_age r) = Some 99)"
  apply (auto simp: runMongoUpdateTest_def runMongoUpdateTest_try_def adapter_steps Let_def
          split: prod.splits sum.splits if_splits option.splits)
  apply (simp add: age_to_number_def)
  done

lemma cockroach_update_verified:
  "dataIntegrity (fst (runCockroachUpdateTest env (Some c) recordIds w)) \<Longrightarrow>
   (\<exists>existing w0 us w1 w2 r rs n.
         sql_select_ids c (length recordIds) w = (Inr existing, w0) \<and>
         promise_all (first_rejected env)
           (map (\<lambda>i. sql_update c (''Updated User '' @ i) 99 i)
              (map row_id (slice existing 0 (min (length recordIds) 1000)))) w0
           = (Inr us, w1) \<and>
         sql_select_by_id c
           (first_elem (map row_id (slice existing 0 (min (length recordIds) 1000))))
           (sleep env 100 w1)
           = (Inr (r # rs), w2) \<and>
         snd (runCockroachUpdateTest env (Some c) recordIds w) = w2 \<and>
         age_to_number (row_age r) = Some 99 \<and>
         row_name r = Some n \<and> str_includes n ''Updated User'')"
  by (auto simp: runCockroachUpdateTest_def runCockroachUpdateTest_try_def adapter_steps Let_def
        truthy_def
        split: prod.splits sum.splits if_splits list.splits option.splits)

text \<open>
  C4, as amended. For every backend's update operation, \<open>dataIntegrity\<close> is true only
  if the discovery query answered, every update of the fan-out over the discovered
  identifiers completed (one update per identifier, setting the name
  \<open>Updated User <id>\<close> and the age 99), and the verification query, issued in the world
  the completed fan-out left (on the CockroachDB adapter, after the pause of 100 ms that
  follows it), for the first of the updated identifiers, returned a record whose age is 99
  after coercion to a number (\<open>age_to_number\<close>); on the CockroachDB adapter, only if in
  addition the name of that record contains \<open>Updated User\<close>. The adapter returns in the
  world the verification query left. (In \<open>parseInt\<close> the white space skipped is the ASCII
  one and the integers are exact; the Cassandra and MongoDB adapters compare the age with
  the number 99 without coercion, a value for which \<open>age_to_number\<close> is 99 as well.)
\<close>

theorem update_verification:
  "(dataIntegrity (fst (runCassandraUpdateTest env (Some c) recordIds w)) \<longrightarrow>
      (\<exists>existing w0 us w1 w2 r rs.
         sql_select_ids c (min (length recordIds) 1000) w = (Inr existing, w0) \<and>
         promise_all (first_rejected env)
           (map (\<lambda>i. sql_update c (''Updated User '' @ i) 99 i)
              (map row_id (slice existing 0 (min (length recordIds) 1000)))) w0
           = (Inr us, w1) \<and>
         sql_select_by_id c
           (first_elem (map row_id (slice existing 0 (min (length recordIds) 1000)))) w1
           = (Inr (r # rs), w2) \<and>
         snd (runCassandraUpdateTest env (Some c) recordIds w) = w2 \<and>
         age_to_number (row_age r) = Some 99)) \<and>
   (dataIntegrity (fst (runMongoUpdateTest env (Some d) recordIds w)) \<longrightarrow>
      (\<exists>existing w0 us w1 w2 r.
         find_limit d (length recordIds) w = (Inr existing, w0) \<and>
         promise_all (first_rejected env)
           (map (\<lambda>i. updateOne d i (''Updated User '' @ i) 99)
              (map row_id (slice existing 0 (min (length recordIds) 1000)))) w0
           = (Inr us, w1) \<and>
         findOne d (first_elem (map row_id (slice existing 0 (min (length recordIds) 1000)))) w1
           = (Inr (Some r), w2) \<and>
         snd (runMongoUpdateTest env (Some d) recordIds w) = w2 \<and>
         age_to_number (row_age r) = Some 99)) \<and>
   (dataIntegrity (fst (runCockroachUpdateTest env (Some c) recordIds w)) \<longrightarrow>
      (\<exists>existing w0 us w1 w2 r rs n.
         sql_select_ids c (length recordIds) w = (Inr existing, w0) \<and>
         promise_all (first_rejected env)
           (map (\<lambda>i. sql_update c (''Updated User '' @ i) 99 i)
              (map row_id (slice existing 0 (min (length recordIds) 1000)))) w0
           = (Inr us, w1) \<and>
         sql_select_by_id c
           (first_elem (map row_id (slice existing 0 (min (length recordIds) 1000))))
           (sleep env 100 w1)
           = (Inr (r # rs), w2) \<and>
         snd (runCockroachUpdateTest env (Some c) recordIds w) = w2 \<and>
         age_to_number (row_age r) = Some 99 \<and>
         row_name r = Some n \<and> str_includes n ''Updated User''))"
  by (intro conjI impI cassandra_update_verified mongo_update_verified cockroach_update_verified)

lemmas sim_steps =
  sim_env_def sim_world_def store_sql_def store_mongo_def tick_def sample_row_def slice_def
  first_elem_def

lemma sim_update_cassandra:
  "runCassandraUpdateTest sim_env (Some (store_sql b)) [''a''] (sim_world [sample_row]) =
     (\<lparr> database = ''Cassandra'', operation = op_update, timeTaken = 3, recordCount = 1,
        dataIntegrity = True, error = None \<rparr>,
      \<lparr> clock = 3, seed = 0,
        tbl = [\<lparr> row_id = ''a'',
                 row_name = (if b then Some ''Updated User a'' else Some ''User 1''),
                 row_age = JNum 99 \<rparr>],
        calls = [] \<rparr>)"
  by (simp add: runCassandraUpdateTest_def runCassandraUpdateTest_try_def adapter_steps sim_steps
        promise_all_def)

lemma sim_update_mongo:
  "runMongoUpdateTest sim_env (Some (store_mongo b)) [''a''] (sim_world [sample_row]) =
     (\<lparr> database = ''MongoDB'', operation = op_update, timeTaken = 3, recordCount = 1,
        dataIntegrity = True, error = None \<rparr>,
      \<lparr> clock = 3, seed = 0,
        tbl = [\<lparr> row_id = ''a'',
                 row_name = (if b then Some ''Updated User a'' else Some ''User 1''),
                 row_age = JNum 99 \<rparr>],
        calls = [] \<rparr>)"
  by (simp add: runMongoUpdateTest_def runMongoUpdateTest_try_def adapter_steps sim_steps
        promise_all_def)

lemma sim_update_cockroach:
  "runCockroachUpdateTest sim_env (Some (store_sql b)) [''a''] (sim_world [sample_row]) =
     (\<lparr> database = ''CockroachDB'', operation = op_update, timeTaken = 103, recordCount = 1,
        dataIntegrity = b, error = None \<rparr>,
      \<lparr> clock = 103, seed = 0,
        tbl = [\<lparr> row_id = ''a'',
                 row_name = (if b then Some ''Updated User a'' else Some ''User 1''),
                 row_age = JNum 99 \<rparr>],
        calls = [] \<rparr>)"
  by (cases b)
     (simp_all add: runCockroachUpdateTest_def runCockroachUpdateTest_try_def adapter_steps
        sim_steps truthy_def age_to_number_def promise_all_def)

theorem update_verification_witness:
  "dataIntegrity (fst (runCassandraUpdateTest sim_env (Some (store_sql True)) [''a''] (sim_world [sample_row]))) \<and>
   dataIntegrity (fst (runMongoUpdateTest sim_env (Some (store_mongo True)) [''a''] (sim_world [sample_row]))) \<and>
   dataIntegrity (fst (runCockroachUpdateTest sim_env (Some (store_sql True)) [''a''] (sim_world [sample_row]))) \<and>
   (\<exists>existing w0 us w1 w2 r rs n.
      sql_select_ids (store_sql True) (length [''a'']) (sim_world [sample_row]) = (Inr existing, w0) \<and>
      promise_all (first_rejected sim_env)
        (map (\<lambda>i. sql_update (store_sql True) (''Updated User '' @ i) 99 i)
           (map row_id (slice existing 0 (min (length [''a'']) 1000)))) w0
        = (Inr us, w1) \<and>
      sql_select_by_id (store_sql True)
        (first_elem (map row_id (slice existing 0 (min (length [''a'']) 1000))))
        (sleep sim_env 100 w1)
        = (Inr (r # rs), w2) \<and>
      snd (runCockroachUpdateTest sim_env (Some (store_sql True)) [''a''] (sim_world [sample_row])) = w2 \<and>
      age_to_number (row_age r) = Some 99 \<and>
      row_name r = Some n \<and> str_includes n ''Updated User'')"
proof -
  have h1: "dataIntegrity (fst (runCassandraUpdateTest sim_env (Some (store_sql True)) [''a''] (sim_world [sample_row])))"
    by (simp add: sim_update_cassandra)
  have h2: "dataIntegrity (fst (runMongoUpdateTest sim_env (Some (store_mongo True)) [''a''] (sim_world [sample_row])))"
    by (simp add: sim_update_mongo)
  have h3: "dataIntegrity (fst (runCockroachUpdateTest sim_env (Some (store_sql True)) [''a''] (sim_world [sample_row])))"
    by (simp add: sim_update_cockroach)
  note t = update_verification [where env = sim_env and c = "store_sql True" and d = "store_mongo True"
      and recordIds = "[''a'']" and w = "sim_world [sample_row]"]
  from t have "dataIntegrity (fst (runCockroachUpdateTest sim_env (Some (store_sql True)) [''a''] (sim_world [sample_row]))) \<longrightarrow>
   (\<exists>existing w0 us w1 w2 r rs n.
      sql_select_ids (store_sql True) (length [''a'']) (sim_world [sample_row]) = (Inr existing, w0) \<and>
      promise_all (first_rejected sim_env)
        (map (\<lambda>i. sql_update (store_sql True) (''Updated User '' @ i) 99 i)
           (map row_id (slice existing 0 (min (length [''a'']) 1000)))) w0
        = (Inr us, w1) \<and>
      sql_select_by_id (store_sql True)
        (first_elem (map row_id (slice existing 0 (min (length [''a'']) 1000))))
        (sleep sim_env 100 w1)
        = (Inr (r # rs), w2) \<and>
      snd (runCockroachUpdateTest sim_env (Some (store_sql True)) [''a''] (sim_world [sample_row])) = w2 \<and>
      age_to_number (row_age r) = Some 99 \<and>
      row_name r = Some n \<and> str_includes n ''Updated User'')"
    by (rule conjunct2 [THEN conjunct2])
  from this [THEN mp, OF h3] h1 h2 h3 show ?thesis by (intro conjI)
qed

text \<open>
  C4 as stated fails on the Cassandra and on the MongoDB adapter, which compare
  only the age: on a server that applies the new age and drops the new name, both report
  \<open>dataIntegrity = true\<close> for a re-read record named \<open>User 1\<close>. The CockroachDB adapter
  reports false on the same server.
\<close>

theorem update_name_unchecked_counterexample:
  "dataIntegrity (fst (runCassandraUpdateTest sim_env (Some (store_sql False)) [''a''] (sim_world [sample_row]))) \<and>
   dataIntegrity (fst (runMongoUpdateTest sim_env (Some (store_mongo False)) [''a''] (sim_world [sample_row]))) \<and>
   tbl (snd (runCassandraUpdateTest sim_env (Some (store_sql False)) [''a''] (sim_world [sample_row])))
     = [\<lparr> row_id = ''a'', row_name = Some ''User 1'', row_age = JNum 99 \<rparr>] \<and>
   \<not> str_includes ''User 1'' ''Updated User'' \<and>
   \<not> dataIntegrity (fst (runCockroachUpdateTest sim_env (Some (store_sql False)) [''a''] (sim_world [sample_row])))"
  by (simp add: sim_update_cassandra sim_update_mongo sim_update_cockroach)

section \<open>Chunked inserts\<close>

















section \<open>Progress values of the streamed run\<close>

lemma Math_round_mono: "x \<le> y \<Longrightarrow> Math_round x \<le> Math_round y"
  by (simp add: Math_round_def floor_mono)

lemma Math_round_cell_mono:
  "c \<le> d \<Longrightarrow> Math_round (real c / real n * 100) \<le> Math_round (real d / real n * 100)"
  by (intro Math_round_mono mult_right_mono divide_right_mono) simp_all

lemma Math_round_ninths: "Math_round (real k / 9 * 100) = (200 * int k + 9) div 18"
proof -
  have "real k / 9 * 100 + 1 / 2 = real_of_int (200 * int k + 9) / real_of_int 18"
    by simp
  then show ?thesis
    unfolding Math_round_def by (simp only: floor_divide_of_int_eq)
qed

lemma statuses_append: "statuses (xs @ ys) = statuses xs @ statuses ys"
  by (induction xs rule: statuses.induct) simp_all

lemma statuses_status_event:
  "statuses (status_event db opn k p n # es) =
     \<lparr> currentDatabase = dbLabels db, currentOperation = opn, status = k, progress = p,
       status_recordCount = n \<rparr> # statuses es"
  by (simp add: status_event_def)

lemma progress_by_started_append:
  "progress_by_started n c (xs @ ys) =
     (progress_by_started n c xs \<and>
      progress_by_started n (c + length (filter (\<lambda>s. status s = starting) xs)) ys)"
  by (induction xs arbitrary: c) (auto simp: Let_def)

lemma started_bounds:
  "progress_by_started n c ss \<Longrightarrow> s \<in> set ss \<Longrightarrow>
   Math_round (real c / real n * 100) \<le> progress s \<and>
   progress s \<le> Math_round (real (c + length (filter (\<lambda>s. status s = starting) ss)) / real n * 100)"
proof (induction ss arbitrary: c)
  case Nil
  then show ?case by simp
next
  case (Cons x ss)
  let ?c1 = "if status x = starting then c + 1 else c"
  from Cons.prems(1) have px: "progress x = Math_round (real ?c1 / real n * 100)"
    and rest: "progress_by_started n ?c1 ss"
    by (simp_all add: Let_def)
  have cnt: "?c1 + length (filter (\<lambda>s. status s = starting) ss)
               = c + length (filter (\<lambda>s. status s = starting) (x # ss))"
    by simp
  show ?case
  proof (cases "s = x")
    case True
    have "Math_round (real c / real n * 100) \<le> Math_round (real ?c1 / real n * 100)"
      by (rule Math_round_cell_mono) simp
    moreover have "Math_round (real ?c1 / real n * 100)
        \<le> Math_round (real (c + length (filter (\<lambda>s. status s = starting) (x # ss))) / real n * 100)"
      by (rule Math_round_cell_mono) simp
    ultimately show ?thesis using True px by simp
  next
    case False
    with Cons.prems(2) have "s \<in> set ss" by simp
    from Cons.IH [OF rest this]
    have b: "Math_round (real ?c1 / real n * 100) \<le> progress s"
        "progress s \<le> Math_round (real (?c1 + length (filter (\<lambda>s. status s = starting) ss)) / real n * 100)"
      by simp_all
    have "Math_round (real c / real n * 100) \<le> Math_round (real ?c1 / real n * 100)"
      by (rule Math_round_cell_mono) simp
    with b(1) have lo: "Math_round (real c / real n * 100) \<le> progress s" by linarith
    from b(2) cnt have hi: "progress s
        \<le> Math_round (real (c + length (filter (\<lambda>s. status s = starting) (x # ss))) / real n * 100)"
      by (simp only:)
    from lo hi show ?thesis by simp
  qed
qed

lemma started_sorted: "progress_by_started n c ss \<Longrightarrow> sorted (map progress ss)"
proof (induction ss arbitrary: c)
  case Nil
  then show ?case by simp
next
  case (Cons x ss)
  let ?c1 = "if status x = starting then c + 1 else c"
  from Cons.prems have px: "progress x = Math_round (real ?c1 / real n * 100)"
    and rest: "progress_by_started n ?c1 ss"
    by (simp_all add: Let_def)
  have "\<forall>s\<in>set ss. progress x \<le> progress s"
    using started_bounds [OF rest] px by simp
  with Cons.IH [OF rest] show ?case by simp
qed

lemma cell_events_started:
  assumes "progress_by_started n 0 (statuses out)"
    and "length (filter (\<lambda>s. status s = starting) (statuses out)) = c"
    and "p = Math_round (real (c + 1) / real n * 100)"
    and "\<forall>e\<in>set es. \<exists>k m. e = status_event db opn k p m \<and> k \<noteq> starting"
  shows "progress_by_started n 0 (statuses (out @ status_event db opn starting p None # es)) \<and>
         length (filter (\<lambda>s. status s = starting)
                   (statuses (out @ status_event db opn starting p None # es))) = c + 1"
proof -
  have tail: "progress_by_started n (c + 1) (statuses es) \<and>
              filter (\<lambda>s. status s = starting) (statuses es) = []"
    using assms(4)
  proof (induction es)
    case Nil
    show ?case by simp
  next
    case (Cons e es)
    then obtain k m where e: "e = status_event db opn k p m" "k \<noteq> starting" by auto
    from Cons have "progress_by_started n (c + 1) (statuses es) \<and>
                    filter (\<lambda>s. status s = starting) (statuses es) = []"
      by simp
    with e assms(3) show ?case
      by (simp add: statuses_status_event Let_def del: of_nat_add of_nat_Suc)
  qed
  show ?thesis
    using assms(1,2,3) tail
    by (simp add: statuses_append statuses_status_event progress_by_started_append Let_def
          del: of_nat_add of_nat_Suc)
qed

lemma stream_operations_loop_inv:
  assumes "progress_by_started n 0 (statuses out)"
    and "length (filter (\<lambda>s. status s = starting) (statuses out)) = c"
  shows "case stream_operations_loop run pause n db ops c rs out st of
           ((c1, rs1, out1), st1) \<Rightarrow>
             c1 = c + length ops \<and> progress_by_started n 0 (statuses out1) \<and>
             length (filter (\<lambda>s. status s = starting) (statuses out1)) = c1 \<and>
             (\<exists>ys. out1 = out @ ys)"
  using assms
proof (induction ops arbitrary: c rs out st)
  case Nil
  then show ?case by simp
next
  case (Cons opn ops)
  define p where "p = Math_round (real (c + 1) / real n * 100)"
  define running_event where
    "running_event = status_event db opn running p (Some (if opn = op_write then 10000 else 1000))"
  obtain x st1 where r: "run db opn st = (x, st1)" by (cases "run db opn st")
  show ?case
  proof (cases x)
    case (Inl msg)
    let ?out2 = "out @ status_event db opn starting p None
                   # [running_event, status_event db opn failed p None]"
    have step: "stream_operations_loop run pause n db (opn # ops) c rs out st
                  = stream_operations_loop run pause n db ops (c + 1)
                      (rs @ [errorResult db opn msg]) ?out2 st1"
      using r Inl by (simp add: Let_def p_def running_event_def)
    have "\<forall>e\<in>set [running_event, status_event db opn failed p None].
            \<exists>k m. e = status_event db opn k p m \<and> k \<noteq> starting"
      by (auto simp: running_event_def)
    from cell_events_started [OF Cons.prems p_def this]
    have a: "progress_by_started n 0 (statuses ?out2)"
      and b: "length (filter (\<lambda>s. status s = starting) (statuses ?out2)) = c + 1"
      by simp_all
    from Cons.IH [OF a b, of "rs @ [errorResult db opn msg]" st1]
    show ?thesis unfolding step by (auto split: prod.splits)
  next
    case (Inr res)
    let ?out2 = "out @ status_event db opn starting p None
                   # [running_event, status_event db opn verifying p None,
                      status_event db opn completed p None]"
    have step: "stream_operations_loop run pause n db (opn # ops) c rs out st
                  = stream_operations_loop run pause n db ops (c + 1) (rs @ [res]) ?out2
                      (pause 300 st1)"
      using r Inr by (simp add: Let_def p_def running_event_def)
    have "\<forall>e\<in>set [running_event, status_event db opn verifying p None,
                   status_event db opn completed p None].
            \<exists>k m. e = status_event db opn k p m \<and> k \<noteq> starting"
      by (auto simp: running_event_def)
    from cell_events_started [OF Cons.prems p_def this]
    have a: "progress_by_started n 0 (statuses ?out2)"
      and b: "length (filter (\<lambda>s. status s = starting) (statuses ?out2)) = c + 1"
      by simp_all
    from Cons.IH [OF a b, of "rs @ [res]" "pause 300 st1"]
    show ?thesis unfolding step by (auto split: prod.splits)
  qed
qed

lemma stream_databases_loop_inv:
  assumes "progress_by_started n 0 (statuses out)"
    and "length (filter (\<lambda>s. status s = starting) (statuses out)) = c"
  shows "case stream_databases_loop run pause n dbs ops c rs out st of
           ((c1, rs1, out1), st1) \<Rightarrow>
             c1 = c + length dbs * length ops \<and> progress_by_started n 0 (statuses out1) \<and>
             length (filter (\<lambda>s. status s = starting) (statuses out1)) = c1 \<and>
             (\<exists>ys. out1 = out @ ys)"
  using assms
proof (induction dbs arbitrary: c rs out st)
  case Nil
  then show ?case by simp
next
  case (Cons db dbs)
  obtain c1 rs1 out1 st1 where
    l: "stream_operations_loop run pause n db ops c rs out st = ((c1, rs1, out1), st1)"
    by (cases "stream_operations_loop run pause n db ops c rs out st") auto
  have "case stream_operations_loop run pause n db ops c rs out st of
           ((c1, rs1, out1), st1) \<Rightarrow>
             c1 = c + length ops \<and> progress_by_started n 0 (statuses out1) \<and>
             length (filter (\<lambda>s. status s = starting) (statuses out1)) = c1 \<and>
             (\<exists>ys. out1 = out @ ys)"
    by (rule stream_operations_loop_inv [OF Cons.prems])
  with l have i: "c1 = c + length ops" "progress_by_started n 0 (statuses out1)"
      "length (filter (\<lambda>s. status s = starting) (statuses out1)) = c1" "\<exists>ys. out1 = out @ ys"
    by simp_all
  from Cons.IH [OF i(2) i(3), of rs1 st1] i(1) i(4) l
  show ?case by (auto simp: algebra_simps split: prod.splits)
qed


lemma stream_operations_loop_prefix:
  "\<exists>ys. snd (snd (fst (stream_operations_loop run pause n db ops c rs out st))) = out @ ys"
proof (induction ops arbitrary: c rs out st)
  case Nil
  show ?case by simp
next
  case (Cons opn ops)
  define p where "p = Math_round (real (c + 1) / real n * 100)"
  define out1 where
    "out1 = [status_event db opn starting p None,
             status_event db opn running p (Some (if opn = op_write then 10000 else 1000))]"
  obtain x st1 where r: "run db opn st = (x, st1)" by (cases "run db opn st")
  show ?case
  proof (cases x)
    case (Inl msg)
    have step: "stream_operations_loop run pause n db (opn # ops) c rs out st
                  = stream_operations_loop run pause n db ops (c + 1)
                      (rs @ [errorResult db opn msg])
                      (out @ (out1 @ [status_event db opn failed p None])) st1"
      using r Inl by (simp add: Let_def p_def out1_def)
    from Cons.IH [of "c + 1" "rs @ [errorResult db opn msg]"
        "out @ (out1 @ [status_event db opn failed p None])" st1]
    show ?thesis unfolding step by (metis append_assoc)
  next
    case (Inr res)
    have step: "stream_operations_loop run pause n db (opn # ops) c rs out st
                  = stream_operations_loop run pause n db ops (c + 1) (rs @ [res])
                      (out @ (out1 @ [status_event db opn verifying p None,
                                      status_event db opn completed p None]))
                      (pause 300 st1)"
      using r Inr by (simp add: Let_def p_def out1_def)
    from Cons.IH [of "c + 1" "rs @ [res]"
        "out @ (out1 @ [status_event db opn verifying p None,
                        status_event db opn completed p None])" "pause 300 st1"]
    show ?thesis unfolding step by (metis append_assoc)
  qed
qed

lemma stream_databases_loop_prefix:
  "\<exists>ys. snd (snd (fst (stream_databases_loop run pause n dbs ops c rs out st))) = out @ ys"
proof (induction dbs arbitrary: c rs out st)
  case Nil
  show ?case by simp
next
  case (Cons db dbs)
  obtain c1 rs1 out1 st1 where
    l: "stream_operations_loop run pause n db ops c rs out st = ((c1, rs1, out1), st1)"
    by (cases "stream_operations_loop run pause n db ops c rs out st") auto
  from stream_operations_loop_prefix [of run pause n db ops c rs out st] l
  obtain ys1 where a: "out1 = out @ ys1" by auto
  from Cons.IH [of c1 rs1 out1 st1]
  obtain ys2 where "snd (snd (fst (stream_databases_loop run pause n dbs ops c1 rs1 out1 st1)))
                      = out1 @ ys2"
    by blast
  with l a show ?case by simp
qed

lemma stream_operations_loop_first:
  "\<exists>ys. snd (snd (fst (stream_operations_loop run pause n db (opn # ops) c rs out st)))
          = out @ status_event db opn starting (Math_round (real (c + 1) / real n * 100)) None # ys"
proof -
  define p where "p = Math_round (real (c + 1) / real n * 100)"
  define e where "e = status_event db opn starting p None"
  define e2 where
    "e2 = status_event db opn running p (Some (if opn = op_write then 10000 else 1000))"
  obtain x st1 where r: "run db opn st = (x, st1)" by (cases "run db opn st")
  show ?thesis
  proof (cases x)
    case (Inl msg)
    have step: "stream_operations_loop run pause n db (opn # ops) c rs out st
                  = stream_operations_loop run pause n db ops (c + 1)
                      (rs @ [errorResult db opn msg])
                      (out @ e # [e2, status_event db opn failed p None]) st1"
      using r Inl by (simp add: Let_def p_def e_def e2_def)
    from stream_operations_loop_prefix [of run pause n db ops "c + 1"
        "rs @ [errorResult db opn msg]" "out @ e # [e2, status_event db opn failed p None]" st1]
    show ?thesis unfolding step p_def [symmetric] e_def [symmetric] by auto
  next
    case (Inr res)
    have step: "stream_operations_loop run pause n db (opn # ops) c rs out st
                  = stream_operations_loop run pause n db ops (c + 1) (rs @ [res])
                      (out @ e # [e2, status_event db opn verifying p None,
                                  status_event db opn completed p None])
                      (pause 300 st1)"
      using r Inr by (simp add: Let_def p_def e_def e2_def)
    from stream_operations_loop_prefix [of run pause n db ops "c + 1" "rs @ [res]"
        "out @ e # [e2, status_event db opn verifying p None,
                    status_event db opn completed p None]" "pause 300 st1"]
    show ?thesis unfolding step p_def [symmetric] e_def [symmetric] by auto
  qed
qed

lemma stream_first_event:
  "\<exists>es. fst (handler_stream_with run pause ''POST'' st)
          = Stream (status_event cassandra op_write starting 11 None # es)"
proof -
  have n: "length databases * length operations = 9"
    by (simp add: databases_def operations_def)
  have p: "Math_round (real (0 + 1) / real (9::nat) * 100) = 11"
    using Math_round_ninths [of 1] by simp
  have ops: "operations = op_write # [op_read, op_update]"
    by (simp add: operations_def)
  have dbs: "databases = cassandra # [mongo, cockroach]"
    by (simp add: databases_def)
  obtain c1 rs1 out1 st1 where
    l: "stream_operations_loop run pause 9 cassandra operations 0 [] [] st
          = ((c1, rs1, out1), st1)"
    by (cases "stream_operations_loop run pause 9 cassandra operations 0 [] [] st") auto
  from stream_operations_loop_first [of run pause 9 cassandra op_write "[op_read, op_update]"
      0 "[]" "[]" st]
  obtain ys where o: "out1 = status_event cassandra op_write starting 11 None # ys"
    using l unfolding ops p by auto
  obtain c2 rs2 out2 st2 where
    m: "stream_databases_loop run pause 9 [mongo, cockroach] operations c1 rs1 out1 st1
          = ((c2, rs2, out2), st2)"
    by (cases "stream_databases_loop run pause 9 [mongo, cockroach] operations c1 rs1 out1 st1")
       auto
  from stream_databases_loop_prefix [of run pause 9 "[mongo, cockroach]" operations
      c1 rs1 out1 st1]
  obtain zs where z: "out2 = out1 @ zs" using m by auto
  have "stream_databases_loop run pause 9 databases operations 0 [] [] st
          = ((c2, rs2, out2), st2)"
    unfolding dbs by (subst stream_databases_loop.simps(2)) (simp only: l m prod.case)
  then have "fst (handler_stream_with run pause ''POST'' st) = Stream (out2 @ [CompleteEvent rs2])"
    by (simp add: handler_stream_with_def n)
  with o z show ?thesis by simp
qed

text \<open>
  C9, as amended. In the streamed full-matrix run, every status event carries
  \<open>progress = round(100 \<times> k / 9)\<close> where \<open>k\<close> is the number of cells started when the
  event is written, the cell of the event included (the counter is incremented before
  the \<open>starting\<close> event of a cell, so the four events of the k-th cell all carry the value
  of \<open>k\<close>); nine cells are started; the progress values are integers from 0 to 100 and never
  decrease along the stream. The quotient is taken exactly; no value of
  \<open>100 \<times> k / 9\<close> lies at a rounding tie, so the floating-point value rounds alike.
\<close>

theorem stream_progress:
  "progress_by_started 9 0 (stream_statuses (fst (handler_stream env ''POST'' st))) \<and>
   length (filter (\<lambda>s. status s = starting)
             (stream_statuses (fst (handler_stream env ''POST'' st)))) = 9 \<and>
   sorted (map progress (stream_statuses (fst (handler_stream env ''POST'' st)))) \<and>
   (\<forall>s\<in>set (stream_statuses (fst (handler_stream env ''POST'' st))).
      0 \<le> progress s \<and> progress s \<le> 100)"
proof -
  let ?run = "runTest_io env" and ?pause = "pause_world env"
  obtain c1 rs1 out1 st1 where
    l: "stream_databases_loop ?run ?pause (length databases * length operations)
          databases operations 0 [] [] st = ((c1, rs1, out1), st1)"
    by (cases "stream_databases_loop ?run ?pause (length databases * length operations)
          databases operations 0 [] [] st") auto
  have "case stream_databases_loop ?run ?pause (length databases * length operations)
               databases operations 0 [] [] st of
           ((c1, rs1, out1), st1) \<Rightarrow>
             c1 = 0 + length databases * length operations \<and>
             progress_by_started (length databases * length operations) 0 (statuses out1) \<and>
             length (filter (\<lambda>s. status s = starting) (statuses out1)) = c1 \<and>
             (\<exists>ys. out1 = [] @ ys)"
    by (rule stream_databases_loop_inv) simp_all
  moreover have n: "length databases * length operations = 9"
    by (simp add: databases_def operations_def)
  ultimately have a: "progress_by_started 9 0 (statuses out1)"
    and b: "length (filter (\<lambda>s. status s = starting) (statuses out1)) = 9"
    using l by simp_all
  have s: "stream_statuses (fst (handler_stream env ''POST'' st)) = statuses out1"
    using l by (simp add: handler_stream_def handler_stream_with_def stream_statuses_def
        statuses_append)
  have bounds: "\<forall>x\<in>set (statuses out1). 0 \<le> progress x \<and> progress x \<le> 100"
  proof
    fix x assume "x \<in> set (statuses out1)"
    from started_bounds [OF a this] b
    have "Math_round (real (0::nat) / real (9::nat) * 100) \<le> progress x"
      "progress x \<le> Math_round (real (9::nat) / real (9::nat) * 100)"
      by simp_all
    then show "0 \<le> progress x \<and> progress x \<le> 100"
      by (simp add: Math_round_def)
  qed
  from a b started_sorted [OF a] bounds show ?thesis
    by (simp only: s simp_thms)
qed

theorem stream_progress_witness:
  "progress_by_started 9 0 (stream_statuses (fst (handler_stream sim_env ''POST'' fresh_state))) \<and>
   length (filter (\<lambda>s. status s = starting)
             (stream_statuses (fst (handler_stream sim_env ''POST'' fresh_state)))) = 9 \<and>
   sorted (map progress (stream_statuses (fst (handler_stream sim_env ''POST'' fresh_state)))) \<and>
   list_all (\<lambda>s. 0 \<le> progress s \<and> progress s \<le> 100)
     (stream_statuses (fst (handler_stream sim_env ''POST'' fresh_state)))"
  using stream_progress [of sim_env fresh_state]
  by (simp add: list_all_iff)

text \<open>
  C9 as stated fails: the first event of every run is the \<open>starting\<close> event of the
  first cell and carries progress 11, while no cell has completed yet
  (\<open>round(100 \<times> 0 / 9) = 0\<close>).
\<close>

theorem progress_by_completed_counterexample:
  "\<not> progress_by_completed 9 0 (stream_statuses (fst (handler_stream sim_env ''POST'' fresh_state)))"
proof -
  obtain es where
    "fst (handler_stream sim_env ''POST'' fresh_state)
       = Stream (status_event cassandra op_write starting 11 None # es)"
    using stream_first_event [of "runTest_io sim_env" "pause_world sim_env" fresh_state]
    by (auto simp: handler_stream_def)
  then show ?thesis
    by (simp add: stream_statuses_def statuses_status_event Let_def Math_round_def)
qed

section \<open>Repeated runs\<close>

lemma repeat_iterations_step:
  "i < repeats \<Longrightarrow> run db opn st = (Inr r, st1) \<Longrightarrow>
   repeat_iterations run pause repeats totalOperations db opn i k ts out st
     = repeat_iterations run pause repeats totalOperations db opn (i + 1) (k + 1)
         (ts @ [timeTaken r])
         (out @ [RepRunning (dbLabels db) opn (i + 1) repeats
                   (Math_round (real (k + 1) / real totalOperations * 100))])
         (pause 200 st1)"
  by (subst repeat_iterations.simps) (simp add: Let_def)

lemma repeat_iterations_step_catch:
  "i < repeats \<Longrightarrow> run db opn st = (Inl msg, st1) \<Longrightarrow>
   repeat_iterations run pause repeats totalOperations db opn i k ts out st
     = repeat_iterations run pause repeats totalOperations db opn (i + 1) (k + 1)
         (ts @ [0])
         (out @ [RepRunning (dbLabels db) opn (i + 1) repeats
                   (Math_round (real (k + 1) / real totalOperations * 100))])
         st1"
  by (subst repeat_iterations.simps) (simp add: Let_def)

lemma repeat_iterations_done:
  "\<not> i < repeats \<Longrightarrow>
   repeat_iterations run pause repeats totalOperations db opn i k ts out st = ((k, ts, out), st)"
  by (subst repeat_iterations.simps) simp

lemma repeat_iterations_times:
  "\<forall>st. I st \<longrightarrow> (\<exists>r st1. run db opn st = (Inr r, st1) \<and> timeTaken r = t \<and> I st1) \<Longrightarrow>
   \<forall>ms st. I st \<longrightarrow> I (pause ms st) \<Longrightarrow> I st \<Longrightarrow>
   fst (snd (fst (repeat_iterations run pause repeats totalOperations db opn i k ts out st)))
     = ts @ replicate (repeats - i) t"
proof (induction "repeats - i" arbitrary: i k ts out st)
  case 0
  then show ?case by (simp add: repeat_iterations_done)
next
  case (Suc d)
  from Suc.hyps(2) have lt: "i < repeats" by simp
  from Suc.prems obtain r st1 where
    r: "run db opn st = (Inr r, st1)" "timeTaken r = t" "I st1"
    by blast
  have i1: "I (pause 200 st1)" using Suc.prems(2) r(3) by blast
  have d: "d = repeats - (i + 1)" using Suc.hyps(2) by simp
  have rep: "replicate (repeats - i) t = t # replicate (repeats - (i + 1)) t"
    using Suc.hyps(2) [symmetric] d by simp
  from Suc.hyps(1) [OF d Suc.prems(1) Suc.prems(2) i1]
  show ?case
    by (simp only: repeat_iterations_step [where run = run and db = db and opn = opn and st = st, OF lt r(1)] r(2) rep append_assoc append.simps)
qed

lemma repeat_iterations_length:
  "length (fst (snd (fst (repeat_iterations run pause repeats totalOperations db opn i k ts out st))))
     = length ts + (repeats - i)"
proof (induction "repeats - i" arbitrary: i k ts out st)
  case 0
  then show ?case by (simp add: repeat_iterations_done)
next
  case (Suc d)
  from Suc.hyps(2) have lt: "i < repeats" by simp
  have d: "d = repeats - (i + 1)" using Suc.hyps(2) by simp
  obtain x st1 where r: "run db opn st = (x, st1)" by (cases "run db opn st")
  show ?case
  proof (cases x)
    case (Inl msg)
    with r have e: "run db opn st = (Inl msg, st1)" by simp
    show ?thesis
      using Suc.hyps(1) [OF d] Suc.hyps(2)
      by (simp add: repeat_iterations_step_catch [where run = run and db = db and opn = opn and st = st, OF lt e])
  next
    case (Inr res)
    with r have e: "run db opn st = (Inr res, st1)" by simp
    show ?thesis
      using Suc.hyps(1) [OF d] Suc.hyps(2)
      by (simp add: repeat_iterations_step [where run = run and db = db and opn = opn and st = st, OF lt e])
  qed
qed

lemma timeout_read:
  "\<exists>w1. runTest sim_env cassandra op_read (timeout_state\<lparr>world := w\<rparr>) =
     (\<lparr> database = ''Cassandra'', operation = op_read, timeTaken = 5, recordCount = 1000,
        dataIntegrity = False, error = Some ''timeout'' \<rparr>,
      timeout_state\<lparr>world := w1\<rparr>)"
proof -
  obtain recs w2 where g: "generateTestData sim_env RECORD_COUNT w = (recs, w2)"
    by (cases "generateTestData sim_env RECORD_COUNT w")
  have "length recs = 10000"
    using generateTestData_loop_length [of sim_env RECORD_COUNT 0 "[]" w] g
    by (simp add: generateTestData_def RECORD_COUNT_def)
  then have n: "length (slice (map rec_id recs) 0 1000) = 1000"
    by (simp add: slice_def)
  have t: "Date_now sim_env (tick 5 w2) - Date_now sim_env w2 = 5"
    by (simp add: sim_env_def tick_def)
  have a: "runCassandraReadTest sim_env (Some failing_sql) (slice (map rec_id recs) 0 1000) w2 =
     (\<lparr> database = ''Cassandra'', operation = op_read, timeTaken = 5, recordCount = 1000,
        dataIntegrity = False, error = Some ''timeout'' \<rparr>, tick 5 w2)"
    using n t
    by (simp add: runCassandraReadTest_def runCassandraReadTest_try_def adapter_steps
          failing_sql_def)
  have "runTest sim_env cassandra op_read (timeout_state\<lparr>world := w\<rparr>) =
     (\<lparr> database = ''Cassandra'', operation = op_read, timeTaken = 5, recordCount = 1000,
        dataIntegrity = False, error = Some ''timeout'' \<rparr>,
      timeout_state\<lparr>world := tick 5 w2\<rparr>)"
    using g a
    by (simp add: runTest_def connect_def connectCassandra_def run_adapter_def timeout_state_def)
  then show ?thesis by blast
qed


lemma ten_fives:
  "repeatResult cassandra op_read (replicate 10 5) =
     \<lparr> rep_database = ''Cassandra'', rep_operation = op_read,
       times = [5, 5, 5, 5, 5, 5, 5, 5, 5, 5], average = 5, min_time = 5, max_time = 5 \<rparr>"
proof -
  have r: "replicate 10 (5::int) = [5, 5, 5, 5, 5, 5, 5, 5, 5, 5]"
    by (simp add: numeral_eq_Suc)
  show ?thesis
    unfolding r
    by (simp add: repeatResult_def dbLabels_def calc_average_def calc_min_def calc_max_def
          validTimes_def Let_def)
qed

text \<open>
  C8: the program at a failing input. The process holds an established Cassandra
  connection and the server rejects every statement after 5 ms. Whatever the rest of the
  world is, a read test then fails (its result carries the error \<open>timeout\<close>), and the ten
  iterations of the cell (Cassandra, read) of the repeated run record ten entries of 5,
  with average, minimum and maximum 5: the failed iterations are not marked by zero.
  The catch block that pushes 0 is never entered, since \<open>runTest\<close> turns every failure
  into a result.
\<close>

theorem repeated_failures_keep_their_time:
  "\<forall>w k out.
     error (fst (runTest sim_env cassandra op_read (timeout_state\<lparr>world := w\<rparr>))) = Some ''timeout'' \<and>
     repeatResult cassandra op_read
       (fst (snd (fst (repeat_iterations (runTest_io sim_env) (pause_world sim_env) repeatCount
                         (length databases * length operations * repeatCount)
                         cassandra op_read 0 k [] out (timeout_state\<lparr>world := w\<rparr>)))))
     = \<lparr> rep_database = ''Cassandra'', rep_operation = op_read,
         times = [5, 5, 5, 5, 5, 5, 5, 5, 5, 5], average = 5, min_time = 5, max_time = 5 \<rparr>"
proof (intro allI conjI)
  fix w :: sim and k :: nat and out :: "repeat_event list"
  show "error (fst (runTest sim_env cassandra op_read (timeout_state\<lparr>world := w\<rparr>))) = Some ''timeout''"
    using timeout_read [of w] by auto
  define I :: "sim state \<Rightarrow> bool" where "I = (\<lambda>st. \<exists>w. st = timeout_state\<lparr>world := w\<rparr>)"
  have run: "\<forall>st. I st \<longrightarrow>
               (\<exists>r st1. runTest_io sim_env cassandra op_read st = (Inr r, st1) \<and> timeTaken r = 5 \<and> I st1)"
  proof (intro allI impI)
    fix st assume "I st"
    then obtain w0 where st: "st = timeout_state\<lparr>world := w0\<rparr>" by (auto simp: I_def)
    from timeout_read [of w0] obtain w1 where
      "runTest sim_env cassandra op_read (timeout_state\<lparr>world := w0\<rparr>) =
         (\<lparr> database = ''Cassandra'', operation = op_read, timeTaken = 5, recordCount = 1000,
            dataIntegrity = False, error = Some ''timeout'' \<rparr>,
          timeout_state\<lparr>world := w1\<rparr>)"
      by blast
    then show "\<exists>r st1. runTest_io sim_env cassandra op_read st = (Inr r, st1) \<and> timeTaken r = 5 \<and> I st1"
      unfolding st by (auto simp: runTest_io_def I_def)
  qed
  have pause: "\<forall>ms st. I st \<longrightarrow> I (pause_world sim_env ms st)"
    by (auto simp: I_def pause_world_def timeout_state_def)
  have start: "I (timeout_state\<lparr>world := w\<rparr>)"
    by (auto simp: I_def)
  have "fst (snd (fst (repeat_iterations (runTest_io sim_env) (pause_world sim_env) repeatCount
                         (length databases * length operations * repeatCount)
                         cassandra op_read 0 k [] out (timeout_state\<lparr>world := w\<rparr>))))
          = [] @ replicate (repeatCount - 0) 5"
    by (rule repeat_iterations_times
          [where I = I and run = "runTest_io sim_env" and db = cassandra and opn = op_read
             and pause = "pause_world sim_env", OF run pause start])
  then show "repeatResult cassandra op_read
       (fst (snd (fst (repeat_iterations (runTest_io sim_env) (pause_world sim_env) repeatCount
                         (length databases * length operations * repeatCount)
                         cassandra op_read 0 k [] out (timeout_state\<lparr>world := w\<rparr>)))))
     = \<lparr> rep_database = ''Cassandra'', rep_operation = op_read,
         times = [5, 5, 5, 5, 5, 5, 5, 5, 5, 5], average = 5, min_time = 5, max_time = 5 \<rparr>"
    using ten_fives by (simp add: repeatCount_def)
qed

end
